theory Spec2Isabelle
  imports Complex_Main "HOL-Library.Word"
begin

section \<open>PostgreSQL values\<close>

text \<open>
  The migrations declare their counters as \<^verbatim>\<open>INTEGER\<close> (four bytes, nullable unless
  declared \<^verbatim>\<open>NOT NULL\<close>) and their instants as \<^verbatim>\<open>TIMESTAMPTZ\<close>. A nullable column is an
  \<open>option\<close>, \<open>None\<close> being \<^verbatim>\<open>NULL\<close>. Instants are counted in whole seconds, the unit of
  \<^verbatim>\<open>interval_seconds * INTERVAL '1 second'\<close>. Comparisons follow SQL's three-valued
  logic: a comparison with \<^verbatim>\<open>NULL\<close> is unknown (\<open>None\<close>), and \<^verbatim>\<open>WHERE\<close> and
  \<^verbatim>\<open>CASE WHEN\<close> take a row or a branch only when the condition is true.
  PostgreSQL raises \<^verbatim>\<open>integer out of range\<close> when an \<^verbatim>\<open>INTEGER\<close> sum leaves the
  four-byte range; the statement then fails and the table keeps its rows.
\<close>

type_synonym uuid = string
type_synonym timestamptz = int

datatype sql_error = Integer_out_of_range

definition int4_max :: int where
  "int4_max = 2147483647"

definition int4_min :: int where
  "int4_min = - 2147483648"

definition int4pl :: "int option \<Rightarrow> int option \<Rightarrow> sql_error + int option" where
  "int4pl a b =
     (case a of
        None \<Rightarrow> Inr None
      | Some x \<Rightarrow>
          (case b of
             None \<Rightarrow> Inr None
           | Some y \<Rightarrow>
               if x + y < int4_min \<or> int4_max < x + y then Inl Integer_out_of_range
               else Inr (Some (x + y))))"

definition sql_lt :: "int option \<Rightarrow> int option \<Rightarrow> bool option" where
  "sql_lt a b =
     (case a of None \<Rightarrow> None
      | Some x \<Rightarrow> (case b of None \<Rightarrow> None | Some y \<Rightarrow> Some (x < y)))"

definition sql_le :: "int option \<Rightarrow> int option \<Rightarrow> bool option" where
  "sql_le a b =
     (case a of None \<Rightarrow> None
      | Some x \<Rightarrow> (case b of None \<Rightarrow> None | Some y \<Rightarrow> Some (x \<le> y)))"

definition sql_gt :: "int option \<Rightarrow> int option \<Rightarrow> bool option" where
  "sql_gt a b = sql_lt b a"

definition sql_ge :: "int option \<Rightarrow> int option \<Rightarrow> bool option" where
  "sql_ge a b = sql_le b a"

definition sql_eq :: "'a option \<Rightarrow> 'a option \<Rightarrow> bool option" where
  "sql_eq a b =
     (case a of None \<Rightarrow> None
      | Some x \<Rightarrow> (case b of None \<Rightarrow> None | Some y \<Rightarrow> Some (x = y)))"

definition sql_and :: "bool option \<Rightarrow> bool option \<Rightarrow> bool option" where
  "sql_and a b =
     (if a = Some False \<or> b = Some False then Some False
      else if a = Some True \<and> b = Some True then Some True
      else None)"

definition sql_or :: "bool option \<Rightarrow> bool option \<Rightarrow> bool option" where
  "sql_or a b =
     (if a = Some True \<or> b = Some True then Some True
      else if a = Some False \<and> b = Some False then Some False
      else None)"

definition is_null :: "'a option \<Rightarrow> bool option" where
  "is_null a = Some (a = None)"

definition is_true :: "bool option \<Rightarrow> bool" where
  "is_true c = (c = Some True)"

text \<open>
  \<^verbatim>\<open>UPDATE t SET ... WHERE ...\<close>: every row the condition takes is replaced by what the
  \<^verbatim>\<open>SET\<close> list computes from the old row; an error in one row fails the statement.
\<close>

fun sql_update :: "('r \<Rightarrow> bool) \<Rightarrow> ('r \<Rightarrow> sql_error + 'r) \<Rightarrow> 'r list \<Rightarrow> sql_error + 'r list" where
  "sql_update cond upd [] = Inr []"
| "sql_update cond upd (r # rs) =
     (if cond r then
        (case upd r of
           Inl e \<Rightarrow> Inl e
         | Inr r' \<Rightarrow>
             (case sql_update cond upd rs of Inl e \<Rightarrow> Inl e | Inr rs' \<Rightarrow> Inr (r' # rs')))
      else
        (case sql_update cond upd rs of Inl e \<Rightarrow> Inl e | Inr rs' \<Rightarrow> Inr (r # rs')))"

section \<open>Migration 20240101000002: cron schedules\<close>

record cron_schedule =
  cs_id :: uuid
  cs_user_id :: uuid
  schedule_name :: string
  enabled :: bool
  interval_seconds :: int
  coins :: "string list option"
  last_run_at :: "timestamptz option"
  next_run_at :: "timestamptz option"
  run_count :: "int option"
  last_error :: "string option"
  consecutive_errors :: "int option"
  max_consecutive_errors :: "int option"
  created_at :: "timestamptz option"
  updated_at :: "timestamptz option"

text \<open>
  The row an \<^verbatim>\<open>INSERT\<close> stores when it gives only the key, the owner and the instant,
  every other column taking its \<^verbatim>\<open>DEFAULT\<close>.
\<close>

definition cron_schedules_default :: "uuid \<Rightarrow> uuid \<Rightarrow> timestamptz \<Rightarrow> cron_schedule" where
  "cron_schedules_default new_id owner now =
     \<lparr> cs_id = new_id, cs_user_id = owner, schedule_name = ''default'',
       enabled = False, interval_seconds = 300, coins = Some [],
       last_run_at = None, next_run_at = None, run_count = Some 0,
       last_error = None, consecutive_errors = Some 0,
       max_consecutive_errors = Some 5,
       created_at = Some now, updated_at = Some now \<rparr>"

text \<open>The trigger \<^verbatim>\<open>update_updated_at_column\<close>, run before every row update.\<close>

definition update_updated_at_column :: "timestamptz \<Rightarrow> cron_schedule \<Rightarrow> cron_schedule" where
  "update_updated_at_column now new = new\<lparr>updated_at := Some now\<rparr>"

record due_schedule =
  schedule_id :: uuid
  due_user_id :: uuid
  due_coins :: "string list option"
  due_interval_seconds :: int

text \<open>The \<^verbatim>\<open>WHERE\<close> clause of \<^verbatim>\<open>get_due_schedules\<close>, as a three-valued condition.\<close>

definition due_condition :: "timestamptz \<Rightarrow> cron_schedule \<Rightarrow> bool option" where
  "due_condition now cs =
     sql_and
       (sql_and (sql_eq (Some (enabled cs)) (Some True))
                (sql_lt (consecutive_errors cs) (max_consecutive_errors cs)))
       (sql_or (is_null (next_run_at cs)) (sql_le (next_run_at cs) (Some now)))"

definition due_columns :: "cron_schedule \<Rightarrow> due_schedule" where
  "due_columns cs =
     \<lparr> schedule_id = cs_id cs, due_user_id = cs_user_id cs,
       due_coins = coins cs, due_interval_seconds = interval_seconds cs \<rparr>"

definition get_due_schedules :: "timestamptz \<Rightarrow> cron_schedule list \<Rightarrow> due_schedule list" where
  "get_due_schedules now tbl =
     map due_columns (filter (\<lambda>cs. is_true (due_condition now cs)) tbl)"

text \<open>The \<^verbatim>\<open>SET\<close> list of \<^verbatim>\<open>record_schedule_success\<close>, evaluated on the old row.\<close>

definition success_set :: "timestamptz \<Rightarrow> cron_schedule \<Rightarrow> sql_error + cron_schedule" where
  "success_set now cs =
     (case int4pl (run_count cs) (Some 1) of
        Inl e \<Rightarrow> Inl e
      | Inr rc \<Rightarrow>
          Inr (update_updated_at_column now
                 (cs\<lparr> last_run_at := Some now,
                      next_run_at := Some (now + interval_seconds cs * 1),
                      run_count := rc,
                      consecutive_errors := Some 0,
                      last_error := None,
                      updated_at := Some now \<rparr>)))"

definition record_schedule_success ::
  "timestamptz \<Rightarrow> uuid \<Rightarrow> cron_schedule list \<Rightarrow> sql_error + cron_schedule list" where
  "record_schedule_success now p_schedule_id tbl =
     sql_update (\<lambda>cs. cs_id cs = p_schedule_id) (success_set now) tbl"

text \<open>
  The \<^verbatim>\<open>SET\<close> list of \<^verbatim>\<open>record_schedule_error\<close>. The sum \<^verbatim>\<open>consecutive_errors + 1\<close> is
  written twice in the source, both times over the old row. The \<^verbatim>\<open>SELECT ... INTO
  v_schedule\<close> before the update reads a variable that is never used.
\<close>

definition error_set ::
  "timestamptz \<Rightarrow> string option \<Rightarrow> cron_schedule \<Rightarrow> sql_error + cron_schedule" where
  "error_set now p_error cs =
     (case int4pl (consecutive_errors cs) (Some 1) of
        Inl e \<Rightarrow> Inl e
      | Inr ce \<Rightarrow>
          Inr (update_updated_at_column now
                 (cs\<lparr> last_error := p_error,
                      consecutive_errors := ce,
                      enabled :=
                        (if is_true (sql_ge ce (max_consecutive_errors cs)) then False
                         else enabled cs),
                      next_run_at := Some (now + interval_seconds cs * 1),
                      updated_at := Some now \<rparr>)))"

definition record_schedule_error ::
  "timestamptz \<Rightarrow> uuid \<Rightarrow> string option \<Rightarrow> cron_schedule list \<Rightarrow> sql_error + cron_schedule list" where
  "record_schedule_error now p_schedule_id p_error tbl =
     sql_update (\<lambda>cs. cs_id cs = p_schedule_id) (error_set now p_error) tbl"

text \<open>
  The three server-side operations on schedules. A failed statement is rolled back, so
  the table after a call is the old one when the call raised.
\<close>

datatype schedule_call =
  Get_due_schedules
| Record_schedule_success uuid
| Record_schedule_error uuid "string option"

definition after_call :: "timestamptz \<Rightarrow> schedule_call \<Rightarrow> cron_schedule list \<Rightarrow> cron_schedule list" where
  "after_call now c tbl =
     (case c of
        Get_due_schedules \<Rightarrow> tbl
      | Record_schedule_success p \<Rightarrow>
          (case record_schedule_success now p tbl of Inl e \<Rightarrow> tbl | Inr tbl' \<Rightarrow> tbl')
      | Record_schedule_error p m \<Rightarrow>
          (case record_schedule_error now p m tbl of Inl e \<Rightarrow> tbl | Inr tbl' \<Rightarrow> tbl'))"

text \<open>A sequence of calls, each at its own instant.\<close>

fun after_calls :: "(timestamptz \<times> schedule_call) list \<Rightarrow> cron_schedule list \<Rightarrow> cron_schedule list" where
  "after_calls [] tbl = tbl"
| "after_calls ((now, c) # cs) tbl = after_calls cs (after_call now c tbl)"

text \<open>
  Consecutive \<^verbatim>\<open>record_schedule_error\<close> calls on one schedule, each with its instant and
  message.
\<close>

definition error_calls :: "uuid \<Rightarrow> (timestamptz \<times> string option) list \<Rightarrow> (timestamptz \<times> schedule_call) list" where
  "error_calls p errs = map (\<lambda>(t, m). (t, Record_schedule_error p m)) errs"

section \<open>Migration 20240101000004: execution sessions\<close>

record execution_session =
  es_id :: uuid
  es_user_id :: uuid
  es_encrypted_session_token :: string
  es_created_at :: "timestamptz option"
  es_expires_at :: timestamptz
  es_revoked :: "bool option"
  es_last_used_at :: "timestamptz option"
  es_use_count :: "int option"

record active_session =
  session_id :: uuid
  encrypted_session_token :: string
  expires_at :: timestamptz

text \<open>The \<^verbatim>\<open>WHERE\<close> clause of \<^verbatim>\<open>get_active_session\<close>.\<close>

definition active_condition :: "timestamptz \<Rightarrow> uuid \<Rightarrow> execution_session \<Rightarrow> bool option" where
  "active_condition now p_user_id es =
     sql_and
       (sql_and (sql_eq (Some (es_user_id es)) (Some p_user_id))
                (sql_eq (es_revoked es) (Some False)))
       (sql_gt (Some (es_expires_at es)) (Some now))"

definition active_columns :: "execution_session \<Rightarrow> active_session" where
  "active_columns es =
     \<lparr> session_id = es_id es, encrypted_session_token = es_encrypted_session_token es,
       expires_at = es_expires_at es \<rparr>"

text \<open>
  \<^verbatim>\<open>ORDER BY es.expires_at DESC LIMIT 1\<close>. SQL leaves the order of rows with equal keys
  open; the model sorts stably, so among sessions that expire together the one stored
  first is taken.
\<close>

definition get_active_session :: "timestamptz \<Rightarrow> uuid \<Rightarrow> execution_session list \<Rightarrow> active_session list" where
  "get_active_session now p_user_id tbl =
     map active_columns
       (take 1 (sort_key (\<lambda>es. - es_expires_at es)
          (filter (\<lambda>es. is_true (active_condition now p_user_id es)) tbl)))"

definition usage_set :: "timestamptz \<Rightarrow> execution_session \<Rightarrow> sql_error + execution_session" where
  "usage_set now es =
     (case int4pl (es_use_count es) (Some 1) of
        Inl e \<Rightarrow> Inl e
      | Inr uc \<Rightarrow> Inr (es\<lparr> es_last_used_at := Some now, es_use_count := uc \<rparr>))"

definition record_session_usage ::
  "timestamptz \<Rightarrow> uuid \<Rightarrow> execution_session list \<Rightarrow> sql_error + execution_session list" where
  "record_session_usage now p_session_id tbl =
     sql_update (\<lambda>es. es_id es = p_session_id) (usage_set now) tbl"

section \<open>Migration 20240101000000: encrypted keys and user settings\<close>

text \<open>
  Of both tables, the columns the edge functions filter on or read; \<open>encrypted_password\<close>
  is the column migration 20240101000004 adds. Both tables are unique per user (and key
  name).
\<close>

record encrypted_key =
  ek_id :: uuid
  ek_user_id :: uuid
  key_name :: string
  encrypted_blob :: string
  encryption_salt :: string
  encrypted_password :: "string option"

record user_setting =
  us_id :: uuid
  us_user_id :: uuid
  dealer_settings :: "string option"

section \<open>The database as the edge functions reach it\<close>

text \<open>
  The edge functions reach the tables through the Supabase client. A call can fail
  before it reaches the database; \<open>faults\<close> lists, for the calls still to come, whether
  each one fails so (an empty list: none does). \<open>call_log\<close> records every call made, in
  order. \<open>clock\<close> is the database's \<^verbatim>\<open>NOW()\<close>.
\<close>

datatype db_call =
  Rpc_get_active_session uuid
| Rpc_record_session_usage uuid
| Rpc_get_due_schedules
| Rpc_record_schedule_success uuid
| Rpc_record_schedule_error uuid string
| Select_encrypted_password uuid
| Select_encrypted_blob uuid
| Select_dealer_settings uuid
| Update_revoked uuid

datatype pg_error = Fetch_failed | Not_single_row | Sql_raised sql_error

record world =
  cron_schedules :: "cron_schedule list"
  execution_sessions :: "execution_session list"
  encrypted_keys :: "encrypted_key list"
  user_settings :: "user_setting list"
  clock :: timestamptz
  faults :: "bool list"
  call_log :: "db_call list"

definition next_fault :: "world \<Rightarrow> bool" where
  "next_fault w = (case faults w of [] \<Rightarrow> False | f # fs \<Rightarrow> f)"

definition begin_call :: "db_call \<Rightarrow> world \<Rightarrow> world" where
  "begin_call c w = w\<lparr> faults := tl (faults w), call_log := call_log w @ [c] \<rparr>"

text \<open>\<^verbatim>\<open>.single()\<close>: exactly one row, or an error.\<close>

definition single :: "'r list \<Rightarrow> pg_error + 'r" where
  "single rows = (case rows of [r] \<Rightarrow> Inr r | _ \<Rightarrow> Inl Not_single_row)"

definition rpc_get_active_session :: "uuid \<Rightarrow> world \<Rightarrow> (pg_error + active_session list) \<times> world" where
  "rpc_get_active_session p_user_id w =
     (let w1 = begin_call (Rpc_get_active_session p_user_id) w in
      if next_fault w then (Inl Fetch_failed, w1)
      else (Inr (get_active_session (clock w1) p_user_id (execution_sessions w1)), w1))"

definition rpc_record_session_usage :: "uuid \<Rightarrow> world \<Rightarrow> (pg_error + unit) \<times> world" where
  "rpc_record_session_usage p_session_id w =
     (let w1 = begin_call (Rpc_record_session_usage p_session_id) w in
      if next_fault w then (Inl Fetch_failed, w1)
      else
        (case record_session_usage (clock w1) p_session_id (execution_sessions w1) of
           Inl e \<Rightarrow> (Inl (Sql_raised e), w1)
         | Inr tbl \<Rightarrow> (Inr (), w1\<lparr>execution_sessions := tbl\<rparr>)))"

definition rpc_get_due_schedules :: "world \<Rightarrow> (pg_error + due_schedule list) \<times> world" where
  "rpc_get_due_schedules w =
     (let w1 = begin_call Rpc_get_due_schedules w in
      if next_fault w then (Inl Fetch_failed, w1)
      else (Inr (get_due_schedules (clock w1) (cron_schedules w1)), w1))"

definition rpc_record_schedule_success :: "uuid \<Rightarrow> world \<Rightarrow> (pg_error + unit) \<times> world" where
  "rpc_record_schedule_success p_schedule_id w =
     (let w1 = begin_call (Rpc_record_schedule_success p_schedule_id) w in
      if next_fault w then (Inl Fetch_failed, w1)
      else
        (case record_schedule_success (clock w1) p_schedule_id (cron_schedules w1) of
           Inl e \<Rightarrow> (Inl (Sql_raised e), w1)
         | Inr tbl \<Rightarrow> (Inr (), w1\<lparr>cron_schedules := tbl\<rparr>)))"

definition rpc_record_schedule_error :: "uuid \<Rightarrow> string \<Rightarrow> world \<Rightarrow> (pg_error + unit) \<times> world" where
  "rpc_record_schedule_error p_schedule_id p_error w =
     (let w1 = begin_call (Rpc_record_schedule_error p_schedule_id p_error) w in
      if next_fault w then (Inl Fetch_failed, w1)
      else
        (case record_schedule_error (clock w1) p_schedule_id (Some p_error) (cron_schedules w1) of
           Inl e \<Rightarrow> (Inl (Sql_raised e), w1)
         | Inr tbl \<Rightarrow> (Inr (), w1\<lparr>cron_schedules := tbl\<rparr>)))"

text \<open>
  \<^verbatim>\<open>from('encrypted_keys').select(...).eq('user_id', u).eq('key_name', 'hyperliquid').single()\<close>,
  once for the stored password and once for the key blob.
\<close>

definition hyperliquid_key_rows :: "uuid \<Rightarrow> world \<Rightarrow> encrypted_key list" where
  "hyperliquid_key_rows user w =
     filter (\<lambda>k. ek_user_id k = user \<and> key_name k = ''hyperliquid'') (encrypted_keys w)"

definition select_encrypted_password :: "uuid \<Rightarrow> world \<Rightarrow> (pg_error + encrypted_key) \<times> world" where
  "select_encrypted_password user w =
     (let w1 = begin_call (Select_encrypted_password user) w in
      if next_fault w then (Inl Fetch_failed, w1)
      else (single (hyperliquid_key_rows user w1), w1))"

definition select_encrypted_blob :: "uuid \<Rightarrow> world \<Rightarrow> (pg_error + encrypted_key) \<times> world" where
  "select_encrypted_blob user w =
     (let w1 = begin_call (Select_encrypted_blob user) w in
      if next_fault w then (Inl Fetch_failed, w1)
      else (single (hyperliquid_key_rows user w1), w1))"

definition select_dealer_settings :: "uuid \<Rightarrow> world \<Rightarrow> (pg_error + user_setting) \<times> world" where
  "select_dealer_settings user w =
     (let w1 = begin_call (Select_dealer_settings user) w in
      if next_fault w then (Inl Fetch_failed, w1)
      else (single (filter (\<lambda>s. us_user_id s = user) (user_settings w1)), w1))"

text \<open>\<^verbatim>\<open>from('execution_sessions').update({ revoked: true }).eq('id', sessionId)\<close>.\<close>

definition update_revoked :: "uuid \<Rightarrow> world \<Rightarrow> (pg_error + unit) \<times> world" where
  "update_revoked sid w =
     (let w1 = begin_call (Update_revoked sid) w in
      if next_fault w then (Inl Fetch_failed, w1)
      else
        (Inr (),
         w1\<lparr>execution_sessions :=
              map (\<lambda>es. if es_id es = sid then es\<lparr>es_revoked := Some True\<rparr> else es)
                (execution_sessions w1)\<rparr>))"

section \<open>The platform under the edge functions\<close>

text \<open>
  What the functions take from the runtime and its libraries, as parameters: the
  environment variables, the host's clock (\<^verbatim>\<open>new Date()\<close>, which is not the
  database's), base64 decoding, WebCrypto and the text codecs. \<open>None\<close> from a
  primitive is the exception it throws. A payload the JSON parser returns for a
  session token has the shape of the \<^verbatim>\<open>SessionPayload\<close> interface; \<open>None\<close> stands for a
  syntax error and for a parse that gives \<^verbatim>\<open>null\<close>, which the callers treat alike.
\<close>

type_synonym byte = "8 word"

record session_payload =
  userId :: string
  payload_password :: string
  expiresAt :: string

record platform =
  deno_env_get :: "string \<Rightarrow> string option"
  date_now :: timestamptz
  atob :: "string \<Rightarrow> byte list option"
  subtle_importKey_raw :: "byte list \<Rightarrow> byte list option"
  subtle_deriveKey_pbkdf2 :: "byte list \<Rightarrow> byte list \<Rightarrow> nat \<Rightarrow> byte list"
  subtle_decrypt_aes_gcm :: "byte list \<Rightarrow> byte list \<Rightarrow> byte list \<Rightarrow> byte list option"
  text_encode :: "string \<Rightarrow> byte list"
  text_decode :: "byte list \<Rightarrow> string"
  json_parse_payload :: "string \<Rightarrow> session_payload option"

datatype js_exn = JsError string | JsThrown

text \<open>\<^verbatim>\<open>e instanceof Error ? e.message : 'Unknown error'\<close>\<close>

definition exn_message :: "js_exn \<Rightarrow> string" where
  "exn_message e = (case e of JsError m \<Rightarrow> m | JsThrown \<Rightarrow> ''Unknown error'')"

text \<open>Whether a string that may be missing is truthy: present and not empty.\<close>

definition truthy :: "string option \<Rightarrow> bool" where
  "truthy v = (case v of None \<Rightarrow> False | Some s \<Rightarrow> s \<noteq> [])"

text \<open>
  \<^verbatim>\<open>TypedArray.prototype.slice(start, end)\<close>: a negative index counts from the end, both
  indices are clamped to the array, and a missing \<open>end\<close> is the length.
\<close>

definition relative_index :: "nat \<Rightarrow> int \<Rightarrow> nat" where
  "relative_index len k = (if k < 0 then nat (max (int len + k) 0) else min (nat k) len)"

definition slice :: "int \<Rightarrow> int option \<Rightarrow> 'a list \<Rightarrow> 'a list" where
  "slice start fin xs =
     (let len = length xs;
          k = relative_index len start;
          final = (case fin of None \<Rightarrow> len | Some e \<Rightarrow> relative_index len e)
      in take (final - k) (drop k xs))"

section \<open>functions/_shared/supabase.ts\<close>

definition createSupabaseClient :: "platform \<Rightarrow> js_exn + unit" where
  "createSupabaseClient pf =
     (if \<not> truthy (deno_env_get pf ''SUPABASE_URL'')
         \<or> \<not> truthy (deno_env_get pf ''SUPABASE_SERVICE_ROLE_KEY'')
      then Inl (JsError ''Missing SUPABASE_URL or SUPABASE_SERVICE_ROLE_KEY'')
      else Inr ())"

section \<open>functions/_shared/execution-session.ts\<close>

record session_validation_result =
  valid :: bool
  session_password :: "string option"
  session_error :: "string option"
  sessionId :: "string option"

datatype tier = Session | Persistent | No_tier

record execution_password =
  password :: "string option"
  tier :: tier
  error :: "string option"

text \<open>The three slices of a decoded token: IV, key and ciphertext.\<close>

definition token_iv :: "byte list \<Rightarrow> byte list" where
  "token_iv combined = slice 0 (Some 12) combined"

definition token_keyBytes :: "byte list \<Rightarrow> byte list" where
  "token_keyBytes combined = slice (- 32) None combined"

definition token_ciphertext :: "byte list \<Rightarrow> byte list" where
  "token_ciphertext combined = slice 12 (Some (- 32)) combined"

definition decryptSessionToken :: "platform \<Rightarrow> string \<Rightarrow> session_payload option" where
  "decryptSessionToken pf encryptedToken =
     (case atob pf encryptedToken of
        None \<Rightarrow> None
      | Some combined \<Rightarrow>
          (case subtle_importKey_raw pf (token_keyBytes combined) of
             None \<Rightarrow> None
           | Some key \<Rightarrow>
               (case subtle_decrypt_aes_gcm pf key (token_iv combined) (token_ciphertext combined) of
                  None \<Rightarrow> None
                | Some decrypted \<Rightarrow> json_parse_payload pf (text_decode pf decrypted))))"

definition decryptStoredPassword :: "platform \<Rightarrow> string \<Rightarrow> string option" where
  "decryptStoredPassword pf encryptedPassword =
     (case atob pf encryptedPassword of
        None \<Rightarrow> None
      | Some combined \<Rightarrow>
          (let iv = slice 0 (Some 12) combined;
               ciphertext = slice 12 None combined;
               serverSecret =
                 (if truthy (deno_env_get pf ''ENCRYPTION_SECRET'')
                  then the (deno_env_get pf ''ENCRYPTION_SECRET'')
                  else ''server-managed-key-placeholder'');
               salt = text_encode pf ''autonomousvault-persistent-key-v1'';
               key = subtle_deriveKey_pbkdf2 pf (text_encode pf serverSecret) salt 100000
           in (case subtle_decrypt_aes_gcm pf key iv ciphertext of
                 None \<Rightarrow> None
               | Some decrypted \<Rightarrow> Some (text_decode pf decrypted))))"

definition invalid_session :: "string \<Rightarrow> session_validation_result" where
  "invalid_session msg =
     \<lparr> valid = False, session_password = None, session_error = Some msg, sessionId = None \<rparr>"

definition validateExecutionSession ::
  "platform \<Rightarrow> uuid \<Rightarrow> world \<Rightarrow> session_validation_result \<times> world" where
  "validateExecutionSession pf user w =
     (case createSupabaseClient pf of
        Inl e \<Rightarrow> (invalid_session (exn_message e), w)
      | Inr supabase \<Rightarrow>
          (case rpc_get_active_session user w of
             (Inl err, w1) \<Rightarrow> (invalid_session ''Failed to check session'', w1)
           | (Inr [], w1) \<Rightarrow> (invalid_session ''No active session found'', w1)
           | (Inr (session # others), w1) \<Rightarrow>
               if expires_at session < date_now pf
               then (invalid_session ''Session expired'', w1)
               else
                 (case decryptSessionToken pf (encrypted_session_token session) of
                    None \<Rightarrow> (invalid_session ''Failed to decrypt session'', w1)
                  | Some payload \<Rightarrow>
                      if userId payload \<noteq> user
                      then (invalid_session ''Session user mismatch'', w1)
                      else
                        (\<lparr> valid = True,
                           session_password = Some (payload_password payload),
                           session_error = None,
                           sessionId = Some (session_id session) \<rparr>,
                         snd (rpc_record_session_usage (session_id session) w1)))))"

definition getExecutionPassword ::
  "platform \<Rightarrow> uuid \<Rightarrow> world \<Rightarrow> execution_password \<times> world" where
  "getExecutionPassword pf user w =
     (case createSupabaseClient pf of
        Inl e \<Rightarrow> (\<lparr> password = None, tier = No_tier, error = Some (exn_message e) \<rparr>, w)
      | Inr supabase \<Rightarrow>
          (let (keyData, w1) = select_encrypted_password user w;
               stored =
                 (case keyData of
                    Inl keyError \<Rightarrow> None
                  | Inr k \<Rightarrow>
                      if truthy (encrypted_password k)
                      then decryptStoredPassword pf (the (encrypted_password k))
                      else None)
           in if truthy stored
              then (\<lparr> password = stored, tier = Persistent, error = None \<rparr>, w1)
              else
                (let (sessionResult, w2) = validateExecutionSession pf user w1
                 in if valid sessionResult \<and> truthy (session_password sessionResult)
                    then (\<lparr> password = session_password sessionResult, tier = Session,
                            error = None \<rparr>, w2)
                    else (\<lparr> password = None, tier = No_tier,
                            error = Some (if truthy (session_error sessionResult)
                                          then the (session_error sessionResult)
                                          else ''No valid session or stored password'') \<rparr>,
                          w2))))"

definition revokeSession :: "platform \<Rightarrow> uuid \<Rightarrow> world \<Rightarrow> bool \<times> world" where
  "revokeSession pf sid w =
     (case createSupabaseClient pf of
        Inl e \<Rightarrow> (False, w)
      | Inr supabase \<Rightarrow>
          (case update_revoked sid w of
             (Inl err, w1) \<Rightarrow> (False, w1)
           | (Inr ok, w1) \<Rightarrow> (True, w1)))"

section \<open>JavaScript values\<close>

text \<open>
  The values the adapter reads from HTTP responses and writes into requests. Numbers
  are integers here: asset indices, nonces and order ids; prices and sizes travel as
  strings. \<open>JInherited k\<close> is what a property read finds under a name such as
  \<^verbatim>\<open>constructor\<close> that every object inherits: a function or a prototype, not data.
\<close>

datatype json =
  JUndefined
| JNull
| JBool bool
| JNum int
| JStr string
| JArr "json list"
| JObj "(string \<times> json) list"
| JInherited string

definition js_truthy :: "json \<Rightarrow> bool" where
  "js_truthy v =
     (case v of
        JUndefined \<Rightarrow> False
      | JNull \<Rightarrow> False
      | JBool b \<Rightarrow> b
      | JNum n \<Rightarrow> n \<noteq> 0
      | JStr s \<Rightarrow> s \<noteq> []
      | JArr xs \<Rightarrow> True
      | JObj kvs \<Rightarrow> True
      | JInherited k \<Rightarrow> True)"

text \<open>
  \<^verbatim>\<open>x.k\<close> for the data keys the adapter reads (none of them is an inherited name): a
  \<^verbatim>\<open>TypeError\<close> on \<^verbatim>\<open>undefined\<close> and \<^verbatim>\<open>null\<close>, the stored value on an object that has the
  key, \<^verbatim>\<open>undefined\<close> otherwise.
\<close>

definition own_prop :: "json \<Rightarrow> string \<Rightarrow> json" where
  "own_prop x k =
     (case x of
        JObj kvs \<Rightarrow> (case map_of kvs k of None \<Rightarrow> JUndefined | Some v \<Rightarrow> v)
      | _ \<Rightarrow> JUndefined)"

definition nullish :: "json \<Rightarrow> bool" where
  "nullish x = (x = JUndefined \<or> x = JNull)"

text \<open>
  The message of the \<^verbatim>\<open>TypeError\<close> for reading property \<open>k\<close> of \<^verbatim>\<open>undefined\<close> or \<^verbatim>\<open>null\<close>, as
  V8 words it; the property's name stands between single quotes.
\<close>

definition cannot_read :: "json \<Rightarrow> string \<Rightarrow> string" where
  "cannot_read x k =
     ''Cannot read properties of '' @ (if x = JNull then ''null'' else ''undefined'') @
     '' (reading '' @ [CHR 0x27] @ k @ [CHR 0x27] @ '')''"

definition get_prop :: "json \<Rightarrow> string \<Rightarrow> js_exn + json" where
  "get_prop x k =
     (if nullish x then Inl (JsError (cannot_read x k))
      else Inr (own_prop x k))"

text \<open>\<^verbatim>\<open>x?.k\<close> and \<^verbatim>\<open>x?.[0]\<close>\<close>

definition opt_prop :: "json \<Rightarrow> string \<Rightarrow> json" where
  "opt_prop x k = (if nullish x then JUndefined else own_prop x k)"

definition opt_first :: "json \<Rightarrow> json" where
  "opt_first x =
     (case x of
        JArr xs \<Rightarrow> (case xs of [] \<Rightarrow> JUndefined | y # ys \<Rightarrow> y)
      | JStr s \<Rightarrow> (case s of [] \<Rightarrow> JUndefined | c # cs \<Rightarrow> JStr [c])
      | JObj kvs \<Rightarrow> (case map_of kvs ''0'' of None \<Rightarrow> JUndefined | Some v \<Rightarrow> v)
      | _ \<Rightarrow> JUndefined)"

section \<open>functions/_shared/hyperliquid-adapter.ts\<close>

text \<open>
  What the adapter imports: \<^verbatim>\<open>msgpack-lite\<close>, \<^verbatim>\<open>ethers\<close> (Keccak-256, typed-data signing,
  signature parsing), \<^verbatim>\<open>fetch\<close>, the number formatters and \<^verbatim>\<open>Date.now()\<close>. \<open>Inl\<close> from a
  primitive is the exception it throws or the rejection of its promise.
\<close>

record http_response =
  response_ok :: bool
  response_status :: int
  response_text :: "js_exn + string"
  response_json :: "js_exn + json"

record typed_data_domain =
  domain_name :: string
  domain_version :: string
  chainId :: int
  verifyingContract :: string

record phantom_agent =
  source :: string
  connectionId :: string

record signature =
  sig_r :: string
  sig_s :: string
  sig_v :: int

type_synonym wallet = string

record exchange_platform =
  msgpack_encode :: "json \<Rightarrow> byte list"
  keccak256 :: "byte list \<Rightarrow> string"
  signTypedData ::
    "wallet \<Rightarrow> typed_data_domain \<Rightarrow> (string \<times> (string \<times> string) list) list \<Rightarrow> phantom_agent
       \<Rightarrow> js_exn + string"
  signature_from :: "string \<Rightarrow> js_exn + signature"
  fetch :: "string \<Rightarrow> json \<Rightarrow> js_exn + http_response"
  toFixed8 :: "real \<Rightarrow> string"
  number_toString :: "int \<Rightarrow> string"
  js_toString :: "json \<Rightarrow> js_exn + string"
  date_now_ms :: int

record order_options =
  orderType :: "string option"
  option_price :: "real option"
  reduceOnly :: "bool option"
  cloid :: "string option"

record trade_result =
  success :: bool
  orderId :: "string option"
  trade_error :: "json option"

definition API_URL :: string where
  "API_URL = ''https://api.hyperliquid-testnet.xyz/exchange''"

definition INFO_URL :: string where
  "INFO_URL = ''https://api.hyperliquid-testnet.xyz/info''"

text \<open>The names every object inherits from \<^verbatim>\<open>Object.prototype\<close>.\<close>

definition object_prototype_names :: "string list" where
  "object_prototype_names =
     [''constructor'', ''toString'', ''toLocaleString'', ''valueOf'', ''hasOwnProperty'',
      ''isPrototypeOf'', ''propertyIsEnumerable'', ''__proto__'', ''__defineGetter__'',
      ''__defineSetter__'', ''__lookupGetter__'', ''__lookupSetter__'']"

text \<open>
  \<^verbatim>\<open>meta.universe.find(a => a.name === coin)\<close> followed by \<^verbatim>\<open>indexOf\<close>: the position of the
  first entry named \<open>coin\<close>, \<open>None\<close> when there is none, an exception when an entry before
  it is \<^verbatim>\<open>null\<close>.
\<close>

fun universe_index :: "json list \<Rightarrow> string \<Rightarrow> int \<Rightarrow> js_exn + int option" where
  "universe_index [] coin i = Inr None"
| "universe_index (a # rest) coin i =
     (case get_prop a ''name'' of
        Inl e \<Rightarrow> Inl e
      | Inr n \<Rightarrow> if n = JStr coin then Inr (Some i) else universe_index rest coin (i + 1))"

definition getAssetIndex :: "exchange_platform \<Rightarrow> string \<Rightarrow> json" where
  "getAssetIndex xp coin =
     (case map_of [(''BTC'', 0), (''ETH'', 1), (''SOL'', 4)] coin of
        Some i \<Rightarrow> JNum i
      | None \<Rightarrow>
          if coin \<in> set object_prototype_names then JInherited coin
          else
            (case fetch xp INFO_URL (JObj [(''type'', JStr ''meta'')]) of
               Inl e \<Rightarrow> JNum (- 1)
             | Inr res \<Rightarrow>
                 (case response_json res of
                    Inl e \<Rightarrow> JNum (- 1)
                  | Inr meta \<Rightarrow>
                      (case get_prop meta ''universe'' of
                         Inl e \<Rightarrow> JNum (- 1)
                       | Inr (JArr universe) \<Rightarrow>
                           (case universe_index universe coin 0 of
                              Inl e \<Rightarrow> JNum (- 1)
                            | Inr None \<Rightarrow> JNum (- 1)
                            | Inr (Some i) \<Rightarrow> JNum i)
                       | Inr other \<Rightarrow> JNum (- 1)))))"

text \<open>
  \<^verbatim>\<open>s.replace(/\.?0+$/, '')\<close>: the zeros that end the string go, together with a dot
  right before them.
\<close>

definition strip_zeros :: "string \<Rightarrow> string" where
  "strip_zeros s =
     (let z = length (takeWhile (\<lambda>c. c = CHR ''0'') (rev s));
          kept = take (length s - z) s
      in if z = 0 then s
         else if kept \<noteq> [] \<and> last kept = CHR ''.'' then butlast kept
         else kept)"

definition floatToWire :: "exchange_platform \<Rightarrow> real \<Rightarrow> string" where
  "floatToWire xp x = (if x = 0 then ''0'' else strip_zeros (toFixed8 xp x))"

text \<open>
  \<^verbatim>\<open>Buffer.alloc(8)\<close> and \<^verbatim>\<open>writeBigUInt64BE(BigInt(nonce), 0)\<close>: eight bytes, the most
  significant first; a \<^verbatim>\<open>RangeError\<close> outside \<open>0 \<le> v < 2^64\<close>.
\<close>

definition writeBigUInt64BE :: "int \<Rightarrow> js_exn + byte list" where
  "writeBigUInt64BE v =
     (if v < 0 \<or> 2 ^ 64 \<le> v
      then Inl (JsError ''The value is out of range'')
      else Inr (map (\<lambda>k. word_of_int (v div 2 ^ (8 * k))) [7, 6, 5, 4, 3, 2, 1, 0]))"

text \<open>The buffer \<^verbatim>\<open>data\<close> of \<^verbatim>\<open>actionHashFn\<close>, as it stands when it is hashed.\<close>

definition action_data :: "exchange_platform \<Rightarrow> json \<Rightarrow> string option \<Rightarrow> int \<Rightarrow> js_exn + byte list" where
  "action_data xp action vaultAddress nonce =
     (case writeBigUInt64BE nonce of
        Inl e \<Rightarrow> Inl e
      | Inr nonceBuffer \<Rightarrow>
          Inr ((msgpack_encode xp action @ nonceBuffer) @
               (case vaultAddress of None \<Rightarrow> [0x00] | Some address \<Rightarrow> [0x00])))"

definition actionHashFn :: "exchange_platform \<Rightarrow> json \<Rightarrow> string option \<Rightarrow> int \<Rightarrow> js_exn + string" where
  "actionHashFn xp action vaultAddress nonce =
     (case action_data xp action vaultAddress nonce of
        Inl e \<Rightarrow> Inl e
      | Inr data \<Rightarrow> Inr (keccak256 xp data))"

definition exchange_domain :: typed_data_domain where
  "exchange_domain =
     \<lparr> domain_name = ''Exchange'', domain_version = ''1'', chainId = 1337,
       verifyingContract = ''0x0000000000000000000000000000000000000000'' \<rparr>"

definition agent_types :: "(string \<times> (string \<times> string) list) list" where
  "agent_types = [(''Agent'', [(''source'', ''string''), (''connectionId'', ''bytes32'')])]"

definition signL1Action ::
  "exchange_platform \<Rightarrow> wallet \<Rightarrow> json \<Rightarrow> string option \<Rightarrow> int \<Rightarrow> js_exn + signature" where
  "signL1Action xp wallet action vaultAddress nonce =
     (case actionHashFn xp action vaultAddress nonce of
        Inl e \<Rightarrow> Inl e
      | Inr actionHash \<Rightarrow>
          (case signTypedData xp wallet exchange_domain agent_types
                  \<lparr> source = ''b'', connectionId = actionHash \<rparr> of
             Inl e \<Rightarrow> Inl e
           | Inr sig \<Rightarrow> signature_from xp sig))"

definition order_action :: "exchange_platform \<Rightarrow> json \<Rightarrow> bool \<Rightarrow> real \<Rightarrow> real \<Rightarrow> order_options \<Rightarrow> json" where
  "order_action xp assetIndex isBuy sz price options =
     JObj [(''type'', JStr ''order''),
           (''orders'',
              JArr [JObj [(''a'', assetIndex),
                          (''b'', JBool isBuy),
                          (''p'', JStr (floatToWire xp price)),
                          (''s'', JStr (floatToWire xp sz)),
                          (''r'', JBool (reduceOnly options = Some True)),
                          (''t'', JObj [(''limit'', JObj [(''tif'', JStr ''Gtc'')])]),
                          (''c'', (case cloid options of None \<Rightarrow> JUndefined | Some c \<Rightarrow> JStr c))]]),
           (''grouping'', JStr ''na'')]"

definition signature_json :: "signature \<Rightarrow> json" where
  "signature_json sg = JObj [(''r'', JStr (sig_r sg)), (''s'', JStr (sig_s sg)), (''v'', JNum (sig_v sg))]"

text \<open>
  \<^verbatim>\<open>statuses?.[0]?.resting?.oid?.toString() || 'filled'\<close>, which can throw when the order
  id is an object whose \<^verbatim>\<open>toString\<close> is not callable.
\<close>

definition order_id_of :: "exchange_platform \<Rightarrow> json \<Rightarrow> js_exn + string" where
  "order_id_of xp status =
     (let oid = opt_prop (opt_prop status ''resting'') ''oid''
      in if nullish oid then Inr ''filled''
         else
           (case js_toString xp oid of
              Inl e \<Rightarrow> Inl e
            | Inr s \<Rightarrow> Inr (if s \<noteq> [] then s else ''filled'')))"

text \<open>\<^verbatim>\<open>data.response?.data?.statuses?.[0]\<close>\<close>

definition first_status :: "json \<Rightarrow> json" where
  "first_status data =
     opt_first (opt_prop (opt_prop (own_prop data ''response'') ''data'') ''statuses'')"

text \<open>
  What \<^verbatim>\<open>executeTrade\<close> does with the response of the order endpoint, from
  \<^verbatim>\<open>if (!response.ok)\<close> on: \<open>Inl\<close> is what it throws.
\<close>

definition read_reply :: "exchange_platform \<Rightarrow> http_response \<Rightarrow> js_exn + trade_result" where
  "read_reply xp response =
     (if \<not> response_ok response then
        (case response_text response of
           Inl e \<Rightarrow> Inl e
         | Inr txt \<Rightarrow>
             Inl (JsError (''API Error: '' @
                    number_toString xp (response_status response) @ '' '' @ txt)))
      else
        (case response_json response of
           Inl e \<Rightarrow> Inl e
         | Inr data \<Rightarrow>
             (case get_prop data ''status'' of
                Inl e \<Rightarrow> Inl e
              | Inr st \<Rightarrow>
                  if st = JStr ''ok'' then
                    (let status = first_status data
                     in if js_truthy (opt_prop status ''error'')
                        then Inr \<lparr> success = False, orderId = None,
                                   trade_error = Some (opt_prop status ''error'') \<rparr>
                        else
                          (case order_id_of xp (first_status data) of
                             Inl e \<Rightarrow> Inl e
                           | Inr oid \<Rightarrow>
                               Inr \<lparr> success = True, orderId = Some oid,
                                     trade_error = None \<rparr>))
                  else
                    Inr \<lparr> success = False, orderId = None,
                          trade_error =
                            Some (if js_truthy (own_prop data ''response'')
                                  then own_prop data ''response''
                                  else JStr ''Unknown error'') \<rparr>)))"

definition order_payload :: "json \<Rightarrow> int \<Rightarrow> signature \<Rightarrow> json" where
  "order_payload action nonce sg =
     JObj [(''action'', action), (''nonce'', JNum nonce),
           (''signature'', signature_json sg), (''vaultAddress'', JNull)]"

text \<open>The statements inside \<^verbatim>\<open>try\<close>: \<open>Inl\<close> is what they throw.\<close>

definition executeTrade_try ::
  "exchange_platform \<Rightarrow> wallet \<Rightarrow> string \<Rightarrow> bool \<Rightarrow> real \<Rightarrow> real \<Rightarrow> order_options
     \<Rightarrow> js_exn + trade_result" where
  "executeTrade_try xp wallet coin isBuy sz price options =
     (let assetIndex = getAssetIndex xp coin in
      if assetIndex = JNum (- 1) then Inl (JsError (''Asset '' @ coin @ '' not found''))
      else
        (let action = order_action xp assetIndex isBuy sz price options;
             nonce = date_now_ms xp
         in case signL1Action xp wallet action None nonce of
              Inl e \<Rightarrow> Inl e
            | Inr sg \<Rightarrow>
                (case fetch xp API_URL (order_payload action nonce sg) of
                   Inl e \<Rightarrow> Inl e
                 | Inr response \<Rightarrow> read_reply xp response)))"

definition executeTrade ::
  "exchange_platform \<Rightarrow> wallet \<Rightarrow> string \<Rightarrow> bool \<Rightarrow> real \<Rightarrow> real \<Rightarrow> order_options
     \<Rightarrow> trade_result" where
  "executeTrade xp wallet coin isBuy sz price options =
     (case executeTrade_try xp wallet coin isBuy sz price options of
        Inl e \<Rightarrow> \<lparr> success = False, orderId = None, trade_error = Some (JStr (exn_message e)) \<rparr>
      | Inr result \<Rightarrow> result)"

section \<open>functions/_shared/errors.ts\<close>

text \<open>
  \<^verbatim>\<open>handleError\<close> on a value that is not an \<^verbatim>\<open>EdgeFunctionError\<close>; the trigger throws no
  other kind (a plain \<^verbatim>\<open>Error\<close> from the client factory, or the error object of a
  failed query). The pair is the text and the status \<^verbatim>\<open>errorResponse\<close> is given.
\<close>

definition handleError_unknown :: "string \<times> int" where
  "handleError_unknown = (''INTERNAL_ERROR'' @ '': '' @ ''Internal server error'', 500)"

section \<open>functions/cron-trigger/index.ts\<close>

record execution_result =
  scheduleId :: uuid
  result_userId :: uuid
  result_success :: bool
  result_error :: "string option"
  executedAt :: timestamptz

record cron_request =
  request_method :: string
  x_cron_secret :: "string option"

record trigger_report =
  report_message :: "string option"
  executed :: nat
  successCount :: "nat option"
  failureCount :: "nat option"
  results :: "execution_result list"

datatype cron_response =
  Cors_response
| Error_response string int
| Json_response trigger_report

text \<open>The stub \<^verbatim>\<open>runAnalysisOnly\<close>: one \<^verbatim>\<open>HOLD\<close> decision per coin.\<close>

definition runAnalysisOnly :: "uuid \<Rightarrow> string list \<Rightarrow> string option \<Rightarrow> nat \<times> (string \<times> string \<times> string) list" where
  "runAnalysisOnly user coin_list settings =
     (length coin_list, map (\<lambda>coin. (coin, ''HOLD'', ''Analysis only mode'')) coin_list)"

text \<open>
  The statements inside \<^verbatim>\<open>try\<close> of \<^verbatim>\<open>executeSchedule\<close>, with the database as they leave
  it: \<open>Inl\<close> is the exception they throw. \<^verbatim>\<open>coins.join\<close> throws on a schedule whose
  \<open>coins\<close> column is null.
\<close>

definition executeSchedule_try :: "platform \<Rightarrow> due_schedule \<Rightarrow> world \<Rightarrow> (js_exn + unit) \<times> world" where
  "executeSchedule_try pf schedule w =
     (case select_encrypted_blob (due_user_id schedule) w of
        (Inl keyError, w1) \<Rightarrow> (Inl (JsError ''No encrypted key found for user''), w1)
      | (Inr userKey, w1) \<Rightarrow>
          (case select_dealer_settings (due_user_id schedule) w1 of
             (userSettings, w2) \<Rightarrow>
               (case due_coins schedule of
                  None \<Rightarrow>
                    (Inl (JsError (cannot_read JNull ''join'')), w2)
                | Some coin_list \<Rightarrow>
                    (let analysisResult =
                           runAnalysisOnly (due_user_id schedule) coin_list
                             (case userSettings of
                                Inl settingsError \<Rightarrow> None
                              | Inr row \<Rightarrow> dealer_settings row)
                     in (Inr (),
                         snd (rpc_record_schedule_success (schedule_id schedule) w2))))))"

definition executeSchedule :: "platform \<Rightarrow> due_schedule \<Rightarrow> world \<Rightarrow> execution_result \<times> world" where
  "executeSchedule pf schedule w =
     (case executeSchedule_try pf schedule w of
        (Inr done, w1) \<Rightarrow>
          (\<lparr> scheduleId = schedule_id schedule, result_userId = due_user_id schedule,
             result_success = True, result_error = None, executedAt = date_now pf \<rparr>,
           w1)
      | (Inl e, w1) \<Rightarrow>
          (\<lparr> scheduleId = schedule_id schedule, result_userId = due_user_id schedule,
             result_success = False, result_error = Some (exn_message e),
             executedAt = date_now pf \<rparr>,
           snd (rpc_record_schedule_error (schedule_id schedule) (exn_message e) w1)))"

text \<open>The loop over the due schedules.\<close>

fun executeSchedules :: "platform \<Rightarrow> due_schedule list \<Rightarrow> world \<Rightarrow> execution_result list \<times> world" where
  "executeSchedules pf [] w = ([], w)"
| "executeSchedules pf (schedule # rest) w =
     (case executeSchedule pf schedule w of
        (result, w1) \<Rightarrow>
          (case executeSchedules pf rest w1 of
             (more_results, w2) \<Rightarrow> (result # more_results, w2)))"

text \<open>
  The request handler. \<^verbatim>\<open>handleCors\<close> comes from \<^verbatim>\<open>_shared/cors.ts\<close>, which is taken as a
  parameter: whether it answers the request itself.
\<close>

definition cron_trigger ::
  "platform \<Rightarrow> (cron_request \<Rightarrow> bool) \<Rightarrow> cron_request \<Rightarrow> world \<Rightarrow> cron_response \<times> world" where
  "cron_trigger pf handleCors req w =
     (if handleCors req then (Cors_response, w)
      else if \<not> truthy (x_cron_secret req) \<or> x_cron_secret req \<noteq> deno_env_get pf ''CRON_SECRET''
      then (Error_response ''Unauthorized'' 401, w)
      else
        (case createSupabaseClient pf of
           Inl e \<Rightarrow> (Error_response (fst handleError_unknown) (snd handleError_unknown), w)
         | Inr supabase \<Rightarrow>
             (case rpc_get_due_schedules w of
                (Inl fetchError, w1) \<Rightarrow>
                  (Error_response (fst handleError_unknown) (snd handleError_unknown), w1)
              | (Inr [], w1) \<Rightarrow>
                  (Json_response
                     \<lparr> report_message = Some ''No schedules due'', executed = 0,
                       successCount = None, failureCount = None, results = [] \<rparr>,
                   w1)
              | (Inr (first_due # others), w1) \<Rightarrow>
                  (case executeSchedules pf (first_due # others) w1 of
                     (rs, w2) \<Rightarrow>
                       (Json_response
                          \<lparr> report_message = None, executed = length rs,
                            successCount = Some (length (filter result_success rs)),
                            failureCount = Some (length (filter (\<lambda>r. \<not> result_success r) rs)),
                            results = rs \<rparr>,
                        w2)))))"

text \<open>
  The calls \<^verbatim>\<open>executeSchedule\<close> makes: the key blob, the dealer settings and the two
  outcome records. The custodian's queries (\<open>Select_encrypted_password\<close>,
  \<open>Rpc_get_active_session\<close>, \<open>Rpc_record_session_usage\<close>) and \<open>Rpc_get_due_schedules\<close> are
  not among them.
\<close>

definition executor_call :: "db_call \<Rightarrow> bool" where
  "executor_call c =
     (case c of
        Select_encrypted_blob u \<Rightarrow> True
      | Select_dealer_settings u \<Rightarrow> True
      | Rpc_record_schedule_success s \<Rightarrow> True
      | Rpc_record_schedule_error s m \<Rightarrow> True
      | _ \<Rightarrow> False)"

section \<open>Example data\<close>

text \<open>Small tables and a platform with no working primitive, for evaluating the functions.\<close>

definition example_sessions :: "execution_session list" where
  "example_sessions =
     [\<lparr> es_id = ''s1'', es_user_id = ''u1'', es_encrypted_session_token = ''t1'',
        es_created_at = Some 0, es_expires_at = 50, es_revoked = Some False,
        es_last_used_at = None, es_use_count = Some 0 \<rparr>,
      \<lparr> es_id = ''s2'', es_user_id = ''u1'', es_encrypted_session_token = ''t2'',
        es_created_at = Some 0, es_expires_at = 200, es_revoked = Some False,
        es_last_used_at = None, es_use_count = Some 0 \<rparr>,
      \<lparr> es_id = ''s3'', es_user_id = ''u1'', es_encrypted_session_token = ''t3'',
        es_created_at = Some 0, es_expires_at = 300, es_revoked = Some False,
        es_last_used_at = None, es_use_count = Some 0 \<rparr>,
      \<lparr> es_id = ''s4'', es_user_id = ''u2'', es_encrypted_session_token = ''t4'',
        es_created_at = Some 0, es_expires_at = 300, es_revoked = Some False,
        es_last_used_at = None, es_use_count = Some 0 \<rparr>]"

definition example_keys :: "encrypted_key list" where
  "example_keys =
     [\<lparr> ek_id = ''k1'', ek_user_id = ''u1'', key_name = ''hyperliquid'',
        encrypted_blob = ''blob'', encryption_salt = ''salt'',
        encrypted_password = Some ''stored'' \<rparr>]"

definition example_world :: world where
  "example_world =
     \<lparr> cron_schedules = [], execution_sessions = example_sessions,
       encrypted_keys = example_keys, user_settings = [], clock = 100, faults = [],
       call_log = [] \<rparr>"

text \<open>The same world when the next call to the database fails.\<close>

definition failing_world :: world where
  "failing_world =
     \<lparr> cron_schedules = [], execution_sessions = example_sessions,
       encrypted_keys = example_keys, user_settings = [], clock = 100, faults = [True],
       call_log = [] \<rparr>"

definition example_platform :: platform where
  "example_platform =
     \<lparr> deno_env_get = (\<lambda>k. Some ''configured''), date_now = 100,
       atob = (\<lambda>s. None), subtle_importKey_raw = (\<lambda>k. None),
       subtle_deriveKey_pbkdf2 = (\<lambda>secret salt n. []),
       subtle_decrypt_aes_gcm = (\<lambda>k iv c. None),
       text_encode = (\<lambda>s. []), text_decode = (\<lambda>bs. []),
       json_parse_payload = (\<lambda>s. None) \<rparr>"

text \<open>
  A platform whose primitives succeed: every token decodes to twelve bytes 1, one byte 2
  per character and thirty-two bytes 3; decryption returns the ciphertext; every text
  decodes to one password and every payload parses to the same session of user \<open>u1\<close>.
\<close>

definition toy_platform :: platform where
  "toy_platform =
     \<lparr> deno_env_get = (\<lambda>k. Some ''configured''), date_now = 100,
       atob = (\<lambda>s. Some (replicate 12 1 @ replicate (length s) 2 @ replicate 32 3)),
       subtle_importKey_raw = (\<lambda>k. if length k = 32 then Some k else None),
       subtle_deriveKey_pbkdf2 = (\<lambda>secret salt n. replicate 32 0),
       subtle_decrypt_aes_gcm = (\<lambda>k iv c. Some c),
       text_encode = (\<lambda>s. []), text_decode = (\<lambda>bs. ''hunter2''),
       json_parse_payload =
         (\<lambda>s. Some \<lparr> userId = ''u1'', payload_password = ''from-session'',
                      expiresAt = ''300'' \<rparr>) \<rparr>"

text \<open>The same platform, except that every text decodes to the empty string.\<close>

definition blank_platform :: platform where
  "blank_platform =
     \<lparr> deno_env_get = (\<lambda>k. Some ''configured''), date_now = 100,
       atob = (\<lambda>s. Some (replicate 12 1 @ replicate (length s) 2 @ replicate 32 3)),
       subtle_importKey_raw = (\<lambda>k. if length k = 32 then Some k else None),
       subtle_deriveKey_pbkdf2 = (\<lambda>secret salt n. replicate 32 0),
       subtle_decrypt_aes_gcm = (\<lambda>k iv c. Some c),
       text_encode = (\<lambda>s. []), text_decode = (\<lambda>bs. []),
       json_parse_payload =
         (\<lambda>s. Some \<lparr> userId = ''u1'', payload_password = ''from-session'',
                      expiresAt = ''300'' \<rparr>) \<rparr>"

text \<open>
  An exchange that rests every order under the id 77, behind libraries that encode every
  action as the empty map, hash every buffer to the same digest and sign everything.
\<close>

definition resting_reply :: json where
  "resting_reply =
     JObj [(''status'', JStr ''ok''),
           (''response'',
              JObj [(''type'', JStr ''order''),
                    (''data'',
                       JObj [(''statuses'',
                                JArr [JObj [(''resting'', JObj [(''oid'', JNum 77)])]])])])]"

definition toy_exchange :: exchange_platform where
  "toy_exchange =
     \<lparr> msgpack_encode = (\<lambda>action. [0x80]),
       keccak256 = (\<lambda>data. ''0xdigest''),
       signTypedData = (\<lambda>wallet domain types agent. Inr ''0xsigned''),
       signature_from = (\<lambda>sig. Inr \<lparr> sig_r = ''0xr'', sig_s = ''0xs'', sig_v = 27 \<rparr>),
       fetch =
         (\<lambda>url body. Inr \<lparr> response_ok = True, response_status = 200,
                           response_text = Inr ''ok'', response_json = Inr resting_reply \<rparr>),
       toFixed8 = (\<lambda>x. ''1.50000000''),
       number_toString = (\<lambda>n. ''77''),
       js_toString = (\<lambda>v. Inr ''77''),
       date_now_ms = 1700000000000 \<rparr>"

text \<open>The same exchange when it answers \<^verbatim>\<open>ok\<close> with an error as the order's status.\<close>

definition margin_reply :: json where
  "margin_reply =
     JObj [(''status'', JStr ''ok''),
           (''response'',
              JObj [(''type'', JStr ''order''),
                    (''data'',
                       JObj [(''statuses'',
                                JArr [JObj [(''error'', JStr ''Insufficient margin'')]])])])]"

definition rejecting_exchange :: exchange_platform where
  "rejecting_exchange =
     \<lparr> msgpack_encode = (\<lambda>action. [0x80]),
       keccak256 = (\<lambda>data. ''0xdigest''),
       signTypedData = (\<lambda>wallet domain types agent. Inr ''0xsigned''),
       signature_from = (\<lambda>sig. Inr \<lparr> sig_r = ''0xr'', sig_s = ''0xs'', sig_v = 27 \<rparr>),
       fetch =
         (\<lambda>url body. Inr \<lparr> response_ok = True, response_status = 200,
                           response_text = Inr ''ok'', response_json = Inr margin_reply \<rparr>),
       toFixed8 = (\<lambda>x. ''1.50000000''),
       number_toString = (\<lambda>n. ''77''),
       js_toString = (\<lambda>v. Inr ''77''),
       date_now_ms = 1700000000000 \<rparr>"

text \<open>
  A world with one enabled schedule that is due, whose owner has a key record without a
  stored password and no session at all.
\<close>

definition analysis_world :: world where
  "analysis_world =
     \<lparr> cron_schedules =
         [(cron_schedules_default ''c1'' ''u9'' 0)\<lparr>enabled := True, coins := Some [''BTC'']\<rparr>],
       execution_sessions = [],
       encrypted_keys =
         [\<lparr> ek_id = ''k9'', ek_user_id = ''u9'', key_name = ''hyperliquid'',
            encrypted_blob = ''blob'', encryption_salt = ''salt'',
            encrypted_password = None \<rparr>],
       user_settings = [], clock = 100, faults = [], call_log = [] \<rparr>"

definition trigger_request :: cron_request where
  "trigger_request = \<lparr> request_method = ''POST'', x_cron_secret = Some ''configured'' \<rparr>"

section \<open>Updates keep the shape of a table\<close>

lemma sql_update_length:
  "sql_update cond upd tbl = Inr tbl' \<Longrightarrow> length tbl' = length tbl"
  by (induction tbl arbitrary: tbl') (auto split: if_splits sum.splits)

lemma sql_update_nth:
  "sql_update cond upd tbl = Inr tbl' \<Longrightarrow> i < length tbl \<Longrightarrow>
   (if cond (tbl ! i) then upd (tbl ! i) = Inr (tbl' ! i) else tbl' ! i = tbl ! i)"
proof (induction tbl arbitrary: tbl' i)
  case Nil
  then show ?case by simp
next
  case (Cons r rs)
  then show ?case
    by (cases i) (auto split: if_splits sum.splits)
qed

section \<open>The enabled flag is never switched on by the server\<close>

lemma after_call_length: "length (after_call now c tbl) = length tbl"
  by (cases c) (auto simp: after_call_def record_schedule_success_def record_schedule_error_def
      dest: sql_update_length split: sum.splits)

lemma success_set_enabled:
  "success_set now cs = Inr cs' \<Longrightarrow> enabled cs' = enabled cs \<and> cs_id cs' = cs_id cs"
  by (auto simp: success_set_def update_updated_at_column_def split: sum.splits)

lemma error_set_enabled:
  "error_set now m cs = Inr cs' \<Longrightarrow> (enabled cs' \<longrightarrow> enabled cs) \<and> cs_id cs' = cs_id cs"
  by (auto simp: error_set_def update_updated_at_column_def split: sum.splits if_splits)

lemma after_call_row:
  assumes "i < length tbl"
  shows "cs_id (after_call now c tbl ! i) = cs_id (tbl ! i) \<and>
         (enabled (after_call now c tbl ! i) \<longrightarrow> enabled (tbl ! i))"
proof (cases c)
  case Get_due_schedules
  then show ?thesis by (simp add: after_call_def)
next
  case (Record_schedule_success p)
  show ?thesis
  proof (cases "record_schedule_success now p tbl")
    case (Inl e)
    with Record_schedule_success show ?thesis by (simp add: after_call_def)
  next
    case (Inr tbl')
    from sql_update_nth [OF Inr [unfolded record_schedule_success_def] assms]
    have "enabled (tbl' ! i) = enabled (tbl ! i) \<and> cs_id (tbl' ! i) = cs_id (tbl ! i)"
      by (auto dest: success_set_enabled split: if_splits)
    with Record_schedule_success Inr show ?thesis by (simp add: after_call_def)
  qed
next
  case (Record_schedule_error p m)
  show ?thesis
  proof (cases "record_schedule_error now p m tbl")
    case (Inl e)
    with Record_schedule_error show ?thesis by (simp add: after_call_def)
  next
    case (Inr tbl')
    from sql_update_nth [OF Inr [unfolded record_schedule_error_def] assms]
    have "(enabled (tbl' ! i) \<longrightarrow> enabled (tbl ! i)) \<and> cs_id (tbl' ! i) = cs_id (tbl ! i)"
      by (auto dest: error_set_enabled split: if_splits)
    with Record_schedule_error Inr show ?thesis by (simp add: after_call_def)
  qed
qed

lemma after_calls_length: "length (after_calls calls tbl) = length tbl"
  by (induction calls tbl rule: after_calls.induct) (simp_all add: after_call_length)

lemma after_calls_row:
  "i < length tbl \<Longrightarrow>
   cs_id (after_calls calls tbl ! i) = cs_id (tbl ! i) \<and>
   (enabled (after_calls calls tbl ! i) \<longrightarrow> enabled (tbl ! i))"
proof (induction calls tbl rule: after_calls.induct)
  case (1 tbl)
  then show ?case by simp
next
  case (2 now c cs tbl)
  then show ?case using after_call_row [of i tbl now c] by (simp add: after_call_length)
qed

text \<open>
  Claim C1. The column default of \<open>enabled\<close> is false, and no sequence of calls to
  \<^verbatim>\<open>get_due_schedules\<close>, \<^verbatim>\<open>record_schedule_success\<close> and \<^verbatim>\<open>record_schedule_error\<close>, at
  any instants and with any arguments, turns a row whose flag is false into one whose
  flag is true: the table keeps its rows and their keys, and a flag that is false before
  the calls is false after them (a flag can only go from true to false).
\<close>

theorem enabled_never_set_true:
  "enabled (cron_schedules_default new_id owner t0) = False \<and>
   length (after_calls calls tbl) = length tbl \<and>
   (\<forall>i < length tbl.
      cs_id (after_calls calls tbl ! i) = cs_id (tbl ! i) \<and>
      (\<not> enabled (tbl ! i) \<longrightarrow> \<not> enabled (after_calls calls tbl ! i)))"
  using after_calls_row [of _ tbl calls]
  by (auto simp: cron_schedules_default_def after_calls_length)

theorem enabled_never_set_true_witness:
  "\<not> enabled (after_calls
       [(10, Record_schedule_error ''s1'' (Some ''boom'')), (20, Get_due_schedules),
        (30, Record_schedule_success ''s1'')]
       [cron_schedules_default ''s1'' ''u1'' 0] ! 0)"
  using enabled_never_set_true [of "''s1''" "''u1''" 0
      "[(10, Record_schedule_error ''s1'' (Some ''boom'')), (20, Get_due_schedules),
        (30, Record_schedule_success ''s1'')]"
      "[cron_schedules_default ''s1'' ''u1'' 0]"]
  by (simp add: cron_schedules_default_def)

section \<open>The due predicate\<close>




section \<open>Recording outcomes\<close>

lemma sql_update_none:
  "\<forall>r \<in> set tbl. \<not> cond r \<Longrightarrow> sql_update cond upd tbl = Inr tbl"
  by (induction tbl) auto

lemma sql_update_unique:
  "distinct (map key tbl) \<Longrightarrow> i < length tbl \<Longrightarrow> key (tbl ! i) = p \<Longrightarrow>
   sql_update (\<lambda>r. key r = p) upd tbl =
     (case upd (tbl ! i) of Inl e \<Rightarrow> Inl e | Inr r' \<Rightarrow> Inr (tbl[i := r']))"
proof (induction tbl arbitrary: i)
  case Nil
  then show ?case by simp
next
  case (Cons r rs)
  show ?case
  proof (cases i)
    case 0
    with Cons.prems have "\<forall>x \<in> set rs. \<not> key x = p" by (auto simp: image_iff)
    then have "sql_update (\<lambda>r. key r = p) upd rs = Inr rs" by (rule sql_update_none)
    with 0 Cons.prems show ?thesis by (simp split: sum.splits)
  next
    case (Suc j)
    with Cons.prems have j: "j < length rs" "key (rs ! j) = p" "distinct (map key rs)" by auto
    then have "key r \<noteq> p" using Cons.prems(1) by (metis distinct.simps(2) list.simps(9) nth_map nth_mem length_map)
    with Suc Cons.IH [OF j(3) j(1) j(2)] show ?thesis by (simp split: sum.splits)
  qed
qed

lemma int4pl_one:
  "int4pl a (Some 1) =
     (case a of None \<Rightarrow> Inr None
      | Some n \<Rightarrow> if n + 1 < int4_min \<or> int4_max < n + 1 then Inl Integer_out_of_range
                  else Inr (Some (n + 1)))"
  by (simp add: int4pl_def split: option.splits)

lemma success_set_Inr:
  "success_set T cs = Inr cs' \<Longrightarrow>
   last_run_at cs' = Some T \<and> next_run_at cs' = Some (T + interval_seconds cs) \<and>
   run_count cs' = map_option (\<lambda>n. n + 1) (run_count cs) \<and>
   consecutive_errors cs' = Some 0 \<and> last_error cs' = None \<and>
   cs_id cs' = cs_id cs \<and> enabled cs' = enabled cs \<and>
   max_consecutive_errors cs' = max_consecutive_errors cs \<and>
   interval_seconds cs' = interval_seconds cs"
  by (auto simp: success_set_def int4pl_one update_updated_at_column_def
      split: option.splits if_splits)

lemma success_set_Inl:
  "(success_set T cs = Inl e) =
   (\<exists>n. run_count cs = Some n \<and> (n + 1 < int4_min \<or> int4_max < n + 1))"
  by (cases e) (auto simp: success_set_def int4pl_one split: option.splits if_splits)

lemma error_set_Inr:
  "error_set T m cs = Inr cs' \<Longrightarrow>
   last_error cs' = m \<and>
   consecutive_errors cs' = map_option (\<lambda>n. n + 1) (consecutive_errors cs) \<and>
   enabled cs' =
     (enabled cs \<and>
      \<not> (\<exists>c N. consecutive_errors cs = Some c \<and> max_consecutive_errors cs = Some N \<and> N \<le> c + 1)) \<and>
   next_run_at cs' = Some (T + interval_seconds cs) \<and>
   cs_id cs' = cs_id cs \<and>
   max_consecutive_errors cs' = max_consecutive_errors cs \<and>
   interval_seconds cs' = interval_seconds cs"
  by (auto simp: error_set_def int4pl_one update_updated_at_column_def is_true_def sql_ge_def
      sql_le_def split: option.splits if_splits)

lemma error_set_Inl:
  "(error_set T m cs = Inl e) =
   (\<exists>n. consecutive_errors cs = Some n \<and> (n + 1 < int4_min \<or> int4_max < n + 1))"
  by (cases e) (auto simp: error_set_def int4pl_one split: option.splits if_splits)

lemma after_error_unique:
  assumes "distinct (map cs_id tbl)" and "i < length tbl" and "cs_id (tbl ! i) = p"
  shows "after_call T (Record_schedule_error p m) tbl =
         (case error_set T m (tbl ! i) of Inl e \<Rightarrow> tbl | Inr r' \<Rightarrow> tbl[i := r'])"
proof -
  have "record_schedule_error T p m tbl =
      (case error_set T m (tbl ! i) of Inl e \<Rightarrow> Inl e | Inr r' \<Rightarrow> Inr (tbl[i := r']))"
    unfolding record_schedule_error_def using assms by (rule sql_update_unique)
  then show ?thesis by (simp add: after_call_def split: sum.splits)
qed

lemma map_cs_id_update:
  "i < length tbl \<Longrightarrow> cs_id r' = cs_id (tbl ! i) \<Longrightarrow> map cs_id (tbl[i := r']) = map cs_id tbl"
  by (simp add: map_update list_update_same_conv)

lemma errors_fuse:
  assumes "distinct (map cs_id tbl)" and "i < length tbl" and "cs_id (tbl ! i) = p"
    and "max_consecutive_errors (tbl ! i) = Some N" and "N \<le> int4_max"
    and "consecutive_errors (tbl ! i) = Some c" and "0 \<le> c" and "c \<le> int4_max"
    and "enabled (tbl ! i) = (c < N)"
  shows "enabled (after_calls (error_calls p errs) tbl ! i) = (c + int (length errs) < N)"
  using assms
proof (induction errs arbitrary: tbl c)
  case Nil
  then show ?case by (simp add: error_calls_def)
next
  case (Cons tm errs)
  obtain T m where tm: "tm = (T, m)" by (cases tm)
  have step: "after_calls (error_calls p (tm # errs)) tbl =
      after_calls (error_calls p errs) (after_call T (Record_schedule_error p m) tbl)"
    by (simp add: tm error_calls_def)
  note ac = after_error_unique [OF Cons.prems(1) Cons.prems(2) Cons.prems(3), of T m]
  show ?case
  proof (cases "c = int4_max")
    case True
    then have "\<exists>e. error_set T m (tbl ! i) = Inl e"
      using error_set_Inl [of T m "tbl ! i"] Cons.prems(6) by simp
    then have same: "after_call T (Record_schedule_error p m) tbl = tbl"
      using ac by auto
    have "enabled (after_calls (error_calls p errs) tbl ! i) = (c + int (length errs) < N)"
      using Cons.prems by (intro Cons.IH) auto
    with True Cons.prems(5) show ?thesis by (simp add: step same)
  next
    case False
    with Cons.prems have "\<not> (\<exists>e. error_set T m (tbl ! i) = Inl e)"
      using error_set_Inl [of T m "tbl ! i"] by (auto simp: int4_min_def)
    then obtain r' where r': "error_set T m (tbl ! i) = Inr r'"
      by (cases "error_set T m (tbl ! i)") auto
    note f = error_set_Inr [OF r']
    let ?tbl = "tbl[i := r']"
    have same: "after_call T (Record_schedule_error p m) tbl = ?tbl"
      using ac r' by simp
    have "enabled (after_calls (error_calls p errs) ?tbl ! i) = ((c + 1) + int (length errs) < N)"
    proof (intro Cons.IH)
      show "distinct (map cs_id ?tbl)"
        using Cons.prems(1,2) f by (simp add: map_cs_id_update)
      show "i < length ?tbl" using Cons.prems(2) by simp
      show "cs_id (?tbl ! i) = p" using Cons.prems(2,3) f by simp
      show "max_consecutive_errors (?tbl ! i) = Some N" using Cons.prems(2,4) f by simp
      show "N \<le> int4_max" by fact
      show "consecutive_errors (?tbl ! i) = Some (c + 1)" using Cons.prems(2,6) f by simp
      show "0 \<le> c + 1" using Cons.prems(7) by simp
      show "c + 1 \<le> int4_max" using False Cons.prems(8) by simp
      show "enabled (?tbl ! i) = (c + 1 < N)"
        using Cons.prems(2,4,6,9) f by auto
    qed
    moreover have "((c + 1) + int (length errs) < N) = (c + int (length (tm # errs)) < N)"
      by (simp add: add.assoc)
    ultimately show ?thesis by (simp only: step same)
  qed
qed

lemma success_then_errors:
  assumes "distinct (map cs_id tbl)" and "i < length tbl" and "cs_id (tbl ! i) = p"
    and "max_consecutive_errors (tbl ! i) = Some N" and "1 \<le> N" and "N \<le> int4_max"
    and "enabled (tbl ! i)" and "record_schedule_success T p tbl = Inr tbl'"
  shows "enabled (after_calls ((T, Record_schedule_success p) # error_calls p errs) tbl ! i) =
         (int (length errs) < N)"
proof -
  have s: "record_schedule_success T p tbl =
      (case success_set T (tbl ! i) of Inl e \<Rightarrow> Inl e | Inr r' \<Rightarrow> Inr (tbl[i := r']))"
    unfolding record_schedule_success_def using assms(1-3) by (rule sql_update_unique)
  with assms(8) obtain r' where r': "success_set T (tbl ! i) = Inr r'" and t: "tbl' = tbl[i := r']"
    by (cases "success_set T (tbl ! i)") auto
  note f = success_set_Inr [OF r']
  have step: "after_calls ((T, Record_schedule_success p) # error_calls p errs) tbl =
      after_calls (error_calls p errs) tbl'"
    by (simp add: after_call_def assms(8))
  have "enabled (after_calls (error_calls p errs) tbl' ! i) = (0 + int (length errs) < N)"
  proof (rule errors_fuse)
    show "distinct (map cs_id tbl')" using assms(1,2) f by (simp add: t map_cs_id_update)
    show "i < length tbl'" using assms(2) by (simp add: t)
    show "cs_id (tbl' ! i) = p" using assms(2,3) f by (simp add: t)
    show "max_consecutive_errors (tbl' ! i) = Some N" using assms(2,4) f by (simp add: t)
    show "N \<le> int4_max" by fact
    show "consecutive_errors (tbl' ! i) = Some 0" using assms(2) f by (simp add: t)
    show "(0::int) \<le> 0" by simp
    show "(0::int) \<le> int4_max" by (simp add: int4_max_def)
    show "enabled (tbl' ! i) = (0 < N)" using assms(2,5,7) f by (simp add: t)
  qed
  then show ?thesis by (simp only: step) simp
qed

text \<open>
  Claim C3 (as amended). In a table with distinct keys, for the schedule with key \<open>p\<close>
  and \<open>max_consecutive_errors = N\<close>: \<^verbatim>\<open>record_schedule_error\<close> raises exactly when
  \<open>consecutive_errors + 1\<close> leaves the \<^verbatim>\<open>INTEGER\<close> range, and the table is then
  unchanged; otherwise it sets \<open>last_error\<close> to the message, replaces
  \<open>consecutive_errors\<close> by \<open>consecutive_errors + 1\<close> (null stays null), switches
  \<open>enabled\<close> off exactly when the counter holds a value \<open>c\<close> with \<open>N \<le> c + 1\<close> and
  leaves it unchanged otherwise, and sets \<open>next_run_at\<close> to now plus
  \<open>interval_seconds\<close>. A \<^verbatim>\<open>record_schedule_success\<close> that returns resets the counter to
  0 and keeps \<open>enabled\<close>. So for \<open>1 \<le> N\<close>, a schedule that is enabled with counter 0, or
  enabled and just recorded as a success, is still enabled after \<open>k\<close> consecutive errors if
  and only if \<open>k < N\<close>.
\<close>

theorem record_schedule_error_row:
  assumes "distinct (map cs_id tbl)" and "i < length tbl" and "cs_id (tbl ! i) = p"
    and "max_consecutive_errors (tbl ! i) = Some N"
  shows "((\<exists>e. record_schedule_error T p m tbl = Inl e) =
            (\<exists>c. consecutive_errors (tbl ! i) = Some c \<and> (c + 1 < int4_min \<or> int4_max < c + 1))) \<and>
         (\<forall>tbl'. record_schedule_error T p m tbl = Inr tbl' \<longrightarrow>
            last_error (tbl' ! i) = m \<and>
            consecutive_errors (tbl' ! i) = map_option (\<lambda>c. c + 1) (consecutive_errors (tbl ! i)) \<and>
            enabled (tbl' ! i) =
              (enabled (tbl ! i) \<and> \<not> (\<exists>c. consecutive_errors (tbl ! i) = Some c \<and> N \<le> c + 1)) \<and>
            next_run_at (tbl' ! i) = Some (T + interval_seconds (tbl ! i))) \<and>
         (\<forall>tbl'. record_schedule_success T p tbl = Inr tbl' \<longrightarrow>
            consecutive_errors (tbl' ! i) = Some 0 \<and> enabled (tbl' ! i) = enabled (tbl ! i)) \<and>
         (enabled (tbl ! i) \<and> consecutive_errors (tbl ! i) = Some 0 \<and> 1 \<le> N \<and> N \<le> int4_max \<longrightarrow>
            (\<forall>errs. enabled (after_calls (error_calls p errs) tbl ! i) = (int (length errs) < N))) \<and>
         (enabled (tbl ! i) \<and> 1 \<le> N \<and> N \<le> int4_max \<and>
          (\<exists>tbl'. record_schedule_success T p tbl = Inr tbl') \<longrightarrow>
            (\<forall>errs. enabled (after_calls ((T, Record_schedule_success p) # error_calls p errs) tbl ! i) =
               (int (length errs) < N)))"
proof -
  have s: "record_schedule_success T p tbl =
      (case success_set T (tbl ! i) of Inl e \<Rightarrow> Inl e | Inr r' \<Rightarrow> Inr (tbl[i := r']))"
    unfolding record_schedule_success_def using assms(1-3) by (rule sql_update_unique)
  have e: "record_schedule_error T p m tbl =
      (case error_set T m (tbl ! i) of Inl e \<Rightarrow> Inl e | Inr r' \<Rightarrow> Inr (tbl[i := r']))"
    unfolding record_schedule_error_def using assms(1-3) by (rule sql_update_unique)
  have 1: "(\<exists>e. record_schedule_error T p m tbl = Inl e) =
            (\<exists>c. consecutive_errors (tbl ! i) = Some c \<and> (c + 1 < int4_min \<or> int4_max < c + 1))"
    using error_set_Inl [of T m "tbl ! i"] by (auto simp: e split: sum.splits)
  have 2: "\<forall>tbl'. record_schedule_error T p m tbl = Inr tbl' \<longrightarrow>
            last_error (tbl' ! i) = m \<and>
            consecutive_errors (tbl' ! i) = map_option (\<lambda>c. c + 1) (consecutive_errors (tbl ! i)) \<and>
            enabled (tbl' ! i) =
              (enabled (tbl ! i) \<and> \<not> (\<exists>c. consecutive_errors (tbl ! i) = Some c \<and> N \<le> c + 1)) \<and>
            next_run_at (tbl' ! i) = Some (T + interval_seconds (tbl ! i))"
    using assms(2,4) by (auto simp: e split: sum.splits dest!: error_set_Inr)
  have 3: "\<forall>tbl'. record_schedule_success T p tbl = Inr tbl' \<longrightarrow>
            consecutive_errors (tbl' ! i) = Some 0 \<and> enabled (tbl' ! i) = enabled (tbl ! i)"
    using assms(2) by (auto simp: s split: sum.splits dest!: success_set_Inr)
  have 4: "enabled (tbl ! i) \<and> consecutive_errors (tbl ! i) = Some 0 \<and> 1 \<le> N \<and> N \<le> int4_max \<longrightarrow>
            (\<forall>errs. enabled (after_calls (error_calls p errs) tbl ! i) = (int (length errs) < N))"
  proof (intro impI allI)
    fix errs
    assume h: "enabled (tbl ! i) \<and> consecutive_errors (tbl ! i) = Some 0 \<and> 1 \<le> N \<and> N \<le> int4_max"
    have "enabled (after_calls (error_calls p errs) tbl ! i) = (0 + int (length errs) < N)"
      using assms h by (intro errors_fuse) (auto simp: int4_max_def)
    then show "enabled (after_calls (error_calls p errs) tbl ! i) = (int (length errs) < N)"
      by simp
  qed
  have 5: "enabled (tbl ! i) \<and> 1 \<le> N \<and> N \<le> int4_max \<and>
          (\<exists>tbl'. record_schedule_success T p tbl = Inr tbl') \<longrightarrow>
            (\<forall>errs. enabled (after_calls ((T, Record_schedule_success p) # error_calls p errs) tbl ! i) =
               (int (length errs) < N))"
  proof (intro impI allI)
    fix errs
    assume h: "enabled (tbl ! i) \<and> 1 \<le> N \<and> N \<le> int4_max \<and>
          (\<exists>tbl'. record_schedule_success T p tbl = Inr tbl')"
    then obtain tbl' where "record_schedule_success T p tbl = Inr tbl'" by blast
    with assms h
    show "enabled (after_calls ((T, Record_schedule_success p) # error_calls p errs) tbl ! i) =
               (int (length errs) < N)"
      by (intro success_then_errors) simp_all
  qed
  from 1 2 3 4 5 show ?thesis by (intro conjI)
qed

theorem record_schedule_error_row_witness:
  "enabled (after_calls (error_calls ''s1'' [(1, Some ''a''), (2, Some ''b'')])
     [(cron_schedules_default ''s1'' ''u1'' 0)\<lparr>enabled := True, max_consecutive_errors := Some 3\<rparr>] ! 0) \<and>
   \<not> enabled (after_calls (error_calls ''s1'' [(1, Some ''a''), (2, Some ''b''), (3, None)])
     [(cron_schedules_default ''s1'' ''u1'' 0)\<lparr>enabled := True, max_consecutive_errors := Some 3\<rparr>] ! 0)"
  using record_schedule_error_row [of
      "[(cron_schedules_default ''s1'' ''u1'' 0)\<lparr>enabled := True, max_consecutive_errors := Some 3\<rparr>]"
      0 "''s1''" 3 0 None]
  by (simp add: cron_schedules_default_def int4_max_def)

theorem record_schedule_error_counterexample:
  "map consecutive_errors
     (after_call 1000 (Record_schedule_error ''s1'' (Some ''boom''))
        [(cron_schedules_default ''s1'' ''u1'' 0)
           \<lparr>enabled := True, consecutive_errors := None, max_consecutive_errors := Some 1\<rparr>])
     = [None] \<and>
   map enabled
     (after_call 1000 (Record_schedule_error ''s1'' (Some ''boom''))
        [(cron_schedules_default ''s1'' ''u1'' 0)
           \<lparr>enabled := True, consecutive_errors := None, max_consecutive_errors := Some 1\<rparr>])
     = [True] \<and>
   map last_error
     (after_call 1000 (Record_schedule_error ''s1'' (Some ''boom''))
        [(cron_schedules_default ''s1'' ''u1'' 0)\<lparr>consecutive_errors := Some 2147483647\<rparr>])
     = [None]"
  by (simp add: after_call_def record_schedule_error_def error_set_def int4pl_def int4_max_def
      int4_min_def cron_schedules_default_def update_updated_at_column_def is_true_def
      sql_ge_def sql_le_def)

text \<open>
  Claim C4 (as amended). In a table with distinct keys, for the schedule with key \<open>p\<close>:
  \<^verbatim>\<open>record_schedule_success\<close> at instant \<open>T\<close> raises exactly when \<open>run_count + 1\<close> leaves
  the \<^verbatim>\<open>INTEGER\<close> range, and the table is then unchanged; otherwise it sets
  \<open>last_run_at = T\<close> and \<open>next_run_at = T + interval_seconds\<close>, replaces \<open>run_count\<close> by
  \<open>run_count + 1\<close> (null stays null), resets \<open>consecutive_errors\<close> to 0 and clears
  \<open>last_error\<close>. \<^verbatim>\<open>record_schedule_error\<close> at \<open>T\<close> raises exactly when
  \<open>consecutive_errors + 1\<close> leaves the range, and otherwise sets
  \<open>next_run_at = T + interval_seconds\<close> as well.
\<close>

theorem record_schedule_success_row:
  assumes "distinct (map cs_id tbl)" and "i < length tbl" and "cs_id (tbl ! i) = p"
  shows "((\<exists>e. record_schedule_success T p tbl = Inl e) =
            (\<exists>n. run_count (tbl ! i) = Some n \<and> (n + 1 < int4_min \<or> int4_max < n + 1))) \<and>
         (\<forall>tbl'. record_schedule_success T p tbl = Inr tbl' \<longrightarrow>
            last_run_at (tbl' ! i) = Some T \<and>
            next_run_at (tbl' ! i) = Some (T + interval_seconds (tbl ! i)) \<and>
            run_count (tbl' ! i) = map_option (\<lambda>n. n + 1) (run_count (tbl ! i)) \<and>
            consecutive_errors (tbl' ! i) = Some 0 \<and>
            last_error (tbl' ! i) = None) \<and>
         ((\<exists>e. record_schedule_error T p m tbl = Inl e) =
            (\<exists>n. consecutive_errors (tbl ! i) = Some n \<and> (n + 1 < int4_min \<or> int4_max < n + 1))) \<and>
         (\<forall>tbl'. record_schedule_error T p m tbl = Inr tbl' \<longrightarrow>
            next_run_at (tbl' ! i) = Some (T + interval_seconds (tbl ! i)))"
proof -
  have s: "record_schedule_success T p tbl =
      (case success_set T (tbl ! i) of Inl e \<Rightarrow> Inl e | Inr r' \<Rightarrow> Inr (tbl[i := r']))"
    unfolding record_schedule_success_def using assms by (rule sql_update_unique)
  have e: "record_schedule_error T p m tbl =
      (case error_set T m (tbl ! i) of Inl e \<Rightarrow> Inl e | Inr r' \<Rightarrow> Inr (tbl[i := r']))"
    unfolding record_schedule_error_def using assms by (rule sql_update_unique)
  have 1: "(\<exists>e. record_schedule_success T p tbl = Inl e) =
            (\<exists>n. run_count (tbl ! i) = Some n \<and> (n + 1 < int4_min \<or> int4_max < n + 1))"
    using success_set_Inl [of T "tbl ! i"] by (auto simp: s split: sum.splits)
  have 2: "\<forall>tbl'. record_schedule_success T p tbl = Inr tbl' \<longrightarrow>
            last_run_at (tbl' ! i) = Some T \<and>
            next_run_at (tbl' ! i) = Some (T + interval_seconds (tbl ! i)) \<and>
            run_count (tbl' ! i) = map_option (\<lambda>n. n + 1) (run_count (tbl ! i)) \<and>
            consecutive_errors (tbl' ! i) = Some 0 \<and>
            last_error (tbl' ! i) = None"
    using assms(2) by (auto simp: s split: sum.splits dest: success_set_Inr)
  have 3: "(\<exists>e. record_schedule_error T p m tbl = Inl e) =
            (\<exists>n. consecutive_errors (tbl ! i) = Some n \<and> (n + 1 < int4_min \<or> int4_max < n + 1))"
    using error_set_Inl [of T m "tbl ! i"] by (auto simp: e split: sum.splits)
  have 4: "\<forall>tbl'. record_schedule_error T p m tbl = Inr tbl' \<longrightarrow>
            next_run_at (tbl' ! i) = Some (T + interval_seconds (tbl ! i))"
    using assms(2) by (auto simp: e split: sum.splits dest: error_set_Inr)
  from 1 2 3 4 show ?thesis by blast
qed

theorem record_schedule_success_row_witness:
  "(\<exists>tbl'. record_schedule_success 1000 ''s1''
       [(cron_schedules_default ''s1'' ''u1'' 0)\<lparr>enabled := True\<rparr>] = Inr tbl' \<and>
       next_run_at (tbl' ! 0) = Some 1300 \<and> run_count (tbl' ! 0) = Some 1) \<and>
   (\<exists>tbl'. record_schedule_error 1000 ''s1'' (Some ''boom'')
       [(cron_schedules_default ''s1'' ''u1'' 0)\<lparr>enabled := True\<rparr>] = Inr tbl' \<and>
       next_run_at (tbl' ! 0) = Some 1300)"
  using record_schedule_success_row [of
      "[(cron_schedules_default ''s1'' ''u1'' 0)\<lparr>enabled := True\<rparr>]" 0 "''s1''" 1000
      "Some ''boom''"]
  by (simp add: cron_schedules_default_def record_schedule_success_def
      record_schedule_error_def success_set_def error_set_def int4pl_def int4_max_def
      int4_min_def)

theorem record_schedule_success_counterexample:
  "map run_count
     (after_call 1000 (Record_schedule_success ''s1'')
        [(cron_schedules_default ''s1'' ''u1'' 0)\<lparr>run_count := None\<rparr>])
     = [None] \<and>
   map last_run_at
     (after_call 1000 (Record_schedule_success ''s1'')
        [(cron_schedules_default ''s1'' ''u1'' 0)\<lparr>run_count := Some 2147483647\<rparr>])
     = [None] \<and>
   map run_count
     (after_call 1000 (Record_schedule_success ''s1'')
        [(cron_schedules_default ''s1'' ''u1'' 0)\<lparr>run_count := Some 2147483647\<rparr>])
     = [Some 2147483647]"
  by (simp add: after_call_def record_schedule_success_def success_set_def int4pl_def
      int4_max_def int4_min_def cron_schedules_default_def update_updated_at_column_def)

section \<open>Active sessions\<close>

lemma take1_sort_key:
  assumes "x \<in> set (take 1 (sort_key f xs))"
  shows "x \<in> set xs \<and> (\<forall>y \<in> set xs. f x \<le> f y)"
proof -
  obtain zs where zs: "sort_key f xs = x # zs"
    using assms by (cases "sort_key f xs") auto
  have "sorted (map f (sort_key f xs))" by (rule sorted_sort_key)
  with zs have le: "\<forall>y \<in> set zs. f x \<le> f y" by simp
  have "set xs = set (x # zs)" using zs set_sort [of f xs] by simp
  with le show ?thesis by auto
qed

lemma active_condition_iff:
  "is_true (active_condition now u es) =
     (es_user_id es = u \<and> es_revoked es = Some False \<and> now < es_expires_at es)"
  by (auto simp: active_condition_def is_true_def sql_and_def sql_eq_def sql_gt_def sql_lt_def
      split: option.splits)

lemma get_active_session_sound:
  assumes "a \<in> set (get_active_session now u tbl)"
  shows "\<exists>es \<in> set tbl. a = active_columns es \<and> es_user_id es = u \<and>
           es_revoked es = Some False \<and> now < es_expires_at es \<and>
           (\<forall>es' \<in> set tbl. es_user_id es' = u \<and> es_revoked es' = Some False \<and>
               now < es_expires_at es' \<longrightarrow> es_expires_at es' \<le> es_expires_at es)"
proof -
  let ?c = "filter (\<lambda>es. is_true (active_condition now u es)) tbl"
  from assms obtain es where es: "es \<in> set (take 1 (sort_key (\<lambda>es. - es_expires_at es) ?c))"
    "a = active_columns es"
    by (auto simp: get_active_session_def)
  from take1_sort_key [OF es(1)]
  have "es \<in> set ?c" and "\<forall>y \<in> set ?c. - es_expires_at es \<le> - es_expires_at y" by auto
  then show ?thesis using es(2) by (auto simp: active_condition_iff)
qed

lemma get_active_session_length: "length (get_active_session now u tbl) \<le> 1"
  by (simp add: get_active_session_def)

lemma get_active_session_empty:
  "(get_active_session now u tbl = []) =
   (\<not> (\<exists>es \<in> set tbl. es_user_id es = u \<and> es_revoked es = Some False \<and> now < es_expires_at es))"
proof -
  let ?c = "filter (\<lambda>es. is_true (active_condition now u es)) tbl"
  have "(get_active_session now u tbl = []) = (sort_key (\<lambda>es. - es_expires_at es) ?c = [])"
    by (simp add: get_active_session_def)
  also have "\<dots> = (?c = [])"
    by (metis length_sort length_0_conv)
  also have "\<dots> = (\<not> (\<exists>es \<in> set tbl. es_user_id es = u \<and> es_revoked es = Some False \<and> now < es_expires_at es))"
    by (auto simp: filter_empty_conv active_condition_iff)
  finally show ?thesis .
qed

lemma update_revoked_Inr:
  assumes "update_revoked sid w = (Inr ok, w')"
  shows "execution_sessions w' =
         map (\<lambda>es. if es_id es = sid then es\<lparr>es_revoked := Some True\<rparr> else es)
           (execution_sessions w)"
proof -
  have nf: "\<not> next_fault w"
    using assms unfolding update_revoked_def Let_def by (simp split: if_splits)
  with assms have "w' = (begin_call (Update_revoked sid) w)\<lparr>execution_sessions :=
              map (\<lambda>es. if es_id es = sid then es\<lparr>es_revoked := Some True\<rparr> else es)
                (execution_sessions (begin_call (Update_revoked sid) w))\<rparr>"
    unfolding update_revoked_def Let_def by simp
  then show ?thesis by (simp add: begin_call_def)
qed

lemma revokeSession_True:
  assumes "revokeSession pf sid w = (True, w')"
  shows "\<forall>es \<in> set (execution_sessions w'). es_id es = sid \<longrightarrow> es_revoked es = Some True"
proof (cases "createSupabaseClient pf")
  case (Inl e)
  with assms show ?thesis by (simp add: revokeSession_def)
next
  case (Inr supabase)
  obtain r w1 where u: "update_revoked sid w = (r, w1)" by (cases "update_revoked sid w")
  show ?thesis
  proof (cases r)
    case (Inl err)
    with assms Inr u show ?thesis by (simp add: revokeSession_def)
  next
    case ok: (Inr ok)
    with assms Inr u have "w1 = w'" by (simp add: revokeSession_def)
    with u ok have "update_revoked sid w = (Inr ok, w')" by simp
    note tbl = update_revoked_Inr [OF this]
    show ?thesis
    proof (intro ballI impI)
      fix es
      assume "es \<in> set (execution_sessions w')" and sid: "es_id es = sid"
      then have "es \<in> (\<lambda>es. if es_id es = sid then es\<lparr>es_revoked := Some True\<rparr> else es) `
          set (execution_sessions w)"
        by (simp only: tbl set_map)
      then obtain es0 where
        "es = (if es_id es0 = sid then es0\<lparr>es_revoked := Some True\<rparr> else es0)"
        by (rule imageE)
      with sid show "es_revoked es = Some True"
        by (cases "es_id es0 = sid") simp_all
    qed
  qed
qed

text \<open>
  Claim C6. Every row \<^verbatim>\<open>get_active_session\<close> returns comes from a stored session of the
  requested user that has \<open>revoked = false\<close> and \<open>expires_at\<close> strictly after now, and
  no such session of that user expires later; at most one row is returned, and none
  exactly when the user has no such session. So an expired session is never returned,
  whatever its \<open>revoked\<close> flag. After a \<^verbatim>\<open>revokeSession\<close> that reports success, no call
  of \<^verbatim>\<open>get_active_session\<close> on the resulting table, for any user and at any instant,
  returns the revoked session.
\<close>

theorem get_active_session_usable:
  "(\<forall>a \<in> set (get_active_session now u tbl).
      \<exists>es \<in> set tbl. a = active_columns es \<and> es_user_id es = u \<and>
        es_revoked es = Some False \<and> now < es_expires_at es \<and>
        (\<forall>es' \<in> set tbl. es_user_id es' = u \<and> es_revoked es' = Some False \<and>
            now < es_expires_at es' \<longrightarrow> es_expires_at es' \<le> es_expires_at es)) \<and>
   length (get_active_session now u tbl) \<le> 1 \<and>
   ((get_active_session now u tbl = []) =
      (\<not> (\<exists>es \<in> set tbl. es_user_id es = u \<and> es_revoked es = Some False \<and> now < es_expires_at es))) \<and>
   (\<forall>w'. revokeSession pf sid w = (True, w') \<longrightarrow>
      (\<forall>now' u'. \<forall>a \<in> set (get_active_session now' u' (execution_sessions w')).
         session_id a \<noteq> sid))"
proof -
  have 4: "\<forall>w'. revokeSession pf sid w = (True, w') \<longrightarrow>
      (\<forall>now' u'. \<forall>a \<in> set (get_active_session now' u' (execution_sessions w')).
         session_id a \<noteq> sid)"
  proof (intro allI impI ballI)
    fix w' now' u' a
    assume r: "revokeSession pf sid w = (True, w')"
      and a: "a \<in> set (get_active_session now' u' (execution_sessions w'))"
    from get_active_session_sound [OF a] obtain es where
      es: "es \<in> set (execution_sessions w')" "a = active_columns es" "es_revoked es = Some False"
      by blast
    show "session_id a \<noteq> sid"
    proof
      assume "session_id a = sid"
      with es(2) have "es_id es = sid" by (simp add: active_columns_def)
      with revokeSession_True [OF r] es(1) have "es_revoked es = Some True" by blast
      with es(3) show False by simp
    qed
  qed
  have 1: "\<forall>a \<in> set (get_active_session now u tbl).
      \<exists>es \<in> set tbl. a = active_columns es \<and> es_user_id es = u \<and>
        es_revoked es = Some False \<and> now < es_expires_at es \<and>
        (\<forall>es' \<in> set tbl. es_user_id es' = u \<and> es_revoked es' = Some False \<and>
            now < es_expires_at es' \<longrightarrow> es_expires_at es' \<le> es_expires_at es)"
    by (intro ballI get_active_session_sound)
  show ?thesis
    by (intro conjI 1 get_active_session_length get_active_session_empty 4)
qed

lemma example_revoke:
  "revokeSession example_platform ''s3'' example_world =
     (True, example_world\<lparr> faults := [], call_log := [Update_revoked ''s3''],
        execution_sessions :=
          map (\<lambda>es. if es_id es = ''s3'' then es\<lparr>es_revoked := Some True\<rparr> else es)
            example_sessions \<rparr>)"
  by (simp add: revokeSession_def createSupabaseClient_def example_platform_def truthy_def
      update_revoked_def next_fault_def begin_call_def example_world_def)

theorem get_active_session_usable_witness:
  "get_active_session 100 ''u1'' example_sessions \<noteq> [] \<and>
   ''s3'' \<notin> session_id ` set (get_active_session 100 ''u1''
       (execution_sessions (snd (revokeSession example_platform ''s3'' example_world))))"
proof -
  note t = get_active_session_usable [of 100 "''u1''" example_sessions example_platform "''s3''"
      example_world]
  have "\<exists>es \<in> set example_sessions. es_user_id es = ''u1'' \<and> es_revoked es = Some False \<and>
      100 < es_expires_at es"
    by (simp add: example_sessions_def)
  with t [THEN conjunct2, THEN conjunct2, THEN conjunct1]
  have 1: "get_active_session 100 ''u1'' example_sessions \<noteq> []" by simp
  have "revokeSession example_platform ''s3'' example_world =
      (True, snd (revokeSession example_platform ''s3'' example_world))"
    by (simp add: example_revoke)
  note r = t [THEN conjunct2, THEN conjunct2, THEN conjunct2, rule_format, OF this, of _ 100 "''u1''"]
  have 2: "''s3'' \<notin> session_id ` set (get_active_session 100 ''u1''
       (execution_sessions (snd (revokeSession example_platform ''s3'' example_world))))"
  proof
    assume "''s3'' \<in> session_id ` set (get_active_session 100 ''u1''
       (execution_sessions (snd (revokeSession example_platform ''s3'' example_world))))"
    then obtain a where a: "a \<in> set (get_active_session 100 ''u1''
       (execution_sessions (snd (revokeSession example_platform ''s3'' example_world))))"
      and s: "''s3'' = session_id a"
      by (rule imageE)
    from r [OF a] s show False by simp
  qed
  from 1 2 show ?thesis by (rule conjI)
qed

section \<open>Session tokens\<close>

lemma token_iv_take: "token_iv c = take 12 c"
  by (simp add: token_iv_def slice_def relative_index_def Let_def min_def)

lemma relative_index_from_end: "relative_index len (- 32) = len - 32"
  unfolding relative_index_def by (simp add: max_def) linarith

lemma token_keyBytes_drop: "token_keyBytes c = drop (length c - 32) c"
  by (simp add: token_keyBytes_def slice_def relative_index_from_end Let_def)

lemma token_ciphertext_between:
  "44 \<le> length c \<Longrightarrow> token_ciphertext c = drop 12 (take (length c - 32) c)"
  by (simp add: token_ciphertext_def slice_def relative_index_from_end Let_def drop_take)
     (simp add: relative_index_def)

lemma token_split:
  assumes "length iv = 12" and "length key = 32"
  shows "token_iv (iv @ ct @ key) = iv \<and> token_ciphertext (iv @ ct @ key) = ct \<and>
         token_keyBytes (iv @ ct @ key) = key"
  using assms by (simp add: token_iv_take token_keyBytes_drop token_ciphertext_between)

lemma decryptSessionToken_layout:
  assumes "atob pf token = Some (iv @ ct @ key)" and "length iv = 12" and "length key = 32"
  shows "decryptSessionToken pf token =
     (case subtle_importKey_raw pf key of
        None \<Rightarrow> None
      | Some k \<Rightarrow>
          (case subtle_decrypt_aes_gcm pf k iv ct of
             None \<Rightarrow> None
           | Some decrypted \<Rightarrow> json_parse_payload pf (text_decode pf decrypted)))"
  using assms(1) token_split [OF assms(2,3), of ct]
  by (simp add: decryptSessionToken_def split: option.splits)

lemma clock_begin_call: "clock (begin_call c w) = clock w"
  and sessions_begin_call: "execution_sessions (begin_call c w) = execution_sessions w"
  and keys_begin_call: "encrypted_keys (begin_call c w) = encrypted_keys w"
  and log_begin_call: "call_log (begin_call c w) = call_log w @ [c]"
  by (simp_all add: begin_call_def)

lemma invalid_session_fields:
  "valid (invalid_session m) = False" "session_password (invalid_session m) = None"
  by (simp_all add: invalid_session_def)

lemma get_active_session_singleton:
  "get_active_session now u tbl = a # others \<Longrightarrow> others = []"
  using get_active_session_length [of now u tbl] by simp

lemma validateExecutionSession_valid:
  assumes "valid (fst (validateExecutionSession pf user w))"
  shows "\<exists>session payload.
           get_active_session (clock w) user (execution_sessions w) = [session] \<and>
           decryptSessionToken pf (encrypted_session_token session) = Some payload \<and>
           userId payload = user \<and>
           session_password (fst (validateExecutionSession pf user w)) = Some (payload_password payload) \<and>
           sessionId (fst (validateExecutionSession pf user w)) = Some (session_id session)"
proof (cases "createSupabaseClient pf")
  case (Inl e)
  with assms show ?thesis by (simp add: validateExecutionSession_def invalid_session_fields)
next
  case (Inr supabase)
  show ?thesis
  proof (cases "next_fault w")
    case True
    with assms Inr show ?thesis
      by (simp add: validateExecutionSession_def rpc_get_active_session_def Let_def
          invalid_session_fields)
  next
    case False
    let ?data = "get_active_session (clock w) user (execution_sessions w)"
    have rpc: "rpc_get_active_session user w = (Inr ?data, begin_call (Rpc_get_active_session user) w)"
      using False
      by (simp add: rpc_get_active_session_def Let_def clock_begin_call sessions_begin_call)
    show ?thesis
    proof (cases ?data)
      case Nil
      with assms Inr rpc show ?thesis
        by (simp add: validateExecutionSession_def invalid_session_fields)
    next
      case (Cons session others)
      then have data: "?data = [session]" using get_active_session_singleton by blast
      show ?thesis
      proof (cases "expires_at session < date_now pf")
        case True
        with assms Inr rpc data show ?thesis
          by (simp add: validateExecutionSession_def invalid_session_fields)
      next
        case fresh: False
        show ?thesis
        proof (cases "decryptSessionToken pf (encrypted_session_token session)")
          case None
          with assms Inr rpc data fresh show ?thesis
            by (simp add: validateExecutionSession_def invalid_session_fields)
        next
          case (Some payload)
          show ?thesis
          proof (cases "userId payload = user")
            case False
            with assms Inr rpc data fresh Some show ?thesis
              by (simp add: validateExecutionSession_def invalid_session_fields)
          next
            case True
            with Inr rpc data fresh Some show ?thesis
              by (simp add: validateExecutionSession_def)
          qed
        qed
      qed
    qed
  qed
qed

lemma validateExecutionSession_invalid:
  assumes "\<not> valid (fst (validateExecutionSession pf user w))"
  shows "session_password (fst (validateExecutionSession pf user w)) = None"
  using assms
  by (simp add: validateExecutionSession_def invalid_session_fields
      split: sum.splits prod.splits list.splits option.splits if_splits)

text \<open>
  Claim C7. A decoded token of at least 44 bytes is cut into its first 12 bytes (the
  IV), its last 32 bytes (the key) and the bytes between (the ciphertext); a token that
  decodes to \<open>iv @ ct @ key\<close> with a 12-byte \<open>iv\<close> and a 32-byte \<open>key\<close> is decrypted by
  importing \<open>key\<close>, decrypting \<open>ct\<close> under it with \<open>iv\<close> and parsing the plaintext as the
  payload. \<^verbatim>\<open>validateExecutionSession\<close> answers \<open>valid = true\<close> only when the active
  session's token decrypted to a payload whose \<open>userId\<close> is the requested user, and then
  carries that payload's password; so a payload of another owner gives
  \<open>valid = false\<close>, and every answer with \<open>valid = false\<close> carries no password.
\<close>

theorem validateExecutionSession_owner:
  "(44 \<le> length combined \<longrightarrow>
      token_iv combined = take 12 combined \<and>
      token_keyBytes combined = drop (length combined - 32) combined \<and>
      token_ciphertext combined = drop 12 (take (length combined - 32) combined)) \<and>
   (atob pf token = Some (iv @ ct @ key) \<and> length iv = 12 \<and> length key = 32 \<longrightarrow>
      decryptSessionToken pf token =
        (case subtle_importKey_raw pf key of
           None \<Rightarrow> None
         | Some k \<Rightarrow>
             (case subtle_decrypt_aes_gcm pf k iv ct of
                None \<Rightarrow> None
              | Some decrypted \<Rightarrow> json_parse_payload pf (text_decode pf decrypted)))) \<and>
   (valid (fst (validateExecutionSession pf user w)) \<longrightarrow>
      (\<exists>session payload.
         get_active_session (clock w) user (execution_sessions w) = [session] \<and>
         decryptSessionToken pf (encrypted_session_token session) = Some payload \<and>
         userId payload = user \<and>
         session_password (fst (validateExecutionSession pf user w)) = Some (payload_password payload) \<and>
         sessionId (fst (validateExecutionSession pf user w)) = Some (session_id session))) \<and>
   (\<not> valid (fst (validateExecutionSession pf user w)) \<longrightarrow>
      session_password (fst (validateExecutionSession pf user w)) = None)"
proof (intro conjI impI)
  assume "44 \<le> length combined"
  then show "token_ciphertext combined = drop 12 (take (length combined - 32) combined)"
    by (rule token_ciphertext_between)
next
  assume "atob pf token = Some (iv @ ct @ key) \<and> length iv = 12 \<and> length key = 32"
  then show "decryptSessionToken pf token =
        (case subtle_importKey_raw pf key of
           None \<Rightarrow> None
         | Some k \<Rightarrow>
             (case subtle_decrypt_aes_gcm pf k iv ct of
                None \<Rightarrow> None
              | Some decrypted \<Rightarrow> json_parse_payload pf (text_decode pf decrypted)))"
    using decryptSessionToken_layout [of pf token iv ct key] by simp
next
  assume "valid (fst (validateExecutionSession pf user w))"
  then show "\<exists>session payload.
         get_active_session (clock w) user (execution_sessions w) = [session] \<and>
         decryptSessionToken pf (encrypted_session_token session) = Some payload \<and>
         userId payload = user \<and>
         session_password (fst (validateExecutionSession pf user w)) = Some (payload_password payload) \<and>
         sessionId (fst (validateExecutionSession pf user w)) = Some (session_id session)"
    by (rule validateExecutionSession_valid)
next
  assume "\<not> valid (fst (validateExecutionSession pf user w))"
  then show "session_password (fst (validateExecutionSession pf user w)) = None"
    by (rule validateExecutionSession_invalid)
qed (simp_all add: token_iv_take token_keyBytes_drop)

lemma example_active_u2:
  "get_active_session 100 ''u2'' example_sessions =
     [\<lparr> session_id = ''s4'', encrypted_session_token = ''t4'', expires_at = 300 \<rparr>]"
  by (simp add: get_active_session_def example_sessions_def active_condition_iff
      active_columns_def)

lemma example_active_u1:
  "get_active_session 100 ''u1'' example_sessions =
     [\<lparr> session_id = ''s3'', encrypted_session_token = ''t3'', expires_at = 300 \<rparr>]"
  by (simp add: get_active_session_def example_sessions_def active_condition_iff
      active_columns_def)

lemma toy_decrypt:
  "decryptSessionToken toy_platform t =
     Some \<lparr> userId = ''u1'', payload_password = ''from-session'', expiresAt = ''300'' \<rparr>"
  by (simp add: decryptSessionToken_def toy_platform_def token_keyBytes_drop)

theorem validateExecutionSession_owner_witness:
  "decryptSessionToken toy_platform ''t4'' =
     json_parse_payload toy_platform (text_decode toy_platform [2, 2]) \<and>
   \<not> valid (fst (validateExecutionSession toy_platform ''u2'' example_world)) \<and>
   session_password (fst (validateExecutionSession toy_platform ''u2'' example_world)) = None"
proof -
  note t = validateExecutionSession_owner [of "replicate 44 0" toy_platform "''t4''"
      "replicate 12 1" "[2, 2]" "replicate 32 3" "''u2''" example_world]
  have "atob toy_platform ''t4'' = Some (replicate 12 1 @ [2, 2] @ replicate 32 3) \<and>
      length (replicate 12 (1::byte)) = 12 \<and> length (replicate 32 (3::byte)) = 32"
    by (simp add: toy_platform_def)
  from t [THEN conjunct2, THEN conjunct1, rule_format, OF this]
  have 1: "decryptSessionToken toy_platform ''t4'' =
     json_parse_payload toy_platform (text_decode toy_platform [2, 2])"
    by (simp add: toy_platform_def)
  have 2: "\<not> valid (fst (validateExecutionSession toy_platform ''u2'' example_world))"
  proof
    assume "valid (fst (validateExecutionSession toy_platform ''u2'' example_world))"
    from t [THEN conjunct2, THEN conjunct2, THEN conjunct1, rule_format, OF this]
    obtain session payload where
      "get_active_session (clock example_world) ''u2'' (execution_sessions example_world) = [session]"
      "decryptSessionToken toy_platform (encrypted_session_token session) = Some payload"
      "userId payload = ''u2''"
      by blast
    then have "userId \<lparr> userId = ''u1'', payload_password = ''from-session'',
        expiresAt = ''300'' \<rparr> = ''u2''"
      by (simp add: toy_decrypt)
    then show False by simp
  qed
  from t [THEN conjunct2, THEN conjunct2, THEN conjunct2, rule_format, OF 2]
  have 3: "session_password (fst (validateExecutionSession toy_platform ''u2'' example_world)) = None" .
  from 1 2 3 show ?thesis by (intro conjI)
qed

section \<open>Tier precedence\<close>

lemma truthy_Some: "truthy v = (\<exists>s. v = Some s \<and> s \<noteq> [])"
  by (cases v) (simp_all add: truthy_def)

lemma select_encrypted_password_eq:
  "select_encrypted_password user w =
     (if next_fault w then Inl Fetch_failed else single (hyperliquid_key_rows user w),
      begin_call (Select_encrypted_password user) w)"
  by (simp add: select_encrypted_password_def Let_def hyperliquid_key_rows_def keys_begin_call)

lemma single_Inr: "(single rows = Inr k) = (rows = [k])"
  by (cases rows; cases "tl rows") (auto simp: single_def split: list.splits)

lemma getExecutionPassword_unfold:
  assumes "createSupabaseClient pf = Inr ()"
  shows "getExecutionPassword pf user w =
     (let w1 = begin_call (Select_encrypted_password user) w;
          stored =
            (case (if next_fault w then Inl Fetch_failed
                   else single (hyperliquid_key_rows user w)) of
               Inl keyError \<Rightarrow> None
             | Inr k \<Rightarrow>
                 if truthy (encrypted_password k)
                 then decryptStoredPassword pf (the (encrypted_password k))
                 else None)
      in if truthy stored
         then (\<lparr> password = stored, tier = Persistent, error = None \<rparr>, w1)
         else
           (let r = validateExecutionSession pf user w1
            in if valid (fst r) \<and> truthy (session_password (fst r))
               then (\<lparr> password = session_password (fst r), tier = Session, error = None \<rparr>,
                     snd r)
               else (\<lparr> password = None, tier = No_tier,
                       error = Some (if truthy (session_error (fst r))
                                     then the (session_error (fst r))
                                     else ''No valid session or stored password'') \<rparr>,
                     snd r)))"
  using assms
  by (simp add: getExecutionPassword_def select_encrypted_password_eq Let_def split_beta)

lemma stored_password_yields:
  "truthy (case (if next_fault w then Inl Fetch_failed
                 else single (hyperliquid_key_rows user w)) of
             Inl keyError \<Rightarrow> None
           | Inr k \<Rightarrow>
               if truthy (encrypted_password k)
               then decryptStoredPassword pf (the (encrypted_password k))
               else None) =
   (\<exists>k ep pw. \<not> next_fault w \<and> hyperliquid_key_rows user w = [k] \<and>
      encrypted_password k = Some ep \<and> ep \<noteq> [] \<and>
      decryptStoredPassword pf ep = Some pw \<and> pw \<noteq> [])"
proof (cases "next_fault w")
  case True
  then show ?thesis by (simp add: truthy_def)
next
  case nf: False
  show ?thesis
  proof (cases "single (hyperliquid_key_rows user w)")
    case (Inl err)
    then have "\<And>k. hyperliquid_key_rows user w \<noteq> [k]"
      using single_Inr [of "hyperliquid_key_rows user w"] by auto
    with nf Inl show ?thesis by (simp add: truthy_def)
  next
    case (Inr k)
    then have rows: "hyperliquid_key_rows user w = [k]" by (simp add: single_Inr)
    show ?thesis
    proof (cases "truthy (encrypted_password k)")
      case False
      then have "\<And>ep. \<not> (encrypted_password k = Some ep \<and> ep \<noteq> [])"
        by (auto simp: truthy_Some)
      with nf Inr rows False show ?thesis by (auto simp: truthy_def)
    next
      case True
      then obtain ep where ep: "encrypted_password k = Some ep" "ep \<noteq> []"
        by (auto simp: truthy_Some)
      with nf Inr rows True show ?thesis by (simp add: truthy_Some)
    qed
  qed
qed

lemma getExecutionPassword_persistent:
  assumes "createSupabaseClient pf = Inr ()" and "\<not> next_fault w"
    and "hyperliquid_key_rows user w = [k]" and "encrypted_password k = Some ep" and "ep \<noteq> []"
    and "decryptStoredPassword pf ep = Some pw" and "pw \<noteq> []"
  shows "getExecutionPassword pf user w =
     (\<lparr> password = Some pw, tier = Persistent, error = None \<rparr>,
      begin_call (Select_encrypted_password user) w)"
proof -
  have "single (hyperliquid_key_rows user w) = Inr k" using assms(3) by (simp add: single_Inr)
  with assms show ?thesis
    by (simp add: getExecutionPassword_unfold Let_def truthy_def)
qed

lemma getExecutionPassword_session:
  assumes "createSupabaseClient pf = Inr ()"
    and "\<not> (\<exists>k ep pw. \<not> next_fault w \<and> hyperliquid_key_rows user w = [k] \<and>
             encrypted_password k = Some ep \<and> ep \<noteq> [] \<and>
             decryptStoredPassword pf ep = Some pw \<and> pw \<noteq> [])"
  shows "getExecutionPassword pf user w =
     (let r = validateExecutionSession pf user (begin_call (Select_encrypted_password user) w)
      in if valid (fst r) \<and> truthy (session_password (fst r))
         then (\<lparr> password = session_password (fst r), tier = Session, error = None \<rparr>, snd r)
         else (\<lparr> password = None, tier = No_tier,
                 error = Some (if truthy (session_error (fst r))
                               then the (session_error (fst r))
                               else ''No valid session or stored password'') \<rparr>,
               snd r))"
proof -
  from assms(2) have "\<not> truthy (case (if next_fault w then Inl Fetch_failed
                 else single (hyperliquid_key_rows user w)) of
             Inl keyError \<Rightarrow> None
           | Inr k \<Rightarrow>
               if truthy (encrypted_password k)
               then decryptStoredPassword pf (the (encrypted_password k))
               else None)"
    by (simp only: stored_password_yields not_False_eq_True)
  then show ?thesis
    by (simp add: getExecutionPassword_unfold [OF assms(1)] Let_def)
qed

lemma getExecutionPassword_tier_persistent:
  assumes "createSupabaseClient pf = Inr ()"
    and "tier (fst (getExecutionPassword pf user w)) = Persistent"
  shows "\<exists>k ep pw. \<not> next_fault w \<and> hyperliquid_key_rows user w = [k] \<and>
           encrypted_password k = Some ep \<and> ep \<noteq> [] \<and>
           decryptStoredPassword pf ep = Some pw \<and> pw \<noteq> [] \<and>
           password (fst (getExecutionPassword pf user w)) = Some pw"
proof (rule ccontr)
  assume n: "\<not> (\<exists>k ep pw. \<not> next_fault w \<and> hyperliquid_key_rows user w = [k] \<and>
           encrypted_password k = Some ep \<and> ep \<noteq> [] \<and>
           decryptStoredPassword pf ep = Some pw \<and> pw \<noteq> [] \<and>
           password (fst (getExecutionPassword pf user w)) = Some pw)"
  show False
  proof (cases "\<exists>k ep pw. \<not> next_fault w \<and> hyperliquid_key_rows user w = [k] \<and>
             encrypted_password k = Some ep \<and> ep \<noteq> [] \<and>
             decryptStoredPassword pf ep = Some pw \<and> pw \<noteq> []")
    case True
    then obtain k ep pw where y: "\<not> next_fault w" "hyperliquid_key_rows user w = [k]"
      "encrypted_password k = Some ep" "ep \<noteq> []" "decryptStoredPassword pf ep = Some pw" "pw \<noteq> []"
      by blast
    from getExecutionPassword_persistent [OF assms(1) y]
    have "password (fst (getExecutionPassword pf user w)) = Some pw" by simp
    with n y show False by blast
  next
    case False
    from getExecutionPassword_session [OF assms(1) False]
    have "tier (fst (getExecutionPassword pf user w)) \<noteq> Persistent"
      by (simp add: Let_def)
    with assms(2) show False by simp
  qed
qed

text \<open>
  Claim C5 (as amended). \<^verbatim>\<open>getExecutionPassword\<close> asks for the owner's \<^verbatim>\<open>hyperliquid\<close> key record
  first. The persistent tier yields a password when that query succeeds with a single
  record whose \<open>encrypted_password\<close> is not empty and decrypts under the server-held
  secret to a password that is not empty: then the result is that password with tier
  \<open>persistent\<close>, whatever sessions exist, and the key query is the only call made. In every
  other case \<^verbatim>\<open>validateExecutionSession\<close> is consulted next: a valid session with a password
  that is not empty gives that password with tier \<open>session\<close>, anything else gives no
  password, tier \<open>none\<close> and the session's error. So a result of tier \<open>persistent\<close> always
  carries the decrypted stored password, and the session query is made only when the
  persistent tier yields no password. Without a configured client the result is tier
  \<open>none\<close> with the exception's message, and no call is made.
\<close>

theorem getExecutionPassword_precedence:
  assumes "w1 = begin_call (Select_encrypted_password user) w"
    and "sessionResult = fst (validateExecutionSession pf user w1)"
    and "w2 = snd (validateExecutionSession pf user w1)"
  shows
  "(\<forall>e. createSupabaseClient pf = Inl e \<longrightarrow>
      getExecutionPassword pf user w =
        (\<lparr> password = None, tier = No_tier, error = Some (exn_message e) \<rparr>, w)) \<and>
   (createSupabaseClient pf = Inr () \<longrightarrow>
      (\<forall>k ep pw. \<not> next_fault w \<and> hyperliquid_key_rows user w = [k] \<and>
         encrypted_password k = Some ep \<and> ep \<noteq> [] \<and>
         decryptStoredPassword pf ep = Some pw \<and> pw \<noteq> [] \<longrightarrow>
           getExecutionPassword pf user w =
             (\<lparr> password = Some pw, tier = Persistent, error = None \<rparr>, w1)) \<and>
      (\<not> (\<exists>k ep pw. \<not> next_fault w \<and> hyperliquid_key_rows user w = [k] \<and>
             encrypted_password k = Some ep \<and> ep \<noteq> [] \<and>
             decryptStoredPassword pf ep = Some pw \<and> pw \<noteq> []) \<longrightarrow>
         (valid sessionResult \<and> truthy (session_password sessionResult) \<longrightarrow>
            getExecutionPassword pf user w =
              (\<lparr> password = session_password sessionResult, tier = Session, error = None \<rparr>,
               w2)) \<and>
         (\<not> (valid sessionResult \<and> truthy (session_password sessionResult)) \<longrightarrow>
            getExecutionPassword pf user w =
              (\<lparr> password = None, tier = No_tier,
                 error = Some (if truthy (session_error sessionResult)
                               then the (session_error sessionResult)
                               else ''No valid session or stored password'') \<rparr>,
               w2))) \<and>
      (tier (fst (getExecutionPassword pf user w)) = Persistent \<longrightarrow>
         (\<exists>k ep pw. \<not> next_fault w \<and> hyperliquid_key_rows user w = [k] \<and>
            encrypted_password k = Some ep \<and> ep \<noteq> [] \<and>
            decryptStoredPassword pf ep = Some pw \<and> pw \<noteq> [] \<and>
            password (fst (getExecutionPassword pf user w)) = Some pw)) \<and>
      (Rpc_get_active_session user \<in> set (call_log (snd (getExecutionPassword pf user w))) \<and>
       Rpc_get_active_session user \<notin> set (call_log w) \<longrightarrow>
         \<not> (\<exists>k ep pw. \<not> next_fault w \<and> hyperliquid_key_rows user w = [k] \<and>
               encrypted_password k = Some ep \<and> ep \<noteq> [] \<and>
               decryptStoredPassword pf ep = Some pw \<and> pw \<noteq> [])))"
proof (intro conjI allI impI)
  fix e
  assume "createSupabaseClient pf = Inl e"
  then show "getExecutionPassword pf user w =
        (\<lparr> password = None, tier = No_tier, error = Some (exn_message e) \<rparr>, w)"
    by (simp add: getExecutionPassword_def)
next
  fix k ep pw
  assume c: "createSupabaseClient pf = Inr ()"
    and "\<not> next_fault w \<and> hyperliquid_key_rows user w = [k] \<and>
         encrypted_password k = Some ep \<and> ep \<noteq> [] \<and>
         decryptStoredPassword pf ep = Some pw \<and> pw \<noteq> []"
  then show "getExecutionPassword pf user w =
             (\<lparr> password = Some pw, tier = Persistent, error = None \<rparr>, w1)"
    using getExecutionPassword_persistent [OF c, of w user k ep pw] assms(1) by simp
next
  assume c: "createSupabaseClient pf = Inr ()"
    and n: "\<not> (\<exists>k ep pw. \<not> next_fault w \<and> hyperliquid_key_rows user w = [k] \<and>
             encrypted_password k = Some ep \<and> ep \<noteq> [] \<and>
             decryptStoredPassword pf ep = Some pw \<and> pw \<noteq> [])"
    and v: "valid sessionResult \<and> truthy (session_password sessionResult)"
  from v show "getExecutionPassword pf user w =
              (\<lparr> password = session_password sessionResult, tier = Session, error = None \<rparr>,
               w2)"
    unfolding getExecutionPassword_session [OF c n] assms by (simp add: Let_def)
next
  assume c: "createSupabaseClient pf = Inr ()"
    and n: "\<not> (\<exists>k ep pw. \<not> next_fault w \<and> hyperliquid_key_rows user w = [k] \<and>
             encrypted_password k = Some ep \<and> ep \<noteq> [] \<and>
             decryptStoredPassword pf ep = Some pw \<and> pw \<noteq> [])"
    and v: "\<not> (valid sessionResult \<and> truthy (session_password sessionResult))"
  from v show "getExecutionPassword pf user w =
              (\<lparr> password = None, tier = No_tier,
                 error = Some (if truthy (session_error sessionResult)
                               then the (session_error sessionResult)
                               else ''No valid session or stored password'') \<rparr>,
               w2)"
    unfolding getExecutionPassword_session [OF c n] assms by (simp add: Let_def)
next
  assume c: "createSupabaseClient pf = Inr ()"
    and "tier (fst (getExecutionPassword pf user w)) = Persistent"
  then show "\<exists>k ep pw. \<not> next_fault w \<and> hyperliquid_key_rows user w = [k] \<and>
            encrypted_password k = Some ep \<and> ep \<noteq> [] \<and>
            decryptStoredPassword pf ep = Some pw \<and> pw \<noteq> [] \<and>
            password (fst (getExecutionPassword pf user w)) = Some pw"
    by (rule getExecutionPassword_tier_persistent)
next
  assume c: "createSupabaseClient pf = Inr ()"
    and a: "Rpc_get_active_session user \<in> set (call_log (snd (getExecutionPassword pf user w))) \<and>
       Rpc_get_active_session user \<notin> set (call_log w)"
  show "\<not> (\<exists>k ep pw. \<not> next_fault w \<and> hyperliquid_key_rows user w = [k] \<and>
               encrypted_password k = Some ep \<and> ep \<noteq> [] \<and>
               decryptStoredPassword pf ep = Some pw \<and> pw \<noteq> [])"
  proof
    assume "\<exists>k ep pw. \<not> next_fault w \<and> hyperliquid_key_rows user w = [k] \<and>
               encrypted_password k = Some ep \<and> ep \<noteq> [] \<and>
               decryptStoredPassword pf ep = Some pw \<and> pw \<noteq> []"
    then obtain k ep pw where "\<not> next_fault w" "hyperliquid_key_rows user w = [k]"
      "encrypted_password k = Some ep" "ep \<noteq> []" "decryptStoredPassword pf ep = Some pw" "pw \<noteq> []"
      by blast
    from getExecutionPassword_persistent [OF c this]
    have "call_log (snd (getExecutionPassword pf user w)) =
        call_log w @ [Select_encrypted_password user]"
      by (simp add: log_begin_call)
    with a show False by simp
  qed
qed

lemma toy_client: "createSupabaseClient toy_platform = Inr ()"
  by (simp add: createSupabaseClient_def toy_platform_def truthy_def)

lemma blank_client: "createSupabaseClient blank_platform = Inr ()"
  by (simp add: createSupabaseClient_def blank_platform_def truthy_def)

lemma toy_stored: "decryptStoredPassword toy_platform ep = Some ''hunter2''"
  by (simp add: decryptStoredPassword_def toy_platform_def Let_def)

lemma blank_stored: "decryptStoredPassword blank_platform ep = Some []"
  by (simp add: decryptStoredPassword_def blank_platform_def Let_def)

lemma blank_decrypt:
  "decryptSessionToken blank_platform t =
     Some \<lparr> userId = ''u1'', payload_password = ''from-session'', expiresAt = ''300'' \<rparr>"
  by (simp add: decryptSessionToken_def blank_platform_def token_keyBytes_drop)

lemma example_key_rows:
  "hyperliquid_key_rows ''u1'' example_world = example_keys"
  "hyperliquid_key_rows ''u1'' failing_world = example_keys"
  by (simp_all add: hyperliquid_key_rows_def example_world_def failing_world_def
      example_keys_def)

lemma example_session_u1:
  assumes "createSupabaseClient pf = Inr ()" and "\<not> next_fault w" and "clock w = 100"
    and "execution_sessions w = example_sessions" and "date_now pf = 100"
    and "decryptSessionToken pf ''t3'' =
           Some \<lparr> userId = ''u1'', payload_password = ''from-session'', expiresAt = ''300'' \<rparr>"
  shows "fst (validateExecutionSession pf ''u1'' w) =
     \<lparr> valid = True, session_password = Some ''from-session'', session_error = None,
       sessionId = Some ''s3'' \<rparr>"
proof -
  have "rpc_get_active_session ''u1'' w =
      (Inr [\<lparr> session_id = ''s3'', encrypted_session_token = ''t3'', expires_at = 300 \<rparr>],
       begin_call (Rpc_get_active_session ''u1'') w)"
    using assms(2-4)
    by (simp add: rpc_get_active_session_def Let_def clock_begin_call sessions_begin_call
        example_active_u1)
  then show ?thesis
    using assms(1,5,6) by (simp add: validateExecutionSession_def)
qed

lemma example_world_fields:
  "\<not> next_fault example_world" "clock example_world = 100"
  "execution_sessions example_world = example_sessions"
  "\<not> next_fault (begin_call c example_world)" "clock (begin_call c example_world) = 100"
  "execution_sessions (begin_call c example_world) = example_sessions"
  by (simp_all add: example_world_def next_fault_def begin_call_def)

lemma failing_world_fields:
  "next_fault failing_world"
  "\<not> next_fault (begin_call c failing_world)" "clock (begin_call c failing_world) = 100"
  "execution_sessions (begin_call c failing_world) = example_sessions"
  "\<not> next_fault (failing_world\<lparr>faults := []\<rparr>)" "clock (failing_world\<lparr>faults := []\<rparr>) = 100"
  "execution_sessions (failing_world\<lparr>faults := []\<rparr>) = example_sessions"
  by (simp_all add: failing_world_def next_fault_def begin_call_def)

lemma platform_clocks: "date_now toy_platform = 100" "date_now blank_platform = 100"
  by (simp_all add: toy_platform_def blank_platform_def)

lemma blank_no_stored:
  "\<not> (\<exists>k ep pw. \<not> next_fault example_world \<and>
        hyperliquid_key_rows ''u1'' example_world = [k] \<and>
        encrypted_password k = Some ep \<and> ep \<noteq> [] \<and>
        decryptStoredPassword blank_platform ep = Some pw \<and> pw \<noteq> [])"
  by (simp add: blank_stored)

lemma failing_no_stored:
  "\<not> (\<exists>k ep pw. \<not> next_fault failing_world \<and>
        hyperliquid_key_rows ''u1'' failing_world = [k] \<and>
        encrypted_password k = Some ep \<and> ep \<noteq> [] \<and>
        decryptStoredPassword pf ep = Some pw \<and> pw \<noteq> [])"
  by (simp add: failing_world_fields(1))

lemma blank_session:
  "fst (validateExecutionSession blank_platform ''u1''
       (begin_call (Select_encrypted_password ''u1'') example_world)) =
     \<lparr> valid = True, session_password = Some ''from-session'', session_error = None,
       sessionId = Some ''s3'' \<rparr>"
  by (rule example_session_u1 [OF blank_client example_world_fields(4,5,6) platform_clocks(2)
        blank_decrypt])

lemma failing_session:
  "fst (validateExecutionSession toy_platform ''u1''
       (begin_call (Select_encrypted_password ''u1'') failing_world)) =
     \<lparr> valid = True, session_password = Some ''from-session'', session_error = None,
       sessionId = Some ''s3'' \<rparr>"
  by (rule example_session_u1 [OF toy_client failing_world_fields(2,3,4) platform_clocks(1)
        toy_decrypt])

theorem getExecutionPassword_precedence_witness:
  "getExecutionPassword toy_platform ''u1'' example_world =
     (\<lparr> password = Some ''hunter2'', tier = Persistent, error = None \<rparr>,
      begin_call (Select_encrypted_password ''u1'') example_world) \<and>
   fst (getExecutionPassword blank_platform ''u1'' example_world) =
     \<lparr> password = Some ''from-session'', tier = Session, error = None \<rparr>"
proof -
  have s: "\<not> next_fault example_world \<and>
      hyperliquid_key_rows ''u1'' example_world = [hd example_keys] \<and>
      encrypted_password (hd example_keys) = Some ''stored'' \<and> ''stored'' \<noteq> [] \<and>
      decryptStoredPassword toy_platform ''stored'' = Some ''hunter2'' \<and> ''hunter2'' \<noteq> []"
    by (simp add: example_world_fields(1) example_key_rows(1) toy_stored) (simp add: example_keys_def)
  note t = getExecutionPassword_precedence [where pf = toy_platform and user = "''u1''"
      and w = example_world, OF refl refl refl]
  note 1 = t [THEN conjunct2, rule_format, OF toy_client, THEN conjunct1, rule_format, OF s]
  have v: "valid (fst (validateExecutionSession blank_platform ''u1''
        (begin_call (Select_encrypted_password ''u1'') example_world))) \<and>
      truthy (session_password (fst (validateExecutionSession blank_platform ''u1''
        (begin_call (Select_encrypted_password ''u1'') example_world))))"
    by (simp add: blank_session truthy_def)
  note u = getExecutionPassword_precedence [where pf = blank_platform and user = "''u1''"
      and w = example_world, OF refl refl refl]
  note u2 = u [THEN conjunct2, rule_format, OF blank_client, THEN conjunct2, THEN conjunct1,
      rule_format, OF blank_no_stored, THEN conjunct1, rule_format, OF v]
  from u2 have 2: "fst (getExecutionPassword blank_platform ''u1'' example_world) =
     \<lparr> password = Some ''from-session'', tier = Session, error = None \<rparr>"
    by (simp add: blank_session)
  from 1 2 show ?thesis by (rule conjI)
qed

theorem getExecutionPassword_precedence_counterexample:
  "hyperliquid_key_rows ''u1'' example_world = example_keys \<and>
   map encrypted_password example_keys = [Some ''stored''] \<and>
   decryptStoredPassword blank_platform ''stored'' = Some [] \<and>
   valid (fst (validateExecutionSession blank_platform ''u1'' example_world)) \<and>
   fst (getExecutionPassword blank_platform ''u1'' example_world) =
     \<lparr> password = Some ''from-session'', tier = Session, error = None \<rparr> \<and>
   hyperliquid_key_rows ''u1'' failing_world = example_keys \<and>
   decryptStoredPassword toy_platform ''stored'' = Some ''hunter2'' \<and>
   valid (fst (validateExecutionSession toy_platform ''u1'' (failing_world\<lparr>faults := []\<rparr>))) \<and>
   fst (getExecutionPassword toy_platform ''u1'' failing_world) =
     \<lparr> password = Some ''from-session'', tier = Session, error = None \<rparr>"
proof -
  have 1: "map encrypted_password example_keys = [Some ''stored'']"
    by (simp add: example_keys_def)
  have 2: "valid (fst (validateExecutionSession blank_platform ''u1'' example_world))"
    by (simp add: example_session_u1 [OF blank_client example_world_fields(1,2,3)
          platform_clocks(2) blank_decrypt])
  have 3: "fst (getExecutionPassword blank_platform ''u1'' example_world) =
     \<lparr> password = Some ''from-session'', tier = Session, error = None \<rparr>"
    by (simp add: getExecutionPassword_session [OF blank_client blank_no_stored] Let_def
        blank_session truthy_def)
  have 4: "valid (fst (validateExecutionSession toy_platform ''u1''
      (failing_world\<lparr>faults := []\<rparr>)))"
    by (simp add: example_session_u1 [OF toy_client failing_world_fields(5,6,7)
          platform_clocks(1) toy_decrypt])
  have 5: "fst (getExecutionPassword toy_platform ''u1'' failing_world) =
     \<lparr> password = Some ''from-session'', tier = Session, error = None \<rparr>"
    by (simp add: getExecutionPassword_session [OF toy_client failing_no_stored] Let_def
        failing_session truthy_def)
  from example_key_rows(1) 1 blank_stored 2 3 example_key_rows(2) toy_stored 4 5
  show ?thesis by (intro conjI)
qed

section \<open>The connection id\<close>

lemma byte_step: "uint (word_of_int a :: byte) + 256 * (a div 256) = a"
  by (simp add: uint_word_of_int take_bit_eq_mod)

lemma pow_step: "(2::int) ^ (8 * Suc k) = 2 ^ (8 * k) * 256"
  by (simp add: power_add)

lemma div_pow_step: "(v::int) div 2 ^ (8 * Suc k) = (v div 2 ^ (8 * k)) div 256"
  unfolding pow_step by (rule zdiv_zmult2_eq) simp

lemma be_value:
  assumes "0 \<le> v" and "v < 2 ^ 64"
  shows "foldl (\<lambda>acc b. 256 * acc + uint b) 0
           (map (\<lambda>k. word_of_int (v div 2 ^ (8 * k)) :: byte) [7, 6, 5, 4, 3, 2, 1, 0]) = v"
proof -
  define a where "a k = v div 2 ^ (8 * k)" for k :: nat
  have step: "256 * a (Suc k) + uint (word_of_int (a k) :: byte) = a k" for k
    unfolding a_def div_pow_step using byte_step [of "v div 2 ^ (8 * k)"] by (simp only: add.commute)
  have a8: "a 8 = 0" using assms by (simp add: a_def)
  have n: "Suc 0 = 1" "Suc 1 = 2" "Suc 2 = 3" "Suc 3 = 4" "Suc 4 = 5" "Suc 5 = 6" "Suc 6 = 7"
    "Suc 7 = 8" by simp_all
  have e: "256 * 0 + uint (word_of_int (a 7) :: byte) = a 7"
      "256 * a 7 + uint (word_of_int (a 6) :: byte) = a 6"
      "256 * a 6 + uint (word_of_int (a 5) :: byte) = a 5"
      "256 * a 5 + uint (word_of_int (a 4) :: byte) = a 4"
      "256 * a 4 + uint (word_of_int (a 3) :: byte) = a 3"
      "256 * a 3 + uint (word_of_int (a 2) :: byte) = a 2"
      "256 * a 2 + uint (word_of_int (a 1) :: byte) = a 1"
      "256 * a 1 + uint (word_of_int (a 0) :: byte) = a 0"
    using step [of 7] step [of 6] step [of 5] step [of 4] step [of 3] step [of 2] step [of 1]
      step [of 0]
    unfolding n a8 by this+
  have "foldl (\<lambda>acc b. 256 * acc + uint b) 0
           (map (\<lambda>k. word_of_int (a k) :: byte) [7, 6, 5, 4, 3, 2, 1, 0]) = a 0"
    by (simp only: list.map foldl.simps e)
  then show ?thesis by (simp only: a_def mult_0_right power_0 div_by_1)
qed

lemma writeBigUInt64BE_in_range:
  assumes "0 \<le> v" and "v < 2 ^ 64"
  shows "\<exists>nb. writeBigUInt64BE v = Inr nb \<and> length nb = 8 \<and>
           foldl (\<lambda>acc b. 256 * acc + uint b) 0 nb = v"
proof -
  let ?nb = "map (\<lambda>k. word_of_int (v div 2 ^ (8 * k)) :: byte) [7, 6, 5, 4, 3, 2, 1, 0]"
  have "writeBigUInt64BE v = Inr ?nb" using assms by (simp add: writeBigUInt64BE_def)
  moreover have "length ?nb = 8" by simp
  moreover have "foldl (\<lambda>acc b. 256 * acc + uint b) 0 ?nb = v" using assms by (rule be_value)
  ultimately show ?thesis by blast
qed

lemma writeBigUInt64BE_out_of_range:
  "\<not> (0 \<le> v \<and> v < 2 ^ 64) \<Longrightarrow> \<exists>e. writeBigUInt64BE v = Inl e"
  by (auto simp: writeBigUInt64BE_def)

lemma action_data_vault:
  "action_data xp action vaultAddress nonce =
     (case writeBigUInt64BE nonce of
        Inl e \<Rightarrow> Inl e
      | Inr nb \<Rightarrow> Inr (msgpack_encode xp action @ nb @ [0x00]))"
  by (cases vaultAddress) (simp_all add: action_data_def split: sum.splits)

text \<open>
  Claim C8 (as amended). For a nonce with \<open>0 \<le> nonce < 2^64\<close>, every action and every
  vault address or none: the connection id is Keccak-256 of the MessagePack encoding of
  the action, followed by the eight bytes of the nonce, most significant first, followed
  by the single byte \<open>0x00\<close>, whether or not a vault address is given; it is the
  \<open>connectionId\<close> of the phantom agent with source \<open>b\<close> that is signed as typed data
  under the fixed domain. For any other nonce writing the nonce raises, and nothing is
  hashed or signed.
\<close>

theorem actionHashFn_layout:
  "(0 \<le> nonce \<and> nonce < 2 ^ 64 \<longrightarrow>
      (\<exists>nb. writeBigUInt64BE nonce = Inr nb \<and> length nb = 8 \<and>
         foldl (\<lambda>acc b. 256 * acc + uint b) 0 nb = nonce \<and>
         actionHashFn xp action vaultAddress nonce =
           Inr (keccak256 xp (msgpack_encode xp action @ nb @ [0x00])) \<and>
         signL1Action xp wallet action vaultAddress nonce =
           (case signTypedData xp wallet exchange_domain agent_types
                   \<lparr> source = ''b'',
                     connectionId = keccak256 xp (msgpack_encode xp action @ nb @ [0x00]) \<rparr> of
              Inl e \<Rightarrow> Inl e
            | Inr sig \<Rightarrow> signature_from xp sig))) \<and>
   (\<not> (0 \<le> nonce \<and> nonce < 2 ^ 64) \<longrightarrow>
      (\<exists>e. actionHashFn xp action vaultAddress nonce = Inl e) \<and>
      (\<exists>e. signL1Action xp wallet action vaultAddress nonce = Inl e))"
proof (intro conjI impI)
  assume "0 \<le> nonce \<and> nonce < 2 ^ 64"
  then obtain nb where nb: "writeBigUInt64BE nonce = Inr nb" "length nb = 8"
    "foldl (\<lambda>acc b. 256 * acc + uint b) 0 nb = nonce"
    using writeBigUInt64BE_in_range [of nonce] by blast
  have h: "actionHashFn xp action vaultAddress nonce =
           Inr (keccak256 xp (msgpack_encode xp action @ nb @ [0x00]))"
    by (simp add: actionHashFn_def action_data_vault nb(1))
  then have "signL1Action xp wallet action vaultAddress nonce =
           (case signTypedData xp wallet exchange_domain agent_types
                   \<lparr> source = ''b'',
                     connectionId = keccak256 xp (msgpack_encode xp action @ nb @ [0x00]) \<rparr> of
              Inl e \<Rightarrow> Inl e
            | Inr sig \<Rightarrow> signature_from xp sig)"
    by (simp add: signL1Action_def)
  with nb h show "\<exists>nb. writeBigUInt64BE nonce = Inr nb \<and> length nb = 8 \<and>
         foldl (\<lambda>acc b. 256 * acc + uint b) 0 nb = nonce \<and>
         actionHashFn xp action vaultAddress nonce =
           Inr (keccak256 xp (msgpack_encode xp action @ nb @ [0x00])) \<and>
         signL1Action xp wallet action vaultAddress nonce =
           (case signTypedData xp wallet exchange_domain agent_types
                   \<lparr> source = ''b'',
                     connectionId = keccak256 xp (msgpack_encode xp action @ nb @ [0x00]) \<rparr> of
              Inl e \<Rightarrow> Inl e
            | Inr sig \<Rightarrow> signature_from xp sig)"
    by blast
next
  assume "\<not> (0 \<le> nonce \<and> nonce < 2 ^ 64)"
  then obtain e where e: "writeBigUInt64BE nonce = Inl e"
    using writeBigUInt64BE_out_of_range by blast
  then show "\<exists>e. actionHashFn xp action vaultAddress nonce = Inl e"
    by (simp add: actionHashFn_def action_data_vault)
  from e show "\<exists>e. signL1Action xp wallet action vaultAddress nonce = Inl e"
    by (simp add: signL1Action_def actionHashFn_def action_data_vault)
qed

theorem actionHashFn_layout_witness:
  "actionHashFn toy_exchange (JObj []) None 1 = Inr ''0xdigest'' \<and>
   writeBigUInt64BE 1 = Inr [0, 0, 0, 0, 0, 0, 0, 1]"
proof -
  have "(0::int) \<le> 1 \<and> (1::int) < 2 ^ 64" by simp
  from actionHashFn_layout [of 1 toy_exchange "JObj []" None "''wallet''", THEN conjunct1,
      rule_format, OF this]
  show ?thesis by (auto simp: toy_exchange_def writeBigUInt64BE_def)
qed

theorem actionHashFn_vault_counterexample:
  "action_data toy_exchange (JObj []) (Some ''0x1111111111111111111111111111111111111111'') 1 =
     Inr [0x80, 0, 0, 0, 0, 0, 0, 0, 1, 0x00] \<and>
   actionHashFn toy_exchange (JObj []) (Some ''0x1111111111111111111111111111111111111111'') 1 =
     actionHashFn toy_exchange (JObj []) None 1"
  by (simp add: actionHashFn_def action_data_def writeBigUInt64BE_def toy_exchange_def)

section \<open>Placing an order never throws\<close>

lemma order_id_of_cases:
  "order_id_of xp status =
     (if nullish (opt_prop (opt_prop status ''resting'') ''oid'') then Inr ''filled''
      else
        (case js_toString xp (opt_prop (opt_prop status ''resting'') ''oid'') of
           Inl e \<Rightarrow> Inl e
         | Inr s \<Rightarrow> Inr (if s = [] then ''filled'' else s)))"
  by (simp add: order_id_of_def Let_def split: sum.splits)

lemma executeTrade_caught:
  "executeTrade_try xp wallet coin isBuy sz price options = Inl e \<Longrightarrow>
   executeTrade xp wallet coin isBuy sz price options =
     \<lparr> success = False, orderId = None, trade_error = Some (JStr (exn_message e)) \<rparr>"
  by (simp add: executeTrade_def)

lemma executeTrade_returned:
  "executeTrade_try xp wallet coin isBuy sz price options = Inr res \<Longrightarrow>
   executeTrade xp wallet coin isBuy sz price options = res"
  by (simp add: executeTrade_def)

lemma executeTrade_reply:
  assumes "getAssetIndex xp coin \<noteq> JNum (- 1)"
    and "signL1Action xp wallet (order_action xp (getAssetIndex xp coin) isBuy sz price options)
           None (date_now_ms xp) = Inr sg"
    and "fetch xp API_URL
           (order_payload (order_action xp (getAssetIndex xp coin) isBuy sz price options)
              (date_now_ms xp) sg) = Inr response"
  shows "executeTrade_try xp wallet coin isBuy sz price options = read_reply xp response"
  using assms by (simp add: executeTrade_try_def Let_def)

lemma read_reply_not_ok:
  assumes "\<not> response_ok response"
  shows "read_reply xp response =
     (case response_text response of
        Inl e \<Rightarrow> Inl e
      | Inr txt \<Rightarrow>
          Inl (JsError (''API Error: '' @ number_toString xp (response_status response) @
                 '' '' @ txt)))"
  using assms by (simp add: read_reply_def)

lemma read_reply_no_json:
  assumes "response_ok response" and "response_json response = Inl e"
  shows "read_reply xp response = Inl e"
  using assms by (simp add: read_reply_def)

lemma read_reply_nullish:
  assumes "response_ok response" and "response_json response = Inr data" and "nullish data"
  shows "read_reply xp response = Inl (JsError (cannot_read data ''status''))"
  using assms by (simp add: read_reply_def get_prop_def)

lemma read_reply_not_status_ok:
  assumes "response_ok response" and "response_json response = Inr data" and "\<not> nullish data"
    and "own_prop data ''status'' \<noteq> JStr ''ok''"
  shows "read_reply xp response =
     Inr \<lparr> success = False, orderId = None,
           trade_error = Some (if js_truthy (own_prop data ''response'')
                               then own_prop data ''response'' else JStr ''Unknown error'') \<rparr>"
  using assms by (simp add: read_reply_def get_prop_def)

lemma read_reply_status_error:
  assumes "response_ok response" and "response_json response = Inr data" and "\<not> nullish data"
    and "own_prop data ''status'' = JStr ''ok''"
    and "js_truthy (opt_prop (first_status data) ''error'')"
  shows "read_reply xp response =
     Inr \<lparr> success = False, orderId = None,
           trade_error = Some (opt_prop (first_status data) ''error'') \<rparr>"
  using assms by (simp add: read_reply_def get_prop_def Let_def)

lemma read_reply_placed:
  assumes "response_ok response" and "response_json response = Inr data" and "\<not> nullish data"
    and "own_prop data ''status'' = JStr ''ok''"
    and "\<not> js_truthy (opt_prop (first_status data) ''error'')"
  shows "read_reply xp response =
     (case order_id_of xp (first_status data) of
        Inl e \<Rightarrow> Inl e
      | Inr oid \<Rightarrow> Inr \<lparr> success = True, orderId = Some oid, trade_error = None \<rparr>)"
  using assms by (simp add: read_reply_def get_prop_def Let_def)

lemma order_id_of_Inr:
  assumes "order_id_of xp status = Inr oid"
  shows "oid \<noteq> []"
  using assms by (auto simp: order_id_of_cases split: if_splits sum.splits)

lemma read_reply_Inr:
  assumes "read_reply xp response = Inr r"
  shows "(success r \<longrightarrow> (\<exists>oid. orderId r = Some oid \<and> oid \<noteq> []) \<and> trade_error r = None) \<and>
         (\<not> success r \<longrightarrow> orderId r = None \<and> (\<exists>err. trade_error r = Some err))"
proof (cases "response_ok response")
  case False
  with assms show ?thesis by (simp add: read_reply_not_ok split: sum.splits)
next
  case True
  with assms obtain data where d: "response_json response = Inr data"
    by (cases "response_json response") (simp_all add: read_reply_no_json)
  from assms True d have n: "\<not> nullish data" by (auto simp: read_reply_nullish)
  show ?thesis
  proof (cases "own_prop data ''status'' = JStr ''ok''")
    case False
    from assms read_reply_not_status_ok [OF True d n False, of xp] show ?thesis by auto
  next
    case ok: True
    show ?thesis
    proof (cases "js_truthy (opt_prop (first_status data) ''error'')")
      case True
      from assms read_reply_status_error [OF \<open>response_ok response\<close> d n ok True, of xp]
      show ?thesis by auto
    next
      case False
      from assms read_reply_placed [OF \<open>response_ok response\<close> d n ok False, of xp]
      obtain oid where o: "order_id_of xp (first_status data) = Inr oid"
        and r: "r = \<lparr> success = True, orderId = Some oid, trade_error = None \<rparr>"
        by (cases "order_id_of xp (first_status data)") simp_all
      from order_id_of_Inr [OF o] r show ?thesis by simp
    qed
  qed
qed

lemma executeTrade_try_Inr:
  assumes "executeTrade_try xp wallet coin isBuy sz price options = Inr r"
  shows "\<exists>response. read_reply xp response = Inr r"
  using assms
  by (auto simp: executeTrade_try_def Let_def split: if_splits sum.splits)

lemma executeTrade_shape:
  "(success (executeTrade xp wallet coin isBuy sz price options) \<longrightarrow>
      (\<exists>oid. orderId (executeTrade xp wallet coin isBuy sz price options) = Some oid \<and> oid \<noteq> []) \<and>
      trade_error (executeTrade xp wallet coin isBuy sz price options) = None) \<and>
   (\<not> success (executeTrade xp wallet coin isBuy sz price options) \<longrightarrow>
      orderId (executeTrade xp wallet coin isBuy sz price options) = None \<and>
      (\<exists>err. trade_error (executeTrade xp wallet coin isBuy sz price options) = Some err))"
proof (cases "executeTrade_try xp wallet coin isBuy sz price options")
  case (Inl e)
  then show ?thesis by (simp add: executeTrade_caught)
next
  case (Inr res)
  from executeTrade_try_Inr [OF Inr] obtain response where "read_reply xp response = Inr res"
    by blast
  from read_reply_Inr [OF this] show ?thesis by (simp add: executeTrade_returned [OF Inr])
qed

text \<open>
  Claim C10. \<^verbatim>\<open>executeTrade\<close> always returns a result and never throws: a result with
  \<open>success = true\<close> carries a non-empty \<open>orderId\<close> and no error, one with \<open>success = false\<close>
  carries an error and no \<open>orderId\<close>. Which result it is follows the run. An asset index
  of \<open>-1\<close> gives the failure \<^verbatim>\<open>Asset ... not found\<close>. An exception of the signer, or of
  \<^verbatim>\<open>fetch\<close>, gives a failure with the exception's message. Once the exchange has answered:
  a response that is not 2xx gives the failure \<^verbatim>\<open>API Error: ...\<close> with the status and the
  body; a body that cannot be read, or is not an object with a \<open>status\<close>, gives a failure
  with the exception's message; a status other than \<^verbatim>\<open>ok\<close> gives a failure with the
  reply's \<open>response\<close> (or \<^verbatim>\<open>Unknown error\<close>); an \<^verbatim>\<open>ok\<close> reply whose first order status has an
  \<open>error\<close> gives a failure with that error; every other \<^verbatim>\<open>ok\<close> reply gives a success whose
  \<open>orderId\<close> is the text of the first status's resting order id, or \<^verbatim>\<open>filled\<close> when there
  is no such id or its text is empty (and a failure when the id cannot be turned into
  text).
\<close>

theorem executeTrade_total:
  assumes "r = executeTrade xp wallet coin isBuy sz price options"
    and "action = order_action xp (getAssetIndex xp coin) isBuy sz price options"
  shows
  "(success r \<longrightarrow> (\<exists>oid. orderId r = Some oid \<and> oid \<noteq> []) \<and> trade_error r = None) \<and>
   (\<not> success r \<longrightarrow> orderId r = None \<and> (\<exists>err. trade_error r = Some err)) \<and>
   (getAssetIndex xp coin = JNum (- 1) \<longrightarrow>
      r = \<lparr> success = False, orderId = None,
            trade_error = Some (JStr (''Asset '' @ coin @ '' not found'')) \<rparr>) \<and>
   (\<forall>e. getAssetIndex xp coin \<noteq> JNum (- 1) \<and>
        signL1Action xp wallet action None (date_now_ms xp) = Inl e \<longrightarrow>
      r = \<lparr> success = False, orderId = None, trade_error = Some (JStr (exn_message e)) \<rparr>) \<and>
   (\<forall>sg e. getAssetIndex xp coin \<noteq> JNum (- 1) \<and>
        signL1Action xp wallet action None (date_now_ms xp) = Inr sg \<and>
        fetch xp API_URL (order_payload action (date_now_ms xp) sg) = Inl e \<longrightarrow>
      r = \<lparr> success = False, orderId = None, trade_error = Some (JStr (exn_message e)) \<rparr>) \<and>
   (\<forall>sg response. getAssetIndex xp coin \<noteq> JNum (- 1) \<and>
        signL1Action xp wallet action None (date_now_ms xp) = Inr sg \<and>
        fetch xp API_URL (order_payload action (date_now_ms xp) sg) = Inr response \<longrightarrow>
      (\<forall>txt. \<not> response_ok response \<and> response_text response = Inr txt \<longrightarrow>
         r = \<lparr> success = False, orderId = None,
               trade_error = Some (JStr (''API Error: '' @
                 number_toString xp (response_status response) @ '' '' @ txt)) \<rparr>) \<and>
      (\<forall>e. \<not> response_ok response \<and> response_text response = Inl e \<longrightarrow>
         r = \<lparr> success = False, orderId = None, trade_error = Some (JStr (exn_message e)) \<rparr>) \<and>
      (\<forall>e. response_ok response \<and> response_json response = Inl e \<longrightarrow>
         r = \<lparr> success = False, orderId = None, trade_error = Some (JStr (exn_message e)) \<rparr>) \<and>
      (\<forall>data. response_ok response \<and> response_json response = Inr data \<longrightarrow>
         (nullish data \<longrightarrow>
            r = \<lparr> success = False, orderId = None,
                  trade_error = Some (JStr (cannot_read data ''status'')) \<rparr>) \<and>
         (\<not> nullish data \<and> own_prop data ''status'' \<noteq> JStr ''ok'' \<longrightarrow>
            r = \<lparr> success = False, orderId = None,
                  trade_error = Some (if js_truthy (own_prop data ''response'')
                                      then own_prop data ''response''
                                      else JStr ''Unknown error'') \<rparr>) \<and>
         (\<not> nullish data \<and> own_prop data ''status'' = JStr ''ok'' \<and>
          js_truthy (opt_prop (first_status data) ''error'') \<longrightarrow>
            r = \<lparr> success = False, orderId = None,
                  trade_error = Some (opt_prop (first_status data) ''error'') \<rparr>) \<and>
         (\<not> nullish data \<and> own_prop data ''status'' = JStr ''ok'' \<and>
          \<not> js_truthy (opt_prop (first_status data) ''error'') \<longrightarrow>
            (nullish (opt_prop (opt_prop (first_status data) ''resting'') ''oid'') \<longrightarrow>
               r = \<lparr> success = True, orderId = Some ''filled'', trade_error = None \<rparr>) \<and>
            (\<not> nullish (opt_prop (opt_prop (first_status data) ''resting'') ''oid'') \<longrightarrow>
               (\<forall>s. js_toString xp (opt_prop (opt_prop (first_status data) ''resting'') ''oid'')
                      = Inr s \<longrightarrow>
                  r = \<lparr> success = True, orderId = Some (if s = [] then ''filled'' else s),
                        trade_error = None \<rparr>) \<and>
               (\<forall>e. js_toString xp (opt_prop (opt_prop (first_status data) ''resting'') ''oid'')
                      = Inl e \<longrightarrow>
                  r = \<lparr> success = False, orderId = None,
                        trade_error = Some (JStr (exn_message e)) \<rparr>)))))"
proof (intro conjI allI impI; (elim conjE)?)
  show "(\<exists>oid. orderId r = Some oid \<and> oid \<noteq> [])" if "success r"
    using that executeTrade_shape [of xp wallet coin isBuy sz price options] assms(1) by simp
  show "trade_error r = None" if "success r"
    using that executeTrade_shape [of xp wallet coin isBuy sz price options] assms(1) by simp
  show "orderId r = None" if "\<not> success r"
    using that executeTrade_shape [of xp wallet coin isBuy sz price options] assms(1) by simp
  show "\<exists>err. trade_error r = Some err" if "\<not> success r"
    using that executeTrade_shape [of xp wallet coin isBuy sz price options] assms(1) by simp
  show "r = \<lparr> success = False, orderId = None,
            trade_error = Some (JStr (''Asset '' @ coin @ '' not found'')) \<rparr>"
    if "getAssetIndex xp coin = JNum (- 1)"
  proof -
    have "executeTrade_try xp wallet coin isBuy sz price options =
        Inl (JsError (''Asset '' @ coin @ '' not found''))"
      using that by (simp add: executeTrade_try_def)
    from executeTrade_caught [OF this] assms(1) show ?thesis by (simp add: exn_message_def)
  qed
  show "r = \<lparr> success = False, orderId = None, trade_error = Some (JStr (exn_message e)) \<rparr>"
    if "getAssetIndex xp coin \<noteq> JNum (- 1)"
      and "signL1Action xp wallet action None (date_now_ms xp) = Inl e" for e
  proof -
    have "executeTrade_try xp wallet coin isBuy sz price options = Inl e"
      using that assms(2) by (simp add: executeTrade_try_def Let_def)
    from executeTrade_caught [OF this] assms(1) show ?thesis by simp
  qed
  show "r = \<lparr> success = False, orderId = None, trade_error = Some (JStr (exn_message e)) \<rparr>"
    if "getAssetIndex xp coin \<noteq> JNum (- 1)"
      and "signL1Action xp wallet action None (date_now_ms xp) = Inr sg"
      and "fetch xp API_URL (order_payload action (date_now_ms xp) sg) = Inl e" for sg e
  proof -
    have "executeTrade_try xp wallet coin isBuy sz price options = Inl e"
      using that assms(2) by (simp add: executeTrade_try_def Let_def)
    from executeTrade_caught [OF this] assms(1) show ?thesis by simp
  qed
next
  fix sg response
  assume p: "getAssetIndex xp coin \<noteq> JNum (- 1)"
    "signL1Action xp wallet action None (date_now_ms xp) = Inr sg"
    "fetch xp API_URL (order_payload action (date_now_ms xp) sg) = Inr response"
  have t: "executeTrade_try xp wallet coin isBuy sz price options = read_reply xp response"
    using p assms(2) by (simp add: executeTrade_reply)
  have thrown: "r = \<lparr> success = False, orderId = None, trade_error = Some (JStr (exn_message e)) \<rparr>"
    if "read_reply xp response = Inl e" for e
    using executeTrade_caught [of xp wallet coin isBuy sz price options e] that t assms(1) by simp
  have returned: "r = res" if "read_reply xp response = Inr res" for res
    using executeTrade_returned [of xp wallet coin isBuy sz price options res] that t assms(1)
    by simp
  {
    fix body
    assume "\<not> response_ok response" "response_text response = Inr body"
    then have "read_reply xp response =
        Inl (JsError (''API Error: '' @ number_toString xp (response_status response) @
               '' '' @ body))"
      by (simp add: read_reply_not_ok)
    from thrown [OF this]
    show "r = \<lparr> success = False, orderId = None,
               trade_error = Some (JStr (''API Error: '' @
                 number_toString xp (response_status response) @ '' '' @ body)) \<rparr>"
      by (simp add: exn_message_def)
  }
  {
    fix e
    assume "\<not> response_ok response" "response_text response = Inl e"
    then have "read_reply xp response = Inl e" by (simp add: read_reply_not_ok)
    from thrown [OF this]
    show "r = \<lparr> success = False, orderId = None, trade_error = Some (JStr (exn_message e)) \<rparr>" .
  }
  {
    fix e
    assume "response_ok response" "response_json response = Inl e"
    then have "read_reply xp response = Inl e" by (rule read_reply_no_json)
    from thrown [OF this]
    show "r = \<lparr> success = False, orderId = None, trade_error = Some (JStr (exn_message e)) \<rparr>" .
  }
  fix data
  assume d: "response_ok response" "response_json response = Inr data"
  {
    assume "nullish data"
    from thrown [OF read_reply_nullish [OF d this]]
    show "r = \<lparr> success = False, orderId = None,
                  trade_error = Some (JStr (cannot_read data ''status'')) \<rparr>"
      by (simp add: exn_message_def)
  }
  {
    assume "\<not> nullish data" "own_prop data ''status'' \<noteq> JStr ''ok''"
    from returned [OF read_reply_not_status_ok [OF d this]]
    show "r = \<lparr> success = False, orderId = None,
                  trade_error = Some (if js_truthy (own_prop data ''response'')
                                      then own_prop data ''response''
                                      else JStr ''Unknown error'') \<rparr>" .
  }
  {
    assume "\<not> nullish data" "own_prop data ''status'' = JStr ''ok''"
      "js_truthy (opt_prop (first_status data) ''error'')"
    from returned [OF read_reply_status_error [OF d this]]
    show "r = \<lparr> success = False, orderId = None,
                  trade_error = Some (opt_prop (first_status data) ''error'') \<rparr>" .
  }
  assume ok: "\<not> nullish data" "own_prop data ''status'' = JStr ''ok''"
      "\<not> js_truthy (opt_prop (first_status data) ''error'')"
  note placed = read_reply_placed [OF d ok, of xp]
  {
    assume "nullish (opt_prop (opt_prop (first_status data) ''resting'') ''oid'')"
    then have "read_reply xp response =
        Inr \<lparr> success = True, orderId = Some ''filled'', trade_error = None \<rparr>"
      by (simp add: placed order_id_of_cases)
    from returned [OF this]
    show "r = \<lparr> success = True, orderId = Some ''filled'', trade_error = None \<rparr>" .
  }
  assume oid: "\<not> nullish (opt_prop (opt_prop (first_status data) ''resting'') ''oid'')"
  {
    fix s
    assume "js_toString xp (opt_prop (opt_prop (first_status data) ''resting'') ''oid'') = Inr s"
    with oid have "read_reply xp response =
        Inr \<lparr> success = True, orderId = Some (if s = [] then ''filled'' else s),
              trade_error = None \<rparr>"
      by (simp add: placed order_id_of_cases)
    from returned [OF this]
    show "r = \<lparr> success = True, orderId = Some (if s = [] then ''filled'' else s),
                        trade_error = None \<rparr>" .
  }
  {
    fix e
    assume "js_toString xp (opt_prop (opt_prop (first_status data) ''resting'') ''oid'') = Inl e"
    with oid have "read_reply xp response = Inl e"
      by (simp add: placed order_id_of_cases)
    from thrown [OF this]
    show "r = \<lparr> success = False, orderId = None,
                        trade_error = Some (JStr (exn_message e)) \<rparr>" .
  }
qed


lemma toy_unknown_coin: "getAssetIndex toy_exchange ''NOPE'' = JNum (- 1)"
  by (simp add: getAssetIndex_def object_prototype_names_def toy_exchange_def resting_reply_def
      get_prop_def nullish_def own_prop_def)

lemma toy_known_coin: "getAssetIndex xp ''BTC'' \<noteq> JNum (- 1)"
  by (simp add: getAssetIndex_def)

lemma toy_sign:
  "signL1Action toy_exchange w action None (date_now_ms toy_exchange) =
     Inr \<lparr> sig_r = ''0xr'', sig_s = ''0xs'', sig_v = 27 \<rparr>"
  by (simp add: signL1Action_def actionHashFn_def action_data_def writeBigUInt64BE_def
      toy_exchange_def)

lemma toy_fetch:
  "fetch toy_exchange url body =
     Inr \<lparr> response_ok = True, response_status = 200, response_text = Inr ''ok'',
           response_json = Inr resting_reply \<rparr>"
  by (simp add: toy_exchange_def)

lemma rejecting_sign:
  "signL1Action rejecting_exchange w action None (date_now_ms rejecting_exchange) =
     Inr \<lparr> sig_r = ''0xr'', sig_s = ''0xs'', sig_v = 27 \<rparr>"
  by (simp add: signL1Action_def actionHashFn_def action_data_def writeBigUInt64BE_def
      rejecting_exchange_def)

lemma rejecting_fetch:
  "fetch rejecting_exchange url body =
     Inr \<lparr> response_ok = True, response_status = 200, response_text = Inr ''ok'',
           response_json = Inr margin_reply \<rparr>"
  by (simp add: rejecting_exchange_def)

lemma resting_reply_read:
  "\<not> nullish resting_reply \<and> own_prop resting_reply ''status'' = JStr ''ok'' \<and>
   \<not> js_truthy (opt_prop (first_status resting_reply) ''error'')"
  "\<not> nullish (opt_prop (opt_prop (first_status resting_reply) ''resting'') ''oid'')"
  "opt_prop (opt_prop (first_status resting_reply) ''resting'') ''oid'' = JNum 77"
  by code_simp+

lemma margin_reply_read:
  "\<not> nullish margin_reply \<and> own_prop margin_reply ''status'' = JStr ''ok'' \<and>
   js_truthy (opt_prop (first_status margin_reply) ''error'')"
  "opt_prop (first_status margin_reply) ''error'' = JStr ''Insufficient margin''"
  by code_simp+

theorem executeTrade_total_witness:
  "executeTrade toy_exchange ''wallet'' ''NOPE'' True (3 / 2) 50000
     \<lparr> orderType = None, option_price = None, reduceOnly = None, cloid = None \<rparr> =
   \<lparr> success = False, orderId = None, trade_error = Some (JStr ''Asset NOPE not found'') \<rparr> \<and>
   executeTrade toy_exchange ''wallet'' ''BTC'' True (3 / 2) 50000
     \<lparr> orderType = None, option_price = None, reduceOnly = None, cloid = None \<rparr> =
   \<lparr> success = True, orderId = Some ''77'', trade_error = None \<rparr> \<and>
   executeTrade rejecting_exchange ''wallet'' ''BTC'' True (3 / 2) 50000
     \<lparr> orderType = None, option_price = None, reduceOnly = None, cloid = None \<rparr> =
   \<lparr> success = False, orderId = None, trade_error = Some (JStr ''Insufficient margin'') \<rparr>"
proof -
  let ?o = "\<lparr> orderType = None, option_price = None, reduceOnly = None, cloid = None \<rparr>"
  note t = executeTrade_total [where xp = toy_exchange and wallet = "''wallet''"
      and coin = "''NOPE''" and isBuy = True and sz = "3 / 2" and price = 50000
      and options = ?o, OF refl refl]
  from t [THEN conjunct2, THEN conjunct2, THEN conjunct1, rule_format, OF toy_unknown_coin]
  have 1: "executeTrade toy_exchange ''wallet'' ''NOPE'' True (3 / 2) 50000 ?o =
      \<lparr> success = False, orderId = None, trade_error = Some (JStr ''Asset NOPE not found'') \<rparr>"
    by simp
  note u = executeTrade_total [where xp = toy_exchange and wallet = "''wallet''"
      and coin = "''BTC''" and isBuy = True and sz = "3 / 2" and price = 50000
      and options = ?o, OF refl refl]
  note u1 = u [THEN conjunct2, THEN conjunct2, THEN conjunct2, THEN conjunct2, THEN conjunct2,
      rule_format, OF conjI [OF toy_known_coin conjI [OF toy_sign toy_fetch]]]
  have j: "response_ok \<lparr> response_ok = True, response_status = 200, response_text = Inr ''ok'',
           response_json = Inr resting_reply \<rparr> \<and>
      response_json \<lparr> response_ok = True, response_status = 200, response_text = Inr ''ok'',
           response_json = Inr resting_reply \<rparr> = Inr resting_reply"
    by simp
  note u2 = u1 [THEN conjunct2, THEN conjunct2, THEN conjunct2, rule_format, OF j]
  note u3 = u2 [THEN conjunct2, THEN conjunct2, THEN conjunct2, rule_format,
      OF resting_reply_read(1)]
  have s: "js_toString toy_exchange
      (opt_prop (opt_prop (first_status resting_reply) ''resting'') ''oid'') = Inr ''77''"
    by (simp add: toy_exchange_def)
  from u3 [THEN conjunct2, rule_format, OF resting_reply_read(2), THEN conjunct1, rule_format, OF s]
  have 2: "executeTrade toy_exchange ''wallet'' ''BTC'' True (3 / 2) 50000 ?o =
      \<lparr> success = True, orderId = Some ''77'', trade_error = None \<rparr>"
    by simp
  note v = executeTrade_total [where xp = rejecting_exchange and wallet = "''wallet''"
      and coin = "''BTC''" and isBuy = True and sz = "3 / 2" and price = 50000
      and options = ?o, OF refl refl]
  note v1 = v [THEN conjunct2, THEN conjunct2, THEN conjunct2, THEN conjunct2, THEN conjunct2,
      rule_format, OF conjI [OF toy_known_coin conjI [OF rejecting_sign rejecting_fetch]]]
  have k: "response_ok \<lparr> response_ok = True, response_status = 200, response_text = Inr ''ok'',
           response_json = Inr margin_reply \<rparr> \<and>
      response_json \<lparr> response_ok = True, response_status = 200, response_text = Inr ''ok'',
           response_json = Inr margin_reply \<rparr> = Inr margin_reply"
    by simp
  note v2 = v1 [THEN conjunct2, THEN conjunct2, THEN conjunct2, rule_format, OF k]
  from v2 [THEN conjunct2, THEN conjunct2, THEN conjunct1, rule_format, OF margin_reply_read(1)]
  have 3: "executeTrade rejecting_exchange ''wallet'' ''BTC'' True (3 / 2) 50000 ?o =
      \<lparr> success = False, orderId = None, trade_error = Some (JStr ''Insufficient margin'') \<rparr>"
    by (simp add: margin_reply_read(2))
  from 1 2 3 show ?thesis by (intro conjI)
qed

section \<open>The cron trigger\<close>

lemma log_select_encrypted_blob:
  "call_log (snd (select_encrypted_blob u w)) = call_log w @ [Select_encrypted_blob u]"
  by (simp add: select_encrypted_blob_def Let_def log_begin_call)

lemma log_select_dealer_settings:
  "call_log (snd (select_dealer_settings u w)) = call_log w @ [Select_dealer_settings u]"
  by (simp add: select_dealer_settings_def Let_def log_begin_call)

lemma log_rpc_record_schedule_success:
  "call_log (snd (rpc_record_schedule_success s w)) = call_log w @ [Rpc_record_schedule_success s]"
  by (simp add: rpc_record_schedule_success_def Let_def log_begin_call split: sum.splits)

lemma log_rpc_record_schedule_error:
  "call_log (snd (rpc_record_schedule_error s m w)) = call_log w @ [Rpc_record_schedule_error s m]"
  by (simp add: rpc_record_schedule_error_def Let_def log_begin_call split: sum.splits)

lemma log_rpc_get_due_schedules:
  "call_log (snd (rpc_get_due_schedules w)) = call_log w @ [Rpc_get_due_schedules]"
  by (simp add: rpc_get_due_schedules_def Let_def log_begin_call)

lemma snd_select_encrypted_blob:
  "snd (select_encrypted_blob u w) = begin_call (Select_encrypted_blob u) w"
  by (simp add: select_encrypted_blob_def Let_def)

lemma snd_select_dealer_settings:
  "snd (select_dealer_settings u w) = begin_call (Select_dealer_settings u) w"
  by (simp add: select_dealer_settings_def Let_def)

lemma schedules_begin_call: "cron_schedules (begin_call c w) = cron_schedules w"
  by (simp add: begin_call_def)

lemma rpc_record_schedule_error_table:
  "cron_schedules (snd (rpc_record_schedule_error s m w)) =
     (if next_fault w then cron_schedules w
      else
        (case record_schedule_error (clock w) s (Some m) (cron_schedules w) of
           Inl e \<Rightarrow> cron_schedules w
         | Inr tbl \<Rightarrow> tbl))"
  by (simp add: rpc_record_schedule_error_def Let_def clock_begin_call schedules_begin_call
      split: sum.splits)

lemma rpc_record_schedule_success_table:
  "cron_schedules (snd (rpc_record_schedule_success s w)) =
     (if next_fault w then cron_schedules w
      else
        (case record_schedule_success (clock w) s (cron_schedules w) of
           Inl e \<Rightarrow> cron_schedules w
         | Inr tbl \<Rightarrow> tbl))"
  by (simp add: rpc_record_schedule_success_def Let_def clock_begin_call schedules_begin_call
      split: sum.splits)

lemma executeSchedule_no_key:
  assumes "fst (select_encrypted_blob (due_user_id d) w) = Inl err"
  shows "executeSchedule pf d w =
           (\<lparr> scheduleId = schedule_id d, result_userId = due_user_id d, result_success = False,
              result_error = Some ''No encrypted key found for user'', executedAt = date_now pf \<rparr>,
            snd (rpc_record_schedule_error (schedule_id d) ''No encrypted key found for user''
                   (begin_call (Select_encrypted_blob (due_user_id d)) w)))"
proof -
  have s: "select_encrypted_blob (due_user_id d) w =
      (Inl err, begin_call (Select_encrypted_blob (due_user_id d)) w)"
    using assms snd_select_encrypted_blob [of "due_user_id d" w]
    by (cases "select_encrypted_blob (due_user_id d) w") simp
  have t: "executeSchedule_try pf d w =
      (Inl (JsError ''No encrypted key found for user''),
       begin_call (Select_encrypted_blob (due_user_id d)) w)"
    by (simp add: executeSchedule_try_def s)
  show ?thesis by (simp add: executeSchedule_def t exn_message_def)
qed

lemma executeSchedule_with_key:
  assumes "fst (select_encrypted_blob (due_user_id d) w) = Inr k" and "due_coins d = Some cl"
  shows "executeSchedule pf d w =
           (\<lparr> scheduleId = schedule_id d, result_userId = due_user_id d, result_success = True,
              result_error = None, executedAt = date_now pf \<rparr>,
            snd (rpc_record_schedule_success (schedule_id d)
                   (begin_call (Select_dealer_settings (due_user_id d))
                      (begin_call (Select_encrypted_blob (due_user_id d)) w))))"
proof -
  have s: "select_encrypted_blob (due_user_id d) w =
      (Inr k, begin_call (Select_encrypted_blob (due_user_id d)) w)"
    using assms(1) snd_select_encrypted_blob [of "due_user_id d" w]
    by (cases "select_encrypted_blob (due_user_id d) w") simp
  obtain us where u: "select_dealer_settings (due_user_id d)
        (begin_call (Select_encrypted_blob (due_user_id d)) w) =
      (us, begin_call (Select_dealer_settings (due_user_id d))
             (begin_call (Select_encrypted_blob (due_user_id d)) w))"
    using snd_select_dealer_settings [of "due_user_id d"
        "begin_call (Select_encrypted_blob (due_user_id d)) w"]
    by (cases "select_dealer_settings (due_user_id d)
        (begin_call (Select_encrypted_blob (due_user_id d)) w)") simp
  have t: "executeSchedule_try pf d w =
      (Inr (), snd (rpc_record_schedule_success (schedule_id d)
                   (begin_call (Select_dealer_settings (due_user_id d))
                      (begin_call (Select_encrypted_blob (due_user_id d)) w))))"
    by (simp add: executeSchedule_try_def s u assms(2) Let_def)
  show ?thesis by (simp add: executeSchedule_def t)
qed

lemma executeSchedule_null_coins:
  assumes "fst (select_encrypted_blob (due_user_id d) w) = Inr k" and "due_coins d = None"
  shows "executeSchedule pf d w =
           (\<lparr> scheduleId = schedule_id d, result_userId = due_user_id d, result_success = False,
              result_error = Some (cannot_read JNull ''join''), executedAt = date_now pf \<rparr>,
            snd (rpc_record_schedule_error (schedule_id d) (cannot_read JNull ''join'')
                   (begin_call (Select_dealer_settings (due_user_id d))
                      (begin_call (Select_encrypted_blob (due_user_id d)) w))))"
proof -
  have s: "select_encrypted_blob (due_user_id d) w =
      (Inr k, begin_call (Select_encrypted_blob (due_user_id d)) w)"
    using assms(1) snd_select_encrypted_blob [of "due_user_id d" w]
    by (cases "select_encrypted_blob (due_user_id d) w") simp
  obtain us where u: "select_dealer_settings (due_user_id d)
        (begin_call (Select_encrypted_blob (due_user_id d)) w) =
      (us, begin_call (Select_dealer_settings (due_user_id d))
             (begin_call (Select_encrypted_blob (due_user_id d)) w))"
    using snd_select_dealer_settings [of "due_user_id d"
        "begin_call (Select_encrypted_blob (due_user_id d)) w"]
    by (cases "select_dealer_settings (due_user_id d)
        (begin_call (Select_encrypted_blob (due_user_id d)) w)") simp
  have t: "executeSchedule_try pf d w =
      (Inl (JsError (cannot_read JNull ''join'')),
       begin_call (Select_dealer_settings (due_user_id d))
         (begin_call (Select_encrypted_blob (due_user_id d)) w))"
    by (simp add: executeSchedule_try_def s u assms(2))
  show ?thesis by (simp add: executeSchedule_def t exn_message_def)
qed

lemma executeSchedule_log:
  "\<exists>cs. call_log (snd (executeSchedule pf d w)) = call_log w @ cs \<and> list_all executor_call cs"
proof (cases "fst (select_encrypted_blob (due_user_id d) w)")
  case (Inl err)
  show ?thesis
    by (simp add: executeSchedule_no_key [OF Inl] log_rpc_record_schedule_error log_begin_call
        executor_call_def)
next
  case (Inr k)
  show ?thesis
  proof (cases "due_coins d")
    case None
    show ?thesis
      by (simp add: executeSchedule_null_coins [OF Inr None] log_rpc_record_schedule_error
          log_begin_call executor_call_def)
  next
    case (Some cl)
    show ?thesis
      by (simp add: executeSchedule_with_key [OF Inr Some] log_rpc_record_schedule_success
          log_begin_call executor_call_def)
  qed
qed

lemma executeSchedules_log:
  "\<exists>cs. call_log (snd (executeSchedules pf ds w)) = call_log w @ cs \<and> list_all executor_call cs"
proof (induction ds arbitrary: w)
  case Nil
  then show ?case by simp
next
  case (Cons d ds)
  obtain r w1 where e: "executeSchedule pf d w = (r, w1)" by (cases "executeSchedule pf d w")
  obtain rs w2 where es: "executeSchedules pf ds w1 = (rs, w2)"
    by (cases "executeSchedules pf ds w1")
  from executeSchedule_log [of pf d w] e obtain cs1 where
    1: "call_log w1 = call_log w @ cs1" "list_all executor_call cs1" by auto
  from Cons.IH [of w1] es obtain cs2 where
    2: "call_log w2 = call_log w1 @ cs2" "list_all executor_call cs2" by auto
  have "call_log (snd (executeSchedules pf (d # ds) w)) = call_log w @ (cs1 @ cs2)"
    by (simp add: e es 1 2)
  moreover have "list_all executor_call (cs1 @ cs2)" using 1 2 by simp
  ultimately show ?case by blast
qed

lemma executeSchedules_foldl:
  "foldl (\<lambda>(rs, v) d. (rs @ [fst (executeSchedule pf d v)], snd (executeSchedule pf d v)))
     (acc, w) ds =
   (acc @ fst (executeSchedules pf ds w), snd (executeSchedules pf ds w))"
proof (induction ds arbitrary: acc w)
  case Nil
  then show ?case by simp
next
  case (Cons d ds)
  have e: "fst (executeSchedules pf (d # ds) w) =
      fst (executeSchedule pf d w) # fst (executeSchedules pf ds (snd (executeSchedule pf d w)))"
    "snd (executeSchedules pf (d # ds) w) =
      snd (executeSchedules pf ds (snd (executeSchedule pf d w)))"
    by (simp_all add: split_beta)
  have "foldl (\<lambda>(rs, v) d. (rs @ [fst (executeSchedule pf d v)], snd (executeSchedule pf d v)))
      (acc, w) (d # ds) =
    foldl (\<lambda>(rs, v) d. (rs @ [fst (executeSchedule pf d v)], snd (executeSchedule pf d v)))
      (acc @ [fst (executeSchedule pf d w)], snd (executeSchedule pf d w)) ds"
    by simp
  also have "\<dots> =
      ((acc @ [fst (executeSchedule pf d w)]) @
         fst (executeSchedules pf ds (snd (executeSchedule pf d w))),
       snd (executeSchedules pf ds (snd (executeSchedule pf d w))))"
    by (rule Cons.IH)
  finally show ?case by (simp only: e append_assoc append_Cons append_Nil)
qed

lemma executeSchedules_length: "length (fst (executeSchedules pf ds w)) = length ds"
  by (induction ds arbitrary: w) (simp_all add: split_beta)

lemma cron_trigger_authorized:
  assumes "\<not> handleCors req" and "truthy (x_cron_secret req)"
    and "x_cron_secret req = deno_env_get pf ''CRON_SECRET''"
    and "createSupabaseClient pf = Inr ()"
  shows "cron_trigger pf handleCors req w =
     (case rpc_get_due_schedules w of
        (Inl fetchError, w1) \<Rightarrow>
          (Error_response (fst handleError_unknown) (snd handleError_unknown), w1)
      | (Inr [], w1) \<Rightarrow>
          (Json_response
             \<lparr> report_message = Some ''No schedules due'', executed = 0,
               successCount = None, failureCount = None, results = [] \<rparr>,
           w1)
      | (Inr (first_due # others), w1) \<Rightarrow>
          (case executeSchedules pf (first_due # others) w1 of
             (rs, w2) \<Rightarrow>
               (Json_response
                  \<lparr> report_message = None, executed = length rs,
                    successCount = Some (length (filter result_success rs)),
                    failureCount = Some (length (filter (\<lambda>r. \<not> result_success r) rs)),
                    results = rs \<rparr>,
                w2)))"
  using assms by (simp add: cron_trigger_def)

lemma cron_trigger_log:
  assumes "\<not> handleCors req" and "truthy (x_cron_secret req)"
    and "x_cron_secret req = deno_env_get pf ''CRON_SECRET''"
    and "createSupabaseClient pf = Inr ()"
  shows "\<exists>cs. call_log (snd (cron_trigger pf handleCors req w)) =
           call_log w @ Rpc_get_due_schedules # cs \<and> list_all executor_call cs"
proof -
  obtain r w1 where g: "rpc_get_due_schedules w = (r, w1)" by (cases "rpc_get_due_schedules w")
  then have l: "call_log w1 = call_log w @ [Rpc_get_due_schedules]"
    using log_rpc_get_due_schedules [of w] by simp
  note c = cron_trigger_authorized [where handleCors = handleCors and req = req and w = w, OF assms]
  show ?thesis
  proof (cases r)
    case (Inl fetchError)
    then have "call_log (snd (cron_trigger pf handleCors req w)) =
        call_log w @ Rpc_get_due_schedules # []"
      by (simp add: c g l)
    then show ?thesis by (intro exI [of _ "[]"]) simp
  next
    case (Inr due)
    show ?thesis
    proof (cases due)
      case Nil
      with Inr have "call_log (snd (cron_trigger pf handleCors req w)) =
          call_log w @ Rpc_get_due_schedules # []"
        by (simp add: c g l)
      then show ?thesis by (intro exI [of _ "[]"]) simp
    next
      case (Cons first_due others)
      obtain rs w2 where es: "executeSchedules pf (first_due # others) w1 = (rs, w2)"
        by (cases "executeSchedules pf (first_due # others) w1")
      from executeSchedules_log [of pf "first_due # others" w1] es obtain cs where
        cs: "call_log w2 = call_log w1 @ cs" "list_all executor_call cs" by auto
      from Inr Cons have "call_log (snd (cron_trigger pf handleCors req w)) = call_log w2"
        by (simp add: c g es del: executeSchedules.simps)
      with cs l have "call_log (snd (cron_trigger pf handleCors req w)) =
          call_log w @ Rpc_get_due_schedules # cs" by simp
      with cs(2) show ?thesis by blast
    qed
  qed
qed

lemma cron_trigger_fetch_failed:
  assumes "\<not> handleCors req" and "truthy (x_cron_secret req)"
    and "x_cron_secret req = deno_env_get pf ''CRON_SECRET''"
    and "createSupabaseClient pf = Inr ()" and "next_fault w"
  shows "cron_trigger pf handleCors req w =
     (Error_response ''INTERNAL_ERROR: Internal server error'' 500,
      begin_call Rpc_get_due_schedules w)"
proof -
  have g: "rpc_get_due_schedules w = (Inl Fetch_failed, begin_call Rpc_get_due_schedules w)"
    using assms(5) by (simp add: rpc_get_due_schedules_def Let_def)
  note c = cron_trigger_authorized [where handleCors = handleCors and req = req and w = w, OF assms(1-4)]
  show ?thesis by (simp add: c g handleError_unknown_def)
qed

lemma cron_trigger_run:
  assumes "\<not> handleCors req" and "truthy (x_cron_secret req)"
    and "x_cron_secret req = deno_env_get pf ''CRON_SECRET''"
    and "createSupabaseClient pf = Inr ()" and "\<not> next_fault w"
  shows "cron_trigger pf handleCors req w =
     (if get_due_schedules (clock w) (cron_schedules w) = []
      then (Json_response
              \<lparr> report_message = Some ''No schedules due'', executed = 0,
                successCount = None, failureCount = None, results = [] \<rparr>,
            begin_call Rpc_get_due_schedules w)
      else (Json_response
              \<lparr> report_message = None,
                executed = length (get_due_schedules (clock w) (cron_schedules w)),
                successCount = Some (length (filter result_success
                  (fst (executeSchedules pf (get_due_schedules (clock w) (cron_schedules w))
                          (begin_call Rpc_get_due_schedules w))))),
                failureCount = Some (length (filter (\<lambda>r. \<not> result_success r)
                  (fst (executeSchedules pf (get_due_schedules (clock w) (cron_schedules w))
                          (begin_call Rpc_get_due_schedules w))))),
                results =
                  fst (executeSchedules pf (get_due_schedules (clock w) (cron_schedules w))
                         (begin_call Rpc_get_due_schedules w)) \<rparr>,
            snd (executeSchedules pf (get_due_schedules (clock w) (cron_schedules w))
                   (begin_call Rpc_get_due_schedules w))))"
proof -
  let ?due = "get_due_schedules (clock w) (cron_schedules w)"
  have g: "rpc_get_due_schedules w = (Inr ?due, begin_call Rpc_get_due_schedules w)"
    using assms(5) by (simp add: rpc_get_due_schedules_def Let_def begin_call_def)
  note c = cron_trigger_authorized [where handleCors = handleCors and req = req and w = w, OF assms(1-4)]
  show ?thesis
  proof (cases ?due)
    case Nil
    then show ?thesis by (simp add: c g)
  next
    case (Cons first_due others)
    obtain rs w2 where es:
      "executeSchedules pf (first_due # others) (begin_call Rpc_get_due_schedules w) = (rs, w2)"
      by (cases "executeSchedules pf (first_due # others) (begin_call Rpc_get_due_schedules w)")
    from executeSchedules_length [of pf "first_due # others" "begin_call Rpc_get_due_schedules w"] es
    have "length rs = length (first_due # others)" by simp
    with Cons show ?thesis by (simp add: c g es del: executeSchedules.simps)
  qed
qed

text \<open>
  Claim C9 (as amended). An invocation that is not answered by the CORS handler, passes
  the secret check and has a configured client calls \<^verbatim>\<open>get_due_schedules\<close> once, first, and
  every later call is one of \<^verbatim>\<open>executeSchedule\<close>'s: the key-blob lookup, the
  dealer-settings lookup or an outcome record; the custodian (\<^verbatim>\<open>getExecutionPassword\<close>) is
  never asked. When the fetch fails the answer is the error 500 and nothing is executed.
  When it succeeds the due schedules are executed by \<^verbatim>\<open>executeSchedule\<close> one after the other,
  in the order fetched, each on the database as the one before left it, and the report
  holds their results and the counts of successes and failures. For each schedule,
  \<^verbatim>\<open>executeSchedule\<close> records the error \<^verbatim>\<open>No encrypted key found for user\<close> when the owner's
  key record is not found; with a key record, it records the \<^verbatim>\<open>TypeError\<close> of \<^verbatim>\<open>coins.join\<close> as
  the error when the schedule's \<open>coins\<close> is null, and otherwise runs the analysis only and
  records success. An outcome record that reaches the database changes the table as
  \<^verbatim>\<open>record_schedule_error\<close> or \<^verbatim>\<open>record_schedule_success\<close> says, and one that does not
  reach it, or raises there, leaves the table as it was.
\<close>

theorem cron_trigger_analysis_only:
  assumes "\<not> handleCors req" and "truthy (x_cron_secret req)"
    and "x_cron_secret req = deno_env_get pf ''CRON_SECRET''"
    and "createSupabaseClient pf = Inr ()"
    and "w1 = begin_call Rpc_get_due_schedules w"
    and "due = get_due_schedules (clock w) (cron_schedules w)"
    and "run = foldl (\<lambda>(rs, v) d. (rs @ [fst (executeSchedule pf d v)],
                                    snd (executeSchedule pf d v))) ([], w1) due"
  shows
  "(\<exists>cs. call_log (snd (cron_trigger pf handleCors req w)) =
           call_log w @ Rpc_get_due_schedules # cs \<and> list_all executor_call cs) \<and>
   (next_fault w \<longrightarrow>
      cron_trigger pf handleCors req w =
        (Error_response ''INTERNAL_ERROR: Internal server error'' 500, w1)) \<and>
   (\<not> next_fault w \<and> due = [] \<longrightarrow>
      cron_trigger pf handleCors req w =
        (Json_response
           \<lparr> report_message = Some ''No schedules due'', executed = 0,
             successCount = None, failureCount = None, results = [] \<rparr>,
         w1)) \<and>
   (\<not> next_fault w \<and> due \<noteq> [] \<longrightarrow>
      cron_trigger pf handleCors req w =
        (Json_response
           \<lparr> report_message = None, executed = length due,
             successCount = Some (length (filter result_success (fst run))),
             failureCount = Some (length (filter (\<lambda>r. \<not> result_success r) (fst run))),
             results = fst run \<rparr>,
         snd run)) \<and>
   (\<forall>d v. (\<exists>err. fst (select_encrypted_blob (due_user_id d) v) = Inl err) \<longrightarrow>
      executeSchedule pf d v =
        (\<lparr> scheduleId = schedule_id d, result_userId = due_user_id d, result_success = False,
           result_error = Some ''No encrypted key found for user'', executedAt = date_now pf \<rparr>,
         snd (rpc_record_schedule_error (schedule_id d) ''No encrypted key found for user''
                (begin_call (Select_encrypted_blob (due_user_id d)) v))) \<and>
      call_log (snd (executeSchedule pf d v)) =
        call_log v @ [Select_encrypted_blob (due_user_id d),
                      Rpc_record_schedule_error (schedule_id d) ''No encrypted key found for user'']) \<and>
   (\<forall>d v. (\<exists>k. fst (select_encrypted_blob (due_user_id d) v) = Inr k) \<and> due_coins d = None \<longrightarrow>
      executeSchedule pf d v =
        (\<lparr> scheduleId = schedule_id d, result_userId = due_user_id d, result_success = False,
           result_error = Some (cannot_read JNull ''join''), executedAt = date_now pf \<rparr>,
         snd (rpc_record_schedule_error (schedule_id d) (cannot_read JNull ''join'')
                (begin_call (Select_dealer_settings (due_user_id d))
                   (begin_call (Select_encrypted_blob (due_user_id d)) v)))) \<and>
      call_log (snd (executeSchedule pf d v)) =
        call_log v @ [Select_encrypted_blob (due_user_id d),
                      Select_dealer_settings (due_user_id d),
                      Rpc_record_schedule_error (schedule_id d) (cannot_read JNull ''join'')]) \<and>
   (\<forall>d v. (\<exists>k. fst (select_encrypted_blob (due_user_id d) v) = Inr k) \<and>
          (\<exists>coin_list. due_coins d = Some coin_list) \<longrightarrow>
      executeSchedule pf d v =
        (\<lparr> scheduleId = schedule_id d, result_userId = due_user_id d, result_success = True,
           result_error = None, executedAt = date_now pf \<rparr>,
         snd (rpc_record_schedule_success (schedule_id d)
                (begin_call (Select_dealer_settings (due_user_id d))
                   (begin_call (Select_encrypted_blob (due_user_id d)) v)))) \<and>
      call_log (snd (executeSchedule pf d v)) =
        call_log v @ [Select_encrypted_blob (due_user_id d),
                      Select_dealer_settings (due_user_id d),
                      Rpc_record_schedule_success (schedule_id d)]) \<and>
   (\<forall>s m v.
      cron_schedules (snd (rpc_record_schedule_error s m v)) =
        (if next_fault v then cron_schedules v
         else
           (case record_schedule_error (clock v) s (Some m) (cron_schedules v) of
              Inl e \<Rightarrow> cron_schedules v
            | Inr tbl \<Rightarrow> tbl)) \<and>
      cron_schedules (snd (rpc_record_schedule_success s v)) =
        (if next_fault v then cron_schedules v
         else
           (case record_schedule_success (clock v) s (cron_schedules v) of
              Inl e \<Rightarrow> cron_schedules v
            | Inr tbl \<Rightarrow> tbl)))"
proof -
  note auth = assms(1-4)
  have run: "run = executeSchedules pf due w1"
    unfolding assms(7) by (simp add: executeSchedules_foldl)
  have 1: "\<exists>cs. call_log (snd (cron_trigger pf handleCors req w)) =
           call_log w @ Rpc_get_due_schedules # cs \<and> list_all executor_call cs"
    by (rule cron_trigger_log [where handleCors = handleCors and req = req, OF auth])
  have 2: "next_fault w \<longrightarrow>
      cron_trigger pf handleCors req w =
        (Error_response ''INTERNAL_ERROR: Internal server error'' 500, w1)"
    using cron_trigger_fetch_failed [where handleCors = handleCors and req = req and w = w, OF auth]
    by (simp add: assms(5))
  have 3: "\<not> next_fault w \<and> due = [] \<longrightarrow>
      cron_trigger pf handleCors req w =
        (Json_response
           \<lparr> report_message = Some ''No schedules due'', executed = 0,
             successCount = None, failureCount = None, results = [] \<rparr>,
         w1)"
    using cron_trigger_run [where handleCors = handleCors and req = req and w = w, OF auth]
    by (simp add: assms(5,6))
  have 4: "\<not> next_fault w \<and> due \<noteq> [] \<longrightarrow>
      cron_trigger pf handleCors req w =
        (Json_response
           \<lparr> report_message = None, executed = length due,
             successCount = Some (length (filter result_success (fst run))),
             failureCount = Some (length (filter (\<lambda>r. \<not> result_success r) (fst run))),
             results = fst run \<rparr>,
         snd run)"
    using cron_trigger_run [where handleCors = handleCors and req = req and w = w, OF auth]
    by (simp add: run assms(5,6))
  have 5: "\<forall>d v. (\<exists>err. fst (select_encrypted_blob (due_user_id d) v) = Inl err) \<longrightarrow>
      executeSchedule pf d v =
        (\<lparr> scheduleId = schedule_id d, result_userId = due_user_id d, result_success = False,
           result_error = Some ''No encrypted key found for user'', executedAt = date_now pf \<rparr>,
         snd (rpc_record_schedule_error (schedule_id d) ''No encrypted key found for user''
                (begin_call (Select_encrypted_blob (due_user_id d)) v))) \<and>
      call_log (snd (executeSchedule pf d v)) =
        call_log v @ [Select_encrypted_blob (due_user_id d),
                      Rpc_record_schedule_error (schedule_id d) ''No encrypted key found for user'']"
  proof (intro allI impI, elim exE)
    fix d :: due_schedule and v err
    assume "fst (select_encrypted_blob (due_user_id d) v) = Inl err"
    note e = executeSchedule_no_key [OF this, of pf]
    show "executeSchedule pf d v =
        (\<lparr> scheduleId = schedule_id d, result_userId = due_user_id d, result_success = False,
           result_error = Some ''No encrypted key found for user'', executedAt = date_now pf \<rparr>,
         snd (rpc_record_schedule_error (schedule_id d) ''No encrypted key found for user''
                (begin_call (Select_encrypted_blob (due_user_id d)) v))) \<and>
      call_log (snd (executeSchedule pf d v)) =
        call_log v @ [Select_encrypted_blob (due_user_id d),
                      Rpc_record_schedule_error (schedule_id d) ''No encrypted key found for user'']"
      by (simp add: e log_rpc_record_schedule_error log_begin_call)
  qed
  have 6: "\<forall>d v. (\<exists>k. fst (select_encrypted_blob (due_user_id d) v) = Inr k) \<and> due_coins d = None \<longrightarrow>
      executeSchedule pf d v =
        (\<lparr> scheduleId = schedule_id d, result_userId = due_user_id d, result_success = False,
           result_error = Some (cannot_read JNull ''join''), executedAt = date_now pf \<rparr>,
         snd (rpc_record_schedule_error (schedule_id d) (cannot_read JNull ''join'')
                (begin_call (Select_dealer_settings (due_user_id d))
                   (begin_call (Select_encrypted_blob (due_user_id d)) v)))) \<and>
      call_log (snd (executeSchedule pf d v)) =
        call_log v @ [Select_encrypted_blob (due_user_id d),
                      Select_dealer_settings (due_user_id d),
                      Rpc_record_schedule_error (schedule_id d) (cannot_read JNull ''join'')]"
  proof (intro allI impI, elim conjE exE)
    fix d :: due_schedule and v k
    assume "fst (select_encrypted_blob (due_user_id d) v) = Inr k" "due_coins d = None"
    note e = executeSchedule_null_coins [OF this, of pf]
    show "executeSchedule pf d v =
        (\<lparr> scheduleId = schedule_id d, result_userId = due_user_id d, result_success = False,
           result_error = Some (cannot_read JNull ''join''), executedAt = date_now pf \<rparr>,
         snd (rpc_record_schedule_error (schedule_id d) (cannot_read JNull ''join'')
                (begin_call (Select_dealer_settings (due_user_id d))
                   (begin_call (Select_encrypted_blob (due_user_id d)) v)))) \<and>
      call_log (snd (executeSchedule pf d v)) =
        call_log v @ [Select_encrypted_blob (due_user_id d),
                      Select_dealer_settings (due_user_id d),
                      Rpc_record_schedule_error (schedule_id d) (cannot_read JNull ''join'')]"
      by (simp add: e log_rpc_record_schedule_error log_begin_call)
  qed
  have 7: "\<forall>d v. (\<exists>k. fst (select_encrypted_blob (due_user_id d) v) = Inr k) \<and>
          (\<exists>coin_list. due_coins d = Some coin_list) \<longrightarrow>
      executeSchedule pf d v =
        (\<lparr> scheduleId = schedule_id d, result_userId = due_user_id d, result_success = True,
           result_error = None, executedAt = date_now pf \<rparr>,
         snd (rpc_record_schedule_success (schedule_id d)
                (begin_call (Select_dealer_settings (due_user_id d))
                   (begin_call (Select_encrypted_blob (due_user_id d)) v)))) \<and>
      call_log (snd (executeSchedule pf d v)) =
        call_log v @ [Select_encrypted_blob (due_user_id d),
                      Select_dealer_settings (due_user_id d),
                      Rpc_record_schedule_success (schedule_id d)]"
  proof (intro allI impI, elim conjE exE)
    fix d :: due_schedule and v k coin_list
    assume "fst (select_encrypted_blob (due_user_id d) v) = Inr k" "due_coins d = Some coin_list"
    note e = executeSchedule_with_key [OF this, of pf]
    show "executeSchedule pf d v =
        (\<lparr> scheduleId = schedule_id d, result_userId = due_user_id d, result_success = True,
           result_error = None, executedAt = date_now pf \<rparr>,
         snd (rpc_record_schedule_success (schedule_id d)
                (begin_call (Select_dealer_settings (due_user_id d))
                   (begin_call (Select_encrypted_blob (due_user_id d)) v)))) \<and>
      call_log (snd (executeSchedule pf d v)) =
        call_log v @ [Select_encrypted_blob (due_user_id d),
                      Select_dealer_settings (due_user_id d),
                      Rpc_record_schedule_success (schedule_id d)]"
      by (simp add: e log_rpc_record_schedule_success log_begin_call)
  qed
  have 8: "\<forall>s m v.
      cron_schedules (snd (rpc_record_schedule_error s m v)) =
        (if next_fault v then cron_schedules v
         else
           (case record_schedule_error (clock v) s (Some m) (cron_schedules v) of
              Inl e \<Rightarrow> cron_schedules v
            | Inr tbl \<Rightarrow> tbl)) \<and>
      cron_schedules (snd (rpc_record_schedule_success s v)) =
        (if next_fault v then cron_schedules v
         else
           (case record_schedule_success (clock v) s (cron_schedules v) of
              Inl e \<Rightarrow> cron_schedules v
            | Inr tbl \<Rightarrow> tbl))"
    by (intro allI conjI) (rule rpc_record_schedule_error_table rpc_record_schedule_success_table)+
  from 1 2 3 4 5 6 7 8 show ?thesis by (intro conjI)
qed

lemma analysis_due:
  "get_due_schedules (clock analysis_world) (cron_schedules analysis_world) =
     [\<lparr> schedule_id = ''c1'', due_user_id = ''u9'', due_coins = Some [''BTC''],
        due_interval_seconds = 300 \<rparr>]"
  by code_simp

lemma analysis_run:
  "fst (foldl (\<lambda>(rs, v) d. (rs @ [fst (executeSchedule toy_platform d v)],
                              snd (executeSchedule toy_platform d v)))
          ([], begin_call Rpc_get_due_schedules analysis_world)
          [\<lparr> schedule_id = ''c1'', due_user_id = ''u9'', due_coins = Some [''BTC''],
             due_interval_seconds = 300 \<rparr>]) =
     [\<lparr> scheduleId = ''c1'', result_userId = ''u9'', result_success = True,
        result_error = None, executedAt = 100 \<rparr>]"
  by code_simp

theorem cron_trigger_analysis_only_witness:
  "fst (cron_trigger toy_platform (\<lambda>r. False) trigger_request analysis_world) =
     Json_response
       \<lparr> report_message = None, executed = 1, successCount = Some 1, failureCount = Some 0,
         results = [\<lparr> scheduleId = ''c1'', result_userId = ''u9'', result_success = True,
                      result_error = None, executedAt = 100 \<rparr>] \<rparr> \<and>
   result_error (fst (executeSchedule toy_platform
       \<lparr> schedule_id = ''c2'', due_user_id = ''nobody'', due_coins = Some [],
         due_interval_seconds = 300 \<rparr> analysis_world)) =
     Some ''No encrypted key found for user'' \<and>
   result_error (fst (executeSchedule toy_platform
       \<lparr> schedule_id = ''c3'', due_user_id = ''u9'', due_coins = None,
         due_interval_seconds = 300 \<rparr> analysis_world)) =
     Some ''Cannot read properties of null (reading 'join')''"
proof -
  have a: "\<not> (\<lambda>r. False) trigger_request" "truthy (x_cron_secret trigger_request)"
    "x_cron_secret trigger_request = deno_env_get toy_platform ''CRON_SECRET''"
    by (simp_all add: trigger_request_def truthy_def toy_platform_def)
  note t = cron_trigger_analysis_only [where handleCors = "\<lambda>r. False" and req = trigger_request
      and pf = toy_platform and w = analysis_world, OF a toy_client refl refl refl]
  have nf: "\<not> next_fault analysis_world \<and>
      get_due_schedules (clock analysis_world) (cron_schedules analysis_world) \<noteq> []"
    by (simp add: analysis_due) (simp add: next_fault_def analysis_world_def)
  from t [THEN conjunct2, THEN conjunct2, THEN conjunct2, THEN conjunct1, rule_format, OF nf,
      unfolded analysis_due analysis_run]
  have 1: "fst (cron_trigger toy_platform (\<lambda>r. False) trigger_request analysis_world) =
     Json_response
       \<lparr> report_message = None, executed = 1, successCount = Some 1, failureCount = Some 0,
         results = [\<lparr> scheduleId = ''c1'', result_userId = ''u9'', result_success = True,
                      result_error = None, executedAt = 100 \<rparr>] \<rparr>"
    by simp
  have "\<exists>err. fst (select_encrypted_blob
      (due_user_id \<lparr> schedule_id = ''c2'', due_user_id = ''nobody'', due_coins = Some [],
         due_interval_seconds = 300 \<rparr>) analysis_world) = Inl err"
    by (simp add: select_encrypted_blob_def Let_def next_fault_def analysis_world_def
        hyperliquid_key_rows_def begin_call_def single_def)
  from t [THEN conjunct2, THEN conjunct2, THEN conjunct2, THEN conjunct2, THEN conjunct1,
      rule_format, OF this]
  have 2: "result_error (fst (executeSchedule toy_platform
       \<lparr> schedule_id = ''c2'', due_user_id = ''nobody'', due_coins = Some [],
         due_interval_seconds = 300 \<rparr> analysis_world)) =
     Some ''No encrypted key found for user''"
    by simp
  have "(\<exists>k. fst (select_encrypted_blob
      (due_user_id \<lparr> schedule_id = ''c3'', due_user_id = ''u9'', due_coins = None,
         due_interval_seconds = 300 \<rparr>) analysis_world) = Inr k) \<and>
      due_coins \<lparr> schedule_id = ''c3'', due_user_id = ''u9'', due_coins = None,
         due_interval_seconds = 300 \<rparr> = None"
    by (simp add: select_encrypted_blob_def Let_def next_fault_def analysis_world_def
        hyperliquid_key_rows_def begin_call_def single_def)
  from t [THEN conjunct2, THEN conjunct2, THEN conjunct2, THEN conjunct2, THEN conjunct2,
      THEN conjunct1, rule_format, OF this]
  have 3: "result_error (fst (executeSchedule toy_platform
       \<lparr> schedule_id = ''c3'', due_user_id = ''u9'', due_coins = None,
         due_interval_seconds = 300 \<rparr> analysis_world)) =
     Some ''Cannot read properties of null (reading 'join')''"
    by (simp add: cannot_read_def)
  from 1 2 3 show ?thesis by (intro conjI)
qed

theorem cron_trigger_credentials_counterexample:
  "tier (fst (getExecutionPassword toy_platform ''u9'' analysis_world)) = No_tier \<and>
   call_log (snd (cron_trigger toy_platform (\<lambda>r. False) trigger_request analysis_world)) =
     [Rpc_get_due_schedules, Select_encrypted_blob ''u9'', Select_dealer_settings ''u9'',
      Rpc_record_schedule_success ''c1''] \<and>
   map last_error
     (cron_schedules (snd (cron_trigger toy_platform (\<lambda>r. False) trigger_request analysis_world))) =
     [None] \<and>
   map run_count
     (cron_schedules (snd (cron_trigger toy_platform (\<lambda>r. False) trigger_request analysis_world))) =
     [Some 1]"
  by code_simp

end
